theory Spec2Isabelle
  imports Main
begin

section \<open>Python values\<close>

text \<open>
  The module \<^verbatim>\<open>django_sorcery/db/relations.py\<close> is dynamically typed glue between a
  caller's keyword arguments and the objects of the host ORM (SQLAlchemy). The values
  that travel through keyword arguments and \<^verbatim>\<open>info\<close> dictionaries are embedded as
  \<open>pyval\<close>. A dictionary is an association list in insertion order; a Python dictionary
  has pairwise distinct keys, which theorems ask for where it matters. A table is
  referred to by the metadata object that holds it and its key there.
\<close>

type_synonym tref = "nat \<times> string"

datatype pyval =
    PNone
  | PBool bool
  | PStr string
  | PTuple "pyval list"
  | PDict "(string \<times> pyval) list"
  | PTable tref

type_synonym pydict = "(string \<times> pyval) list"

text \<open>
  Every \<^verbatim>\<open>raise\<close> is a value. \<open>ArgumentError\<close> carries its message.
  \<open>DanglingReference\<close> answers a reference to a class or table that the state does
  not hold, which the running program cannot build; \<open>NotModelled\<close> answers the few
  conversions whose result is text produced by the host (the \<^verbatim>\<open>repr\<close> of a tuple,
  a dictionary or a table, a table whose name is not a string), so that no result is
  made up for them.
\<close>

datatype error =
    ArgumentError string
  | AttributeError
  | TypeError
  | ValueError
  | KeyError string
  | UnmappedColumnError
  | InvalidRequestError
  | DanglingReference
  | NotModelled

text \<open>Truth value of a Python value; the host's tables refuse to be tested for truth.\<close>

fun py_bool :: "pyval \<Rightarrow> error + bool" where
  "py_bool PNone = Inr False"
| "py_bool (PBool b) = Inr b"
| "py_bool (PStr s) = Inr (s \<noteq> [])"
| "py_bool (PTuple xs) = Inr (xs \<noteq> [])"
| "py_bool (PDict d) = Inr (d \<noteq> [])"
| "py_bool (PTable t) = Inl TypeError"

text \<open>\<^verbatim>\<open>key.startswith(prefix)\<close>\<close>

fun startswith :: "string \<Rightarrow> string \<Rightarrow> bool" where
  "startswith s [] = True"
| "startswith [] (p # ps) = False"
| "startswith (c # s) (p # ps) = (c = p \<and> startswith s ps)"

text \<open>\<^verbatim>\<open>str.lower()\<close> on the ASCII letters.\<close>

definition lower_char :: "char \<Rightarrow> char" where
  "lower_char c =
     (let n = (of_char c :: nat) in if 65 \<le> n \<and> n \<le> 90 then char_of (n + 32) else c)"

definition lower :: "string \<Rightarrow> string" where
  "lower s = map lower_char s"

text \<open>\<^verbatim>\<open>"_".join(filter(None, [a, n]))\<close> where \<open>n\<close> is a string.\<close>

definition join_filter :: "pyval \<Rightarrow> string \<Rightarrow> error + string" where
  "join_filter a n =
     (case py_bool a of
        Inl e \<Rightarrow> Inl e
      | Inr keep \<Rightarrow>
          if keep
          then (case a of
                  PStr s \<Rightarrow> Inr (if n = [] then s else s @ ''_'' @ n)
                | _ \<Rightarrow> Inl TypeError)
          else Inr n)"

text \<open>\<^verbatim>\<open>"{}".format(v)\<close>, where the model knows the text.\<close>

fun py_format :: "pyval \<Rightarrow> string option" where
  "py_format PNone = Some ''None''"
| "py_format (PBool b) = Some (if b then ''True'' else ''False'')"
| "py_format (PStr s) = Some s"
| "py_format (PTuple xs) = None"
| "py_format (PDict d) = None"
| "py_format (PTable t) = None"

text \<open>\<^verbatim>\<open>a, b = v\<close>\<close>

fun py_unpack2 :: "pyval \<Rightarrow> error + (pyval \<times> pyval)" where
  "py_unpack2 (PTuple [a, b]) = Inr (a, b)"
| "py_unpack2 (PTuple xs) = Inl ValueError"
| "py_unpack2 (PStr [a, b]) = Inr (PStr [a], PStr [b])"
| "py_unpack2 (PStr s) = Inl ValueError"
| "py_unpack2 (PDict [(a, x), (b, y)]) = Inr (PStr a, PStr b)"
| "py_unpack2 (PDict d) = Inl ValueError"
| "py_unpack2 v = Inl TypeError"

subsection \<open>Dictionaries\<close>

text \<open>\<^verbatim>\<open>d[k] = v\<close>: an existing key keeps its place, a new key goes last.\<close>

fun dict_set :: "('k \<times> 'v) list \<Rightarrow> 'k \<Rightarrow> 'v \<Rightarrow> ('k \<times> 'v) list" where
  "dict_set [] k v = [(k, v)]"
| "dict_set ((k', v') # d) k v = (if k' = k then (k, v) # d else (k', v') # dict_set d k v)"

text \<open>The dictionary left by \<^verbatim>\<open>d.pop(k)\<close> and \<^verbatim>\<open>d.pop(k, default)\<close>.\<close>

definition dict_pop :: "('k \<times> 'v) list \<Rightarrow> 'k \<Rightarrow> ('k \<times> 'v) list" where
  "dict_pop d k = filter (\<lambda>kv. fst kv \<noteq> k) d"

text \<open>\<^verbatim>\<open>d.get(k, default)\<close>, also the value of \<^verbatim>\<open>d.pop(k, default)\<close>.\<close>

definition dict_get :: "('k \<times> 'v) list \<Rightarrow> 'k \<Rightarrow> 'v \<Rightarrow> 'v" where
  "dict_get d k dflt = (case map_of d k of None \<Rightarrow> dflt | Some v \<Rightarrow> v)"

text \<open>The dictionary left by \<^verbatim>\<open>d.setdefault(k, v)\<close>.\<close>

definition dict_setdefault :: "('k \<times> 'v) list \<Rightarrow> 'k \<Rightarrow> 'v \<Rightarrow> ('k \<times> 'v) list" where
  "dict_setdefault d k v = (case map_of d k of None \<Rightarrow> d @ [(k, v)] | Some w \<Rightarrow> d)"

text \<open>\<^verbatim>\<open>d.update(e)\<close>\<close>

fun dict_update :: "('k \<times> 'v) list \<Rightarrow> ('k \<times> 'v) list \<Rightarrow> ('k \<times> 'v) list" where
  "dict_update d [] = d"
| "dict_update d ((k, v) # e) = dict_update (dict_set d k v) e"

section \<open>The host ORM's objects\<close>

text \<open>
  Columns, constraints, tables, relationship descriptors and mapped classes are the
  host's; the model keeps of each the data this module reads and writes. Constructors of
  the host record their arguments; the options that a caller forwards to the host (the
  remaining \<^verbatim>\<open>fk_\<close> and \<^verbatim>\<open>table_\<close> entries) are stored on the object built and are
  not interpreted, and the host's own validation of them is outside the model.
\<close>

record column =
  c_name :: string
  c_type :: string
  c_nullable :: pyval
  c_primary_key :: bool
  c_table :: "tref option"

record fk_constraint =
  k_columns :: "column list"
  k_refcolumns :: "column list"
  k_kwargs :: pydict

record table =
  t_name :: string
  t_schema :: "string option"
  t_columns :: "column list"
  t_primary_key :: "column list"
  t_constraints :: "fk_constraint list"
  t_kwargs :: pydict

datatype direction = ONETOMANY | MANYTOONE | MANYTOMANY

text \<open>
  A relationship descriptor. \<open>rel_kwargs\<close> are the keyword arguments its constructor
  received. \<open>rel_key\<close> is the attribute name, which the host's mapper assigns when it
  installs the attribute; the builders below never set it.
\<close>

record relationship =
  rel_argument :: string
  rel_kwargs :: pydict
  rel_direction :: "direction option"
  rel_key :: "string option"
  rel_backref :: pyval
  rel_info :: pydict
  rel_secondary :: pyval
  rel_foreign_keys :: "column list"

text \<open>
  A mapped class: \<^verbatim>\<open>__name__\<close>, \<^verbatim>\<open>__table__\<close>, \<^verbatim>\<open>metadata\<close>, the names that
  \<^verbatim>\<open>hasattr\<close> finds (but \<^verbatim>\<open>_relationships\<close>, which has a field of its own: \<open>None\<close>
  when the class has no such attribute), the mapper's column-to-property table (the
  attribute key of each mapped column), the mapper's \<^verbatim>\<open>primary_key\<close> and the pending
  relationship set. The pending set holds objects, which never coincide, so it is a list;
  its order is the order in which Python happens to iterate the set, and nothing below
  depends on it.
\<close>

record model_class =
  cls_name :: string
  cls_table :: tref
  cls_metadata :: nat
  cls_attrs :: "string list"
  cls_columntoproperty :: "(column \<times> string) list"
  cls_primary_key :: "column list"
  cls_relationships :: "relationship list option"

text \<open>
  The program state: the mapped classes by name, and for each metadata object its
  \<^verbatim>\<open>tables\<close> dictionary.
\<close>

record state =
  classes :: "string \<Rightarrow> model_class option"
  metadata_tables :: "nat \<Rightarrow> string \<Rightarrow> table option"

definition lookup_table :: "state \<Rightarrow> tref \<Rightarrow> table option" where
  "lookup_table st r = metadata_tables st (fst r) (snd r)"

definition store_table :: "tref \<Rightarrow> table \<Rightarrow> state \<Rightarrow> state" where
  "store_table r t st =
     st\<lparr>metadata_tables := (metadata_tables st)(fst r := (metadata_tables st (fst r))(snd r := Some t))\<rparr>"

definition store_class :: "string \<Rightarrow> model_class \<Rightarrow> state \<Rightarrow> state" where
  "store_class c cl st = st\<lparr>classes := (classes st)(c := Some cl)\<rparr>"

text \<open>\<^verbatim>\<open>sa.Column(name, type, nullable=..., primary_key=...)\<close>: not yet in a table.\<close>

definition sa_Column :: "string \<Rightarrow> string \<Rightarrow> pyval \<Rightarrow> bool \<Rightarrow> column" where
  "sa_Column nm ty nullable pk =
     \<lparr>c_name = nm, c_type = ty, c_nullable = nullable, c_primary_key = pk, c_table = None\<rparr>"

text \<open>\<^verbatim>\<open>sa.ForeignKeyConstraint(columns, refcolumns, **kw)\<close>\<close>

definition sa_ForeignKeyConstraint :: "column list \<Rightarrow> column list \<Rightarrow> pydict \<Rightarrow> fk_constraint" where
  "sa_ForeignKeyConstraint columns refcolumns kw =
     \<lparr>k_columns = columns, k_refcolumns = refcolumns, k_kwargs = kw\<rparr>"

text \<open>
  The key under which the host files a table in \<^verbatim>\<open>MetaData.tables\<close>: the name, or
  \<^verbatim>\<open>schema.name\<close> for a table with a schema.
\<close>

definition table_key :: "string \<Rightarrow> string option \<Rightarrow> string" where
  "table_key nm schema = (case schema of None \<Rightarrow> nm | Some s \<Rightarrow> s @ ''.'' @ nm)"

definition attach :: "tref \<Rightarrow> column \<Rightarrow> column" where
  "attach r col = col\<lparr>c_table := Some r\<rparr>"

text \<open>
  \<^verbatim>\<open>sa.Table(name, metadata, *columns_and_constraints, schema=..., **kw)\<close>: the host
  refuses to define a key twice in one metadata object; otherwise it files the new table
  and attaches the columns to it (a column object is shared with the constraints over it,
  so those see the attachment too).
\<close>

definition sa_Table ::
  "string \<Rightarrow> nat \<Rightarrow> column list \<Rightarrow> fk_constraint list \<Rightarrow> string option \<Rightarrow> pydict \<Rightarrow> state
     \<Rightarrow> error + (tref \<times> state)" where
  "sa_Table nm m cols cons schema kw st =
     (let r = (m, table_key nm schema) in
      if lookup_table st r \<noteq> None then Inl InvalidRequestError
      else
        Inr (r, store_table r
          \<lparr>t_name = nm, t_schema = schema,
           t_columns = map (attach r) cols,
           t_primary_key = filter c_primary_key (map (attach r) cols),
           t_constraints = map (\<lambda>k. k\<lparr>k_columns := map (attach r) (k_columns k)\<rparr>) cons,
           t_kwargs = kw\<rparr> st))"

text \<open>
  \<^verbatim>\<open>relationship(argument, **kwargs)\<close>: the descriptor reads \<^verbatim>\<open>backref\<close>,
  \<^verbatim>\<open>info\<close> and \<^verbatim>\<open>secondary\<close> from its keyword arguments (the builders below always
  pass a dictionary as \<^verbatim>\<open>info\<close>).
\<close>

definition sa_relationship :: "string \<Rightarrow> pydict \<Rightarrow> relationship" where
  "sa_relationship remote_cls kwargs =
     \<lparr>rel_argument = remote_cls,
      rel_kwargs = kwargs,
      rel_direction = None,
      rel_key = None,
      rel_backref = dict_get kwargs ''backref'' PNone,
      rel_info = (case map_of kwargs ''info'' of Some (PDict d) \<Rightarrow> d | _ \<Rightarrow> []),
      rel_secondary = dict_get kwargs ''secondary'' PNone,
      rel_foreign_keys = []\<rparr>"

text \<open>\<^verbatim>\<open>backref(name, **kwargs)\<close> of the host returns the pair.\<close>

definition sa_backref :: "pyval \<Rightarrow> pydict \<Rightarrow> pyval" where
  "sa_backref nm kw = PTuple [nm, PDict kw]"

text \<open>\<^verbatim>\<open>hasattr(cls, attr)\<close>\<close>

definition hasattr :: "model_class \<Rightarrow> string \<Rightarrow> bool" where
  "hasattr cl a \<longleftrightarrow>
     a \<in> set (cls_attrs cl) \<or> (a = ''_relationships'' \<and> cls_relationships cl \<noteq> None)"

text \<open>\<^verbatim>\<open>cls.__mapper__.get_property_by_column(column).key\<close>\<close>

definition get_property_by_column :: "model_class \<Rightarrow> column \<Rightarrow> error + string" where
  "get_property_by_column cl col =
     (case map_of (cls_columntoproperty cl) col of
        None \<Rightarrow> Inl UnmappedColumnError
      | Some k \<Rightarrow> Inr k)"

text \<open>\<^verbatim>\<open>name in table.columns\<close> and \<^verbatim>\<open>table.columns[name]\<close>\<close>

definition columns_contains :: "table \<Rightarrow> string \<Rightarrow> bool" where
  "columns_contains t nm \<longleftrightarrow> nm \<in> set (map c_name (t_columns t))"

definition columns_getitem :: "table \<Rightarrow> string \<Rightarrow> error + column" where
  "columns_getitem t nm =
     (case find (\<lambda>col. c_name col = nm) (t_columns t) of
        None \<Rightarrow> Inl (KeyError nm)
      | Some col \<Rightarrow> Inr col)"

text \<open>
  \<^verbatim>\<open>setattr(cls, attr, column)\<close> on a mapped declarative class: the host appends the
  column to the table of the class, maps it under the attribute name, and the class has
  the attribute from then on. The result is the column as attached.
\<close>

definition setattr_column :: "string \<Rightarrow> string \<Rightarrow> column \<Rightarrow> state \<Rightarrow> error + (column \<times> state)" where
  "setattr_column c attr col st =
     (case classes st c of
        None \<Rightarrow> Inl DanglingReference
      | Some cl \<Rightarrow>
          (case lookup_table st (cls_table cl) of
             None \<Rightarrow> Inl DanglingReference
           | Some t \<Rightarrow>
               let col' = attach (cls_table cl) col in
               Inr (col',
                 store_class c
                   (cl\<lparr>cls_attrs := attr # cls_attrs cl,
                       cls_columntoproperty := dict_set (cls_columntoproperty cl) col' attr\<rparr>)
                   (store_table (cls_table cl) (t\<lparr>t_columns := t_columns t @ [col']\<rparr>) st))))"

text \<open>\<^verbatim>\<open>table.append_constraint(constraint)\<close> on the table of a class.\<close>

definition append_constraint :: "string \<Rightarrow> fk_constraint \<Rightarrow> state \<Rightarrow> error + state" where
  "append_constraint c k st =
     (case classes st c of
        None \<Rightarrow> Inl DanglingReference
      | Some cl \<Rightarrow>
          (case lookup_table st (cls_table cl) of
             None \<Rightarrow> Inl DanglingReference
           | Some t \<Rightarrow>
               Inr (store_table (cls_table cl) (t\<lparr>t_constraints := t_constraints t @ [k]\<rparr>) st)))"

section \<open>The relationship builders\<close>

text \<open>
  \<^verbatim>\<open>RelationsMixin._get_kwargs_for_relation(kwargs, prefix)\<close>: the loop over
  \<^verbatim>\<open>list(kwargs.keys())\<close> pops every key that starts with the prefix into
  \<^verbatim>\<open>opts\<close>. The result holds \<^verbatim>\<open>opts\<close> and the keyword arguments as the loop
  leaves them. \<^verbatim>\<open>kwargs.pop(key)\<close> raises \<^verbatim>\<open>KeyError\<close> for a missing key.
\<close>

fun get_kwargs_loop :: "string list \<Rightarrow> string \<Rightarrow> pydict \<Rightarrow> pydict \<Rightarrow> error + (pydict \<times> pydict)" where
  "get_kwargs_loop [] prefix opts kwargs = Inr (opts, kwargs)"
| "get_kwargs_loop (k # ks) prefix opts kwargs =
     (if startswith k prefix
      then (case map_of kwargs k of
              None \<Rightarrow> Inl (KeyError k)
            | Some v \<Rightarrow> get_kwargs_loop ks prefix (dict_set opts k v) (dict_pop kwargs k))
      else get_kwargs_loop ks prefix opts kwargs)"

definition get_kwargs_for_relation :: "pydict \<Rightarrow> string \<Rightarrow> error + (pydict \<times> pydict)" where
  "get_kwargs_for_relation kwargs prefix = get_kwargs_loop (map fst kwargs) prefix [] kwargs"

text \<open>
  Modelled from the spec: \<^verbatim>\<open>setdefaultattr\<close> of \<^verbatim>\<open>..utils\<close> is not among the sources.
  The spec speaks of attribute bookkeeping on in-memory class objects: the pending set of
  the class is returned where the class has one, and an empty one is installed and
  returned otherwise.
\<close>

definition setdefaultattr_relationships :: "model_class \<Rightarrow> relationship list \<times> model_class" where
  "setdefaultattr_relationships cl =
     (case cls_relationships cl of
        None \<Rightarrow> ([], cl\<lparr>cls_relationships := Some []\<rparr>)
      | Some rels \<Rightarrow> (rels, cl))"

text \<open>
  \<^verbatim>\<open>rels.add(rel)\<close> on the pending set of class \<open>c\<close>, given the set that
  \<^verbatim>\<open>setdefaultattr\<close> returned.
\<close>

definition rels_add :: "string \<Rightarrow> model_class \<Rightarrow> relationship list \<Rightarrow> relationship \<Rightarrow> state \<Rightarrow> state" where
  "rels_add c cl rels rel st = store_class c (cl\<lparr>cls_relationships := Some (rels @ [rel])\<rparr>) st"

text \<open>
  Modelled from the spec: \<^verbatim>\<open>suppress\<close> of \<^verbatim>\<open>..utils\<close> is not among the sources; it
  is taken to swallow the exception of its block, as its name and its use say. The block
  is \<^verbatim>\<open>backref, backref_kwargs = backref\<close>, run for a tuple only: a pair is unpacked,
  any other tuple fails to unpack and is left as it is with \<^verbatim>\<open>backref_kwargs = None\<close>.
\<close>

definition unpack_backref :: "pyval \<Rightarrow> pyval \<times> pyval" where
  "unpack_backref backref =
     (case backref of
        PTuple [b, kw] \<Rightarrow> (b, kw)
      | _ \<Rightarrow> (backref, PNone))"

text \<open>\<^verbatim>\<open>backref_kwargs = backref_kwargs or {}\<close>\<close>

definition or_empty_dict :: "pyval \<Rightarrow> error + pyval" where
  "or_empty_dict v =
     (case py_bool v of
        Inl e \<Rightarrow> Inl e
      | Inr b \<Rightarrow> Inr (if b then v else PDict []))"

text \<open>\<^verbatim>\<open>backref_kwargs["uselist"] = b\<close>: only a dictionary takes an item.\<close>

definition set_uselist :: "pyval \<Rightarrow> bool \<Rightarrow> error + pydict" where
  "set_uselist v b =
     (case v of
        PDict d \<Rightarrow> Inr (dict_set d ''uselist'' (PBool b))
      | _ \<Rightarrow> Inl TypeError)"

text \<open>
  \<^verbatim>\<open>kwargs.setdefault("info", {}).update(opts)\<close>: the value under \<^verbatim>\<open>info\<close> must
  have an \<^verbatim>\<open>update\<close>; of the values of the model a dictionary has one, a table has a
  method of that name that builds a statement of the host (not modelled), and the others
  have none.
\<close>

definition info_of :: "pydict \<Rightarrow> error + pydict" where
  "info_of kwargs =
     (case dict_get kwargs ''info'' PNone of
        PDict d \<Rightarrow> Inr d
      | PTable t \<Rightarrow> Inl NotModelled
      | _ \<Rightarrow> Inl AttributeError)"

text \<open>
  The \<^verbatim>\<open>if backref:\<close> block of the three builders, which differ in the value they
  store under \<^verbatim>\<open>uselist\<close> in the keyword arguments of the backref. \<^verbatim>\<open>o2m\<close> writes
  the pair as a tuple, \<^verbatim>\<open>m2o\<close> and \<^verbatim>\<open>m2m\<close> call the host's \<^verbatim>\<open>backref\<close>, which
  returns that pair.
\<close>

definition backref_block :: "pydict \<Rightarrow> bool \<Rightarrow> error + pydict" where
  "backref_block kwargs u =
     (let backref = dict_get kwargs ''backref'' PNone in
      case py_bool backref of Inl e \<Rightarrow> Inl e | Inr given \<Rightarrow>
      if given
      then (let (b, kw) = unpack_backref backref in
            case or_empty_dict kw of Inl e \<Rightarrow> Inl e | Inr kw1 \<Rightarrow>
            case set_uselist kw1 u of Inl e \<Rightarrow> Inl e | Inr kw2 \<Rightarrow>
            Inr (dict_set kwargs ''backref'' (sa_backref b kw2)))
      else Inr kwargs)"

text \<open>
  The keyword arguments as \<^verbatim>\<open>o2m\<close> hands them to \<^verbatim>\<open>self.relationship\<close>: the
  \<^verbatim>\<open>fk_\<close> options go into \<^verbatim>\<open>info\<close>, \<^verbatim>\<open>uselist\<close> is set, and the backref
  block runs.
\<close>

definition o2m_kwargs :: "pydict \<Rightarrow> error + pydict" where
  "o2m_kwargs kwargs =
     (let kwargs1 = dict_setdefault kwargs ''info'' (PDict []) in
      case info_of kwargs1 of Inl e \<Rightarrow> Inl e | Inr info \<Rightarrow>
      case get_kwargs_for_relation kwargs1 ''fk_'' of Inl e \<Rightarrow> Inl e | Inr (opts, kwargs2) \<Rightarrow>
      let kwargs3 = dict_set kwargs2 ''info'' (PDict (dict_update info opts));
          kwargs4 = dict_set kwargs3 ''uselist'' (PBool True) in
      backref_block kwargs4 False)"

text \<open>
  \<^verbatim>\<open>RelationsMixin.OneToMany(remote_cls, **kwargs)\<close> returns the declarative attribute
  \<^verbatim>\<open>o2m\<close>, a function of the class that the host evaluates later. \<open>OneToMany remote_cls
  kwargs\<close> is that function: given the class and the state it yields the relationship and
  the state it leaves, or the exception and the state at the time it is raised.
\<close>

definition OneToMany ::
  "string \<Rightarrow> pydict \<Rightarrow> string \<Rightarrow> state \<Rightarrow> (error \<times> state) + (relationship \<times> state)" where
  "OneToMany remote_cls kwargs = (\<lambda>c st.
     case classes st c of
       None \<Rightarrow> Inl (DanglingReference, st)
     | Some cl0 \<Rightarrow>
         let (rels, cl) = setdefaultattr_relationships cl0;
             st1 = store_class c cl st in
         (case o2m_kwargs kwargs of
            Inl e \<Rightarrow> Inl (e, st1)
          | Inr kwargs' \<Rightarrow>
              let rel = (sa_relationship remote_cls kwargs')\<lparr>rel_direction := Some ONETOMANY\<rparr> in
              Inr (rel, rels_add c cl rels rel st1)))"

text \<open>\<^verbatim>\<open>RelationsMixin.ManyToOne(remote_cls, **kwargs)\<close> and its attribute \<^verbatim>\<open>m2o\<close>.\<close>

definition m2o_kwargs :: "pydict \<Rightarrow> error + pydict" where
  "m2o_kwargs kwargs =
     (let kwargs1 = dict_setdefault kwargs ''info'' (PDict []) in
      case info_of kwargs1 of Inl e \<Rightarrow> Inl e | Inr info \<Rightarrow>
      case get_kwargs_for_relation kwargs1 ''fk_'' of Inl e \<Rightarrow> Inl e | Inr (opts, kwargs2) \<Rightarrow>
      let kwargs3 = dict_set kwargs2 ''info'' (PDict (dict_update info opts));
          kwargs4 = dict_set kwargs3 ''uselist'' (PBool False) in
      backref_block kwargs4 True)"

definition ManyToOne ::
  "string \<Rightarrow> pydict \<Rightarrow> string \<Rightarrow> state \<Rightarrow> (error \<times> state) + (relationship \<times> state)" where
  "ManyToOne remote_cls kwargs = (\<lambda>c st.
     case classes st c of
       None \<Rightarrow> Inl (DanglingReference, st)
     | Some cl0 \<Rightarrow>
         let (rels, cl) = setdefaultattr_relationships cl0;
             st1 = store_class c cl st in
         (case m2o_kwargs kwargs of
            Inl e \<Rightarrow> Inl (e, st1)
          | Inr kwargs' \<Rightarrow>
              let rel = (sa_relationship remote_cls kwargs')\<lparr>rel_direction := Some MANYTOONE\<rparr> in
              Inr (rel, rels_add c cl rels rel st1)))"

definition m2m_message :: string where
  "m2m_message =
     ''You need to provide secondary or table_name for the relation for the association table '' @
     ''that will be generated''"

text \<open>
  \<^verbatim>\<open>RelationsMixin.ManyToMany(remote_cls, table_name=None, **kwargs)\<close> and its attribute
  \<^verbatim>\<open>m2m\<close>. \<open>table_name\<close> is a string or \<open>None\<close>.
\<close>

definition m2m_kwargs :: "string option \<Rightarrow> pydict \<Rightarrow> error + pydict" where
  "m2m_kwargs table_name kwargs =
     (let kwargs1 = dict_setdefault kwargs ''info'' (PDict []) in
      case info_of kwargs1 of Inl e \<Rightarrow> Inl e | Inr info \<Rightarrow>
      case get_kwargs_for_relation kwargs1 ''fk_'' of Inl e \<Rightarrow> Inl e | Inr (opts, kwargs2) \<Rightarrow>
      let info1 = dict_update info opts in
      case get_kwargs_for_relation kwargs2 ''table_'' of Inl e \<Rightarrow> Inl e | Inr (topts, kwargs3) \<Rightarrow>
      let info2 = dict_update info1 topts;
          info3 = (case table_name of
                     None \<Rightarrow> info2
                   | Some n \<Rightarrow> if n \<noteq> [] then dict_set info2 ''table_name'' (PStr n) else info2);
          kwargs4 = dict_set kwargs3 ''info'' (PDict info3);
          kwargs5 = dict_set kwargs4 ''uselist'' (PBool True) in
      backref_block kwargs5 True)"

definition ManyToMany ::
  "string \<Rightarrow> string option \<Rightarrow> pydict \<Rightarrow> string \<Rightarrow> state
     \<Rightarrow> (error \<times> state) + (relationship \<times> state)" where
  "ManyToMany remote_cls table_name kwargs = (\<lambda>c st.
     if map_of kwargs ''secondary'' = None \<and> table_name = None
     then Inl (ArgumentError m2m_message, st)
     else
       (case classes st c of
          None \<Rightarrow> Inl (DanglingReference, st)
        | Some cl0 \<Rightarrow>
            let (rels, cl) = setdefaultattr_relationships cl0;
                st1 = store_class c cl st in
            (case m2m_kwargs table_name kwargs of
               Inl e \<Rightarrow> Inl (e, st1)
             | Inr kwargs' \<Rightarrow>
                 let rel = (sa_relationship remote_cls kwargs')\<lparr>rel_direction := Some MANYTOMANY\<rparr> in
                 Inr (rel, rels_add c cl rels rel st1))))"

section \<open>Resolving the pending relationships\<close>

text \<open>
  \<^verbatim>\<open>{key[3:]: val for key, val in relation.info.items() if key.startswith("fk_")}\<close>
  and the same for \<^verbatim>\<open>"table_"\<close> with \<^verbatim>\<open>key[6:]\<close>.
\<close>

definition fk_options :: "pydict \<Rightarrow> pydict" where
  "fk_options info = map (\<lambda>kv. (drop 3 (fst kv), snd kv)) (filter (\<lambda>kv. startswith (fst kv) ''fk_'') info)"

definition table_options :: "pydict \<Rightarrow> pydict" where
  "table_options info =
     map (\<lambda>kv. (drop 6 (fst kv), snd kv)) (filter (\<lambda>kv. startswith (fst kv) ''table_'') info)"

text \<open>
  The default of \<^verbatim>\<open>fk_key\<close> in \<^verbatim>\<open>_add_foreign_keys\<close>: the \<^verbatim>\<open>if not fk_key\<close>
  block. \<open>parent_name\<close> is \<^verbatim>\<open>parent_cls.__name__\<close>.
\<close>

definition default_fk_key :: "relationship \<Rightarrow> string \<Rightarrow> pyval \<Rightarrow> error + pyval" where
  "default_fk_key relation parent_name fk_key =
     (case py_bool fk_key of
        Inl e \<Rightarrow> Inl e
      | Inr given \<Rightarrow>
          if given then Inr fk_key
          else if rel_direction relation = Some MANYTOONE
          then (case rel_key relation of
                  None \<Rightarrow> Inl AttributeError
                | Some k \<Rightarrow> Inr (PStr (lower k)))
          else
            (case py_bool (rel_backref relation) of
               Inl e \<Rightarrow> Inl e
             | Inr has_backref \<Rightarrow>
                 if has_backref
                 then (case py_unpack2 (rel_backref relation) of
                         Inl e \<Rightarrow> Inl e
                       | Inr (backref, u) \<Rightarrow>
                           (case backref of
                              PStr b \<Rightarrow> Inr (PStr (lower b))
                            | _ \<Rightarrow> Inl AttributeError))
                 else Inr (PStr (lower parent_name))))"

text \<open>
  The loop of \<^verbatim>\<open>_add_foreign_keys\<close> over \<^verbatim>\<open>parent_cls.__table__.primary_key\<close>.
  \<open>c\<close> is the class that receives the columns, \<open>p\<close> the referenced class; both are read
  from the state at every turn, as the objects are in Python. \<open>cols\<close> is the dictionary
  from primary-key column to foreign-key column.
\<close>

fun fk_loop ::
  "string \<Rightarrow> string \<Rightarrow> pyval \<Rightarrow> pyval \<Rightarrow> pyval \<Rightarrow> column list \<Rightarrow> (column \<times> column) list \<Rightarrow> bool
     \<Rightarrow> state \<Rightarrow> error + ((column \<times> column) list \<times> bool \<times> state)" where
  "fk_loop c p fk_key fk_prefix fk_nullable [] cols cols_created st = Inr (cols, cols_created, st)"
| "fk_loop c p fk_key fk_prefix fk_nullable (pk_column # pks) cols cols_created st =
     (case classes st p of
        None \<Rightarrow> Inl DanglingReference
      | Some parent_cls \<Rightarrow>
     case get_property_by_column parent_cls pk_column of Inl e \<Rightarrow> Inl e | Inr pk_attr_key \<Rightarrow>
     case join_filter fk_key (c_name pk_column) of Inl e \<Rightarrow> Inl e | Inr col_nm \<Rightarrow>
     case join_filter fk_key pk_attr_key of Inl e \<Rightarrow> Inl e | Inr joined \<Rightarrow>
     case py_format fk_prefix of None \<Rightarrow> Inl NotModelled | Some pre \<Rightarrow>
     case classes st c of
        None \<Rightarrow> Inl DanglingReference
      | Some cl \<Rightarrow>
     case lookup_table st (cls_table cl) of
        None \<Rightarrow> Inl DanglingReference
      | Some t \<Rightarrow>
     if \<not> columns_contains t col_nm \<and> \<not> hasattr cl (pre @ joined)
     then (case setattr_column c (pre @ joined) (sa_Column col_nm (c_type pk_column) fk_nullable False) st of
             Inl e \<Rightarrow> Inl e
           | Inr (fk_column, st') \<Rightarrow>
               fk_loop c p fk_key fk_prefix fk_nullable pks (dict_set cols pk_column fk_column) True st')
     else (case columns_getitem t col_nm of
             Inl e \<Rightarrow> Inl e
           | Inr fk_column \<Rightarrow>
               fk_loop c p fk_key fk_prefix fk_nullable pks (dict_set cols pk_column fk_column)
                 cols_created st))"

text \<open>
  \<^verbatim>\<open>_add_foreign_keys(cls, parent_cls, relation)\<close>. The relation is returned as the
  function leaves it.
\<close>

definition add_foreign_keys :: "string \<Rightarrow> string \<Rightarrow> relationship \<Rightarrow> state \<Rightarrow> error + (relationship \<times> state)" where
  "add_foreign_keys c p relation st =
     (let fk_kwargs0 = fk_options (rel_info relation);
          fk_prefix = dict_get fk_kwargs0 ''prefix'' (PStr ''_'');
          fk_nullable = dict_get fk_kwargs0 ''nullable'' (PBool True);
          fk_key0 = dict_get fk_kwargs0 ''key'' PNone;
          fk_kwargs = dict_pop (dict_pop (dict_pop fk_kwargs0 ''prefix'') ''nullable'') ''key'' in
      case classes st p of
        None \<Rightarrow> Inl DanglingReference
      | Some parent_cls \<Rightarrow>
      case default_fk_key relation (cls_name parent_cls) fk_key0 of Inl e \<Rightarrow> Inl e | Inr fk_key \<Rightarrow>
      case lookup_table st (cls_table parent_cls) of
        None \<Rightarrow> Inl DanglingReference
      | Some parent_table \<Rightarrow>
      case fk_loop c p fk_key fk_prefix fk_nullable (t_primary_key parent_table) [] False st of
        Inl e \<Rightarrow> Inl e
      | Inr (cols, cols_created, st1) \<Rightarrow>
      let relation' = relation\<lparr>rel_foreign_keys := map snd cols\<rparr> in
      if cols_created
      then (case append_constraint c (sa_ForeignKeyConstraint (map snd cols) (map fst cols) fk_kwargs) st1 of
              Inl e \<Rightarrow> Inl e
            | Inr st2 \<Rightarrow> Inr (relation', st2))
      else Inr (relation', st1))"

text \<open>\<^verbatim>\<open>cls.metadata.tables.get(table_name)\<close>: a dictionary cannot be a key.\<close>

definition tables_get :: "state \<Rightarrow> nat \<Rightarrow> pyval \<Rightarrow> error + pyval" where
  "tables_get st m table_name =
     (case table_name of
        PStr n \<Rightarrow> Inr (case metadata_tables st m n of None \<Rightarrow> PNone | Some t \<Rightarrow> PTable (m, n))
      | PDict d \<Rightarrow> Inl TypeError
      | _ \<Rightarrow> Inr PNone)"

text \<open>\<^verbatim>\<open>column_map.setdefault(table, []).append(col)\<close>\<close>

definition setdefault_append :: "('k \<times> 'v list) list \<Rightarrow> 'k \<Rightarrow> 'v \<Rightarrow> ('k \<times> 'v list) list" where
  "setdefault_append m k v =
     (case map_of m k of
        None \<Rightarrow> m @ [(k, [v])]
      | Some vs \<Rightarrow> dict_set m k (vs @ [v]))"

text \<open>
  The first loop of \<^verbatim>\<open>_add_association_table\<close>, over the chain of
  \<^verbatim>\<open>cls.__mapper__.primary_key\<close> and \<^verbatim>\<open>child_cls.__table__.primary_key\<close>. A column
  that is in no table has no \<^verbatim>\<open>table\<close> attribute.
\<close>

fun column_map_loop :: "state \<Rightarrow> column list \<Rightarrow> (tref \<times> column list) list \<Rightarrow> error + (tref \<times> column list) list" where
  "column_map_loop st [] column_map = Inr column_map"
| "column_map_loop st (pk_column # pks) column_map =
     (case c_table pk_column of
        None \<Rightarrow> Inl AttributeError
      | Some r \<Rightarrow>
     case lookup_table st r of
        None \<Rightarrow> Inl DanglingReference
      | Some t \<Rightarrow>
     case join_filter (PStr (lower (t_name t))) (c_name pk_column) of Inl e \<Rightarrow> Inl e | Inr col_nm \<Rightarrow>
     column_map_loop st pks
       (setdefault_append column_map r (sa_Column col_nm (c_type pk_column) (PBool False) True)))"

text \<open>The second loop: one constraint for every entry of \<^verbatim>\<open>column_map\<close>.\<close>

fun constraints_loop :: "state \<Rightarrow> (tref \<times> column list) list \<Rightarrow> pydict \<Rightarrow> error + fk_constraint list" where
  "constraints_loop st [] fk_kwargs = Inr []"
| "constraints_loop st ((r, columns) # column_map) fk_kwargs =
     (case lookup_table st r of
        None \<Rightarrow> Inl DanglingReference
      | Some t \<Rightarrow>
     case constraints_loop st column_map fk_kwargs of Inl e \<Rightarrow> Inl e | Inr ks \<Rightarrow>
     Inr (sa_ForeignKeyConstraint columns (t_primary_key t) fk_kwargs # ks))"

text \<open>
  \<^verbatim>\<open>_add_association_table(cls, child_cls, relation)\<close>. Passing \<^verbatim>\<open>schema\<close> twice
  (once by name and once among the \<^verbatim>\<open>table_\<close> options) is a \<^verbatim>\<open>TypeError\<close> of the call.
\<close>

definition add_association_table :: "string \<Rightarrow> string \<Rightarrow> relationship \<Rightarrow> state \<Rightarrow> error + (relationship \<times> state)" where
  "add_association_table c child relation st =
     (if rel_secondary relation \<noteq> PNone then Inr (relation, st)
      else
      case classes st c of
        None \<Rightarrow> Inl DanglingReference
      | Some cl \<Rightarrow>
      let table_name = dict_get (rel_info relation) ''table_name'' PNone in
      case tables_get st (cls_metadata cl) table_name of Inl e \<Rightarrow> Inl e | Inr found \<Rightarrow>
      if found \<noteq> PNone then Inr (relation\<lparr>rel_secondary := found\<rparr>, st)
      else
      let fk_kwargs = fk_options (rel_info relation);
          table_kwargs = dict_pop (table_options (rel_info relation)) ''name'' in
      case classes st child of
        None \<Rightarrow> Inl DanglingReference
      | Some child_cls \<Rightarrow>
      case lookup_table st (cls_table child_cls) of
        None \<Rightarrow> Inl DanglingReference
      | Some child_table \<Rightarrow>
      case column_map_loop st (cls_primary_key cl @ t_primary_key child_table) [] of
        Inl e \<Rightarrow> Inl e
      | Inr column_map \<Rightarrow>
      case constraints_loop st column_map fk_kwargs of Inl e \<Rightarrow> Inl e | Inr constraints \<Rightarrow>
      case lookup_table st (cls_table cl) of
        None \<Rightarrow> Inl DanglingReference
      | Some cls_tab \<Rightarrow>
      if map_of table_kwargs ''schema'' \<noteq> None then Inl TypeError
      else
      case table_name of
        PStr n \<Rightarrow>
          (case sa_Table n (cls_metadata cl) (concat (map snd column_map)) constraints
                  (t_schema cls_tab) table_kwargs st of
             Inl e \<Rightarrow> Inl e
           | Inr (r, st') \<Rightarrow> Inr (relation\<lparr>rel_secondary := PTable r\<rparr>, st'))
      | _ \<Rightarrow> Inl NotModelled)"

text \<open>
  \<^verbatim>\<open>relation.mapper.class_\<close>: the host resolves the remote class of the relation, and
  fails if there is none of that name.
\<close>

definition mapper_class :: "state \<Rightarrow> relationship \<Rightarrow> error + string" where
  "mapper_class st relation =
     (case classes st (rel_argument relation) of
        None \<Rightarrow> Inl InvalidRequestError
      | Some cl \<Rightarrow> Inr (rel_argument relation))"

text \<open>
  The loop of \<^verbatim>\<open>declare_first_relationships_handler\<close> over the pending set. The
  relations are returned as the loop leaves them.
\<close>

fun resolve_relations :: "string \<Rightarrow> relationship list \<Rightarrow> state \<Rightarrow> error + (relationship list \<times> state)" where
  "resolve_relations c [] st = Inr ([], st)"
| "resolve_relations c (relation # rels) st =
     (case (if rel_direction relation = Some ONETOMANY
            then (case mapper_class st relation of
                    Inl e \<Rightarrow> Inl e
                  | Inr remote \<Rightarrow> add_foreign_keys remote c relation st)
            else if rel_direction relation = Some MANYTOONE
            then (case mapper_class st relation of
                    Inl e \<Rightarrow> Inl e
                  | Inr remote \<Rightarrow> add_foreign_keys c remote relation st)
            else if rel_direction relation = Some MANYTOMANY
            then (case mapper_class st relation of
                    Inl e \<Rightarrow> Inl e
                  | Inr remote \<Rightarrow> add_association_table c remote relation st)
            else Inr (relation, st)) of
        Inl e \<Rightarrow> Inl e
      | Inr (relation', st') \<Rightarrow>
          (case resolve_relations c rels st' of
             Inl e \<Rightarrow> Inl e
           | Inr (rels', st'') \<Rightarrow> Inr (relation' # rels', st'')))"

text \<open>
  \<^verbatim>\<open>getattr(cls, "_relationships", set())\<close>: the pending set, a fresh empty set for a
  class without one.
\<close>

definition getattr_relationships :: "model_class \<Rightarrow> relationship list" where
  "getattr_relationships cl = (case cls_relationships cl of None \<Rightarrow> [] | Some rels \<Rightarrow> rels)"

text \<open>\<^verbatim>\<open>rels.clear()\<close> on the set that \<^verbatim>\<open>getattr\<close> gave.\<close>

definition rels_clear :: "string \<Rightarrow> state \<Rightarrow> state" where
  "rels_clear c st =
     (case classes st c of
        None \<Rightarrow> st
      | Some cl \<Rightarrow>
          (case cls_relationships cl of
             None \<Rightarrow> st
           | Some rels \<Rightarrow> store_class c (cl\<lparr>cls_relationships := Some []\<rparr>) st))"

text \<open>
  \<^verbatim>\<open>declare_first_relationships_handler(cls)\<close>: the loop resolves the pending set,
  which is then emptied.
\<close>

definition declare_first_relationships_handler :: "string \<Rightarrow> state \<Rightarrow> error + (relationship list \<times> state)" where
  "declare_first_relationships_handler c st =
     (case classes st c of
        None \<Rightarrow> Inl DanglingReference
      | Some cl \<Rightarrow>
          (case resolve_relations c (getattr_relationships cl) st of
             Inl e \<Rightarrow> Inl e
           | Inr (rels', st') \<Rightarrow> Inr (rels', rels_clear c st')))"

section \<open>Properties\<close>

text \<open>
  The predicates in which the theorems below are stated.

  \<open>options_moved prefixes kwargs rel\<close>: every keyword argument whose name starts with one
  of the prefixes is absent from the keyword arguments that the constructor of \<open>rel\<close>
  received and is in the \<^verbatim>\<open>info\<close> of \<open>rel\<close> with its value, and every other keyword
  argument but \<^verbatim>\<open>info\<close>, \<^verbatim>\<open>uselist\<close> and \<^verbatim>\<open>backref\<close> (which the builders set)
  reached the constructor as the caller gave it. \<^verbatim>\<open>table_name\<close> is a parameter of
  \<^verbatim>\<open>ManyToMany\<close>, so Python never puts it among the keyword arguments.
\<close>

definition options_moved :: "string list \<Rightarrow> pydict \<Rightarrow> relationship \<Rightarrow> bool" where
  "options_moved prefixes kwargs rel \<longleftrightarrow>
     (\<forall>k. if (\<exists>p \<in> set prefixes. startswith k p)
          then map_of (rel_kwargs rel) k = None \<and>
               (\<forall>v. k \<noteq> ''table_name'' \<longrightarrow> map_of kwargs k = Some v \<longrightarrow> map_of (rel_info rel) k = Some v)
          else (k \<notin> {''info'', ''uselist'', ''backref''} \<longrightarrow>
                map_of (rel_kwargs rel) k = map_of kwargs k))"

text \<open>A backref as the builders leave it: the pair of a name and keyword arguments that
  hold \<^verbatim>\<open>uselist\<close>.\<close>

definition backref_uselist :: "pyval \<Rightarrow> bool \<Rightarrow> bool" where
  "backref_uselist v b \<longleftrightarrow>
     (\<exists>nm kw. v = PTuple [nm, PDict kw] \<and> map_of kw ''uselist'' = Some (PBool b))"

text \<open>
  \<open>shape_forced u bu kwargs rel\<close>: the constructor of \<open>rel\<close> received \<^verbatim>\<open>uselist=u\<close>, and
  where the caller gave a backref (one that is true in Python's sense) the backref of
  \<open>rel\<close> carries \<^verbatim>\<open>uselist=bu\<close>.
\<close>

definition shape_forced :: "bool \<Rightarrow> bool \<Rightarrow> pydict \<Rightarrow> relationship \<Rightarrow> bool" where
  "shape_forced u bu kwargs rel \<longleftrightarrow>
     map_of (rel_kwargs rel) ''uselist'' = Some (PBool u) \<and>
     (py_bool (dict_get kwargs ''backref'' PNone) = Inr True \<longrightarrow> backref_uselist (rel_backref rel) bu)"

text \<open>The keyword arguments that a builder hands to the constructor, in one predicate.\<close>

definition kwargs_result :: "string list \<Rightarrow> bool \<Rightarrow> bool \<Rightarrow> pydict \<Rightarrow> pydict \<Rightarrow> pydict \<Rightarrow> bool" where
  "kwargs_result prefixes u bu kwargs info kw \<longleftrightarrow>
     map_of kw ''info'' = Some (PDict info) \<and>
     map_of kw ''uselist'' = Some (PBool u) \<and>
     (py_bool (dict_get kwargs ''backref'' PNone) = Inr True \<longrightarrow>
        backref_uselist (dict_get kw ''backref'' PNone) bu) \<and>
     (\<forall>k. k \<notin> {''info'', ''uselist'', ''backref''} \<longrightarrow>
        map_of kw k = (if (\<exists>p \<in> set prefixes. startswith k p) then None else map_of kwargs k)) \<and>
     (\<forall>k v. (\<exists>p \<in> set prefixes. startswith k p) \<longrightarrow> k \<noteq> ''table_name'' \<longrightarrow> map_of kwargs k = Some v \<longrightarrow>
        map_of info k = Some v)"

text \<open>
  \<open>registered_only c rel st st'\<close>: from \<open>st\<close> to \<open>st'\<close> no table changed, no class but
  \<open>c\<close> changed, and \<open>c\<close> changed in its pending set only, which gained \<open>rel\<close>.
\<close>

definition registered_only :: "string \<Rightarrow> relationship \<Rightarrow> state \<Rightarrow> state \<Rightarrow> bool" where
  "registered_only c rel st st' \<longleftrightarrow>
     metadata_tables st' = metadata_tables st \<and>
     (\<forall>c'. c' \<noteq> c \<longrightarrow> classes st' c' = classes st c') \<and>
     (\<exists>cl. classes st c = Some cl \<and>
           classes st' c = Some (cl\<lparr>cls_relationships := Some (getattr_relationships cl @ [rel])\<rparr>))"

text \<open>\<open>schema_untouched st st'\<close>: the two states have the same tables, and the same
  classes up to their pending sets.\<close>

definition schema_untouched :: "state \<Rightarrow> state \<Rightarrow> bool" where
  "schema_untouched st st' \<longleftrightarrow>
     metadata_tables st' = metadata_tables st \<and>
     (\<forall>c. map_option (\<lambda>cl. cl\<lparr>cls_relationships := None\<rparr>) (classes st' c) =
          map_option (\<lambda>cl. cl\<lparr>cls_relationships := None\<rparr>) (classes st c))"

subsection \<open>A small program state\<close>

text \<open>
  The two models of the docstrings: \<^verbatim>\<open>ModelOne\<close> and \<^verbatim>\<open>ModelTwo\<close>, each with an
  integer primary key \<^verbatim>\<open>pk\<close>, in one metadata object.
\<close>

definition demo_pk1 :: column where
  "demo_pk1 = \<lparr>c_name = ''pk'', c_type = ''Integer'', c_nullable = PBool False,
               c_primary_key = True, c_table = Some (0, ''modelone'')\<rparr>"

definition demo_pk2 :: column where
  "demo_pk2 = \<lparr>c_name = ''pk'', c_type = ''Integer'', c_nullable = PBool False,
               c_primary_key = True, c_table = Some (0, ''modeltwo'')\<rparr>"

definition demo_table1 :: table where
  "demo_table1 = \<lparr>t_name = ''modelone'', t_schema = None, t_columns = [demo_pk1],
                  t_primary_key = [demo_pk1], t_constraints = [], t_kwargs = []\<rparr>"

definition demo_table2 :: table where
  "demo_table2 = \<lparr>t_name = ''modeltwo'', t_schema = None, t_columns = [demo_pk2],
                  t_primary_key = [demo_pk2], t_constraints = [], t_kwargs = []\<rparr>"

definition demo_class1 :: model_class where
  "demo_class1 = \<lparr>cls_name = ''ModelOne'', cls_table = (0, ''modelone''), cls_metadata = 0,
                  cls_attrs = [''pk''], cls_columntoproperty = [(demo_pk1, ''pk'')],
                  cls_primary_key = [demo_pk1], cls_relationships = None\<rparr>"

definition demo_class2 :: model_class where
  "demo_class2 = \<lparr>cls_name = ''ModelTwo'', cls_table = (0, ''modeltwo''), cls_metadata = 0,
                  cls_attrs = [''pk''], cls_columntoproperty = [(demo_pk2, ''pk'')],
                  cls_primary_key = [demo_pk2], cls_relationships = None\<rparr>"

definition demo_state :: state where
  "demo_state =
     \<lparr>classes = (\<lambda>n. None)(''ModelOne'' := Some demo_class1, ''ModelTwo'' := Some demo_class2),
      metadata_tables = (\<lambda>m. (\<lambda>n. None))
        (0 := (\<lambda>n. None)(''modelone'' := Some demo_table1, ''modeltwo'' := Some demo_table2))\<rparr>"

definition demo_kwargs :: pydict where
  "demo_kwargs =
     [(''backref'', PStr ''m1''), (''fk_nullable'', PBool False), (''lazy'', PStr ''joined'')]"

definition demo_kwargs_shape :: pydict where
  "demo_kwargs_shape =
     [(''uselist'', PBool False),
      (''backref'', PTuple [PStr ''m1'', PDict [(''uselist'', PBool True)]])]"

subsection \<open>Properties of the resolution\<close>

text \<open>
  \<^verbatim>\<open>"_".join(filter(None, [a, b]))\<close> for two strings, in closed form: an empty
  string is left out, together with the underscore.
\<close>

definition underscore_join :: "string \<Rightarrow> string \<Rightarrow> string" where
  "underscore_join a b = (if a = [] then b else if b = [] then a else a @ ''_'' @ b)"

text \<open>
  The \<^verbatim>\<open>fk_\<close> options that \<^verbatim>\<open>_add_foreign_keys\<close> forwards to the constraint: all but
  \<^verbatim>\<open>prefix\<close>, \<^verbatim>\<open>nullable\<close> and \<^verbatim>\<open>key\<close>, which it pops.
\<close>

definition fk_forwarded :: "pydict \<Rightarrow> pydict" where
  "fk_forwarded info = dict_pop (dict_pop (dict_pop (fk_options info) ''prefix'') ''nullable'') ''key''"

text \<open>
  The foreign-key column that \<^verbatim>\<open>_add_foreign_keys\<close> creates in the table \<open>tr\<close> for
  the primary-key column \<open>pk\<close>, in closed form.
\<close>

definition fk_col :: "tref \<Rightarrow> string \<Rightarrow> pyval \<Rightarrow> column \<Rightarrow> column" where
  "fk_col tr key nullable pk =
     \<lparr>c_name = underscore_join key (c_name pk), c_type = c_type pk, c_nullable = nullable,
      c_primary_key = False, c_table = Some tr\<rparr>"

text \<open>
  The column that \<^verbatim>\<open>_add_association_table\<close> creates for the primary-key column
  \<open>pk\<close> of the table \<open>side\<close>, before the new table takes it.
\<close>

definition assoc_column :: "table \<Rightarrow> column \<Rightarrow> column" where
  "assoc_column side pk =
     \<lparr>c_name = underscore_join (lower (t_name side)) (c_name pk), c_type = c_type pk,
      c_nullable = PBool False, c_primary_key = True, c_table = None\<rparr>"

text \<open>
  The association table in closed form, for two sides with different tables: the
  columns of the declaring side's mapper primary key first, then those of the child table's
  primary key, and one constraint per side.
\<close>

definition association_table ::
  "string \<Rightarrow> string option \<Rightarrow> tref \<Rightarrow> table \<Rightarrow> column list \<Rightarrow> table \<Rightarrow> column list \<Rightarrow> pydict \<Rightarrow> table" where
  "association_table n schema new_ref tc pks_c tch pks_ch info =
     \<lparr>t_name = n, t_schema = schema,
      t_columns = map (attach new_ref) (map (assoc_column tc) pks_c @ map (assoc_column tch) pks_ch),
      t_primary_key = map (attach new_ref) (map (assoc_column tc) pks_c @ map (assoc_column tch) pks_ch),
      t_constraints =
        [\<lparr>k_columns = map (attach new_ref) (map (assoc_column tc) pks_c),
          k_refcolumns = t_primary_key tc, k_kwargs = fk_options info\<rparr>,
         \<lparr>k_columns = map (attach new_ref) (map (assoc_column tch) pks_ch),
          k_refcolumns = t_primary_key tch, k_kwargs = fk_options info\<rparr>],
      t_kwargs = dict_pop (table_options info) ''name''\<rparr>"

text \<open>
  \<open>foreign_keys_resolved target referenced r r' s s'\<close>: from \<open>s\<close> to \<open>s'\<close> the table of
  the class \<open>target\<close> gained columns \<open>new\<close>, none of a name it had, and (when \<open>new\<close> is not
  empty) one constraint over the foreign keys of \<open>r'\<close> that references the primary key of
  the table of \<open>referenced\<close>; the foreign keys of \<open>r'\<close> are columns of that table, one per
  primary-key column and of the name made from it; no other table changed, and \<open>r'\<close> is
  \<open>r\<close> with these foreign keys.
\<close>

definition foreign_keys_resolved ::
  "string \<Rightarrow> string \<Rightarrow> relationship \<Rightarrow> relationship \<Rightarrow> state \<Rightarrow> state \<Rightarrow> bool" where
  "foreign_keys_resolved target referenced r r' s s' \<longleftrightarrow>
     (\<forall>tcl tt pcl pt.
        classes s target = Some tcl \<longrightarrow> lookup_table s (cls_table tcl) = Some tt \<longrightarrow>
        classes s referenced = Some pcl \<longrightarrow> lookup_table s (cls_table pcl) = Some pt \<longrightarrow>
        distinct (t_primary_key pt) \<longrightarrow>
        (\<exists>fk_key new.
           default_fk_key r (cls_name pcl) (dict_get (fk_options (rel_info r)) ''key'' PNone) =
             Inr fk_key \<and>
           r' = r\<lparr>rel_foreign_keys := rel_foreign_keys r'\<rparr> \<and>
           list_all2 (\<lambda>pk fk. join_filter fk_key (c_name pk) = Inr (c_name fk) \<and>
                        fk \<in> set (t_columns tt @ new))
             (t_primary_key pt) (rel_foreign_keys r') \<and>
           (\<forall>col \<in> set new. \<not> columns_contains tt (c_name col)) \<and>
           lookup_table s' (cls_table tcl) =
             Some (tt\<lparr>t_columns := t_columns tt @ new,
                     t_constraints := t_constraints tt @
                       (if new = [] then []
                        else [sa_ForeignKeyConstraint (rel_foreign_keys r') (t_primary_key pt)
                                (fk_forwarded (rel_info r))])\<rparr>) \<and>
           (\<forall>x. x \<noteq> cls_table tcl \<longrightarrow> lookup_table s' x = lookup_table s x)))"

text \<open>
  \<open>association_resolved r r' s s'\<close>: \<open>r'\<close> is \<open>r\<close> with a secondary, which is a table of
  \<open>s'\<close> where \<open>r\<close> had none; no class and no table of \<open>s\<close> changed.
\<close>

definition association_resolved :: "relationship \<Rightarrow> relationship \<Rightarrow> state \<Rightarrow> state \<Rightarrow> bool" where
  "association_resolved r r' s s' \<longleftrightarrow>
     classes s' = classes s \<and>
     (\<forall>x. lookup_table s x \<noteq> None \<longrightarrow> lookup_table s' x = lookup_table s x) \<and>
     r' = r\<lparr>rel_secondary := rel_secondary r'\<rparr> \<and>
     rel_secondary r' \<noteq> PNone \<and>
     (rel_secondary r = PNone \<longrightarrow>
        (\<exists>ref. rel_secondary r' = PTable ref \<and> lookup_table s' ref \<noteq> None))"

text \<open>
  \<open>resolved_by_direction c rels s rels' s'\<close>: the relations \<open>rels\<close> pending on the class
  \<open>c\<close> were resolved one after the other, each by its direction: one-to-many by foreign
  keys on the remote class that reference \<open>c\<close>, many-to-one by foreign keys on \<open>c\<close> that
  reference the remote class, many-to-many by an association table.
\<close>

inductive resolved_by_direction ::
  "string \<Rightarrow> relationship list \<Rightarrow> state \<Rightarrow> relationship list \<Rightarrow> state \<Rightarrow> bool" where
  nothing_pending: "resolved_by_direction c [] s [] s"
| one_to_many:
    "rel_direction r = Some ONETOMANY \<Longrightarrow> classes s (rel_argument r) \<noteq> None \<Longrightarrow>
     foreign_keys_resolved (rel_argument r) c r r' s s1 \<Longrightarrow>
     resolved_by_direction c rs s1 rs' s' \<Longrightarrow>
     resolved_by_direction c (r # rs) s (r' # rs') s'"
| many_to_one:
    "rel_direction r = Some MANYTOONE \<Longrightarrow> classes s (rel_argument r) \<noteq> None \<Longrightarrow>
     foreign_keys_resolved c (rel_argument r) r r' s s1 \<Longrightarrow>
     resolved_by_direction c rs s1 rs' s' \<Longrightarrow>
     resolved_by_direction c (r # rs) s (r' # rs') s'"
| many_to_many:
    "rel_direction r = Some MANYTOMANY \<Longrightarrow> classes s (rel_argument r) \<noteq> None \<Longrightarrow>
     association_resolved r r' s s1 \<Longrightarrow>
     resolved_by_direction c rs s1 rs' s' \<Longrightarrow>
     resolved_by_direction c (r # rs) s (r' # rs') s'"
| no_direction:
    "rel_direction r = None \<Longrightarrow>
     resolved_by_direction c rs s rs' s' \<Longrightarrow>
     resolved_by_direction c (r # rs) s (r # rs') s'"

subsection \<open>More program states\<close>

text \<open>
  A one-to-many relation from \<^verbatim>\<open>ModelOne\<close> to \<^verbatim>\<open>ModelTwo\<close> with a backref and two
  \<^verbatim>\<open>fk_\<close> options, as \<^verbatim>\<open>OneToMany\<close> leaves it.
\<close>

definition demo_o2m :: relationship where
  "demo_o2m =
     (sa_relationship ''ModelTwo''
        [(''backref'', PTuple [PStr ''M1'', PDict [(''uselist'', PBool False)]]),
         (''lazy'', PStr ''joined''),
         (''info'', PDict [(''fk_nullable'', PBool False), (''fk_ondelete'', PStr ''CASCADE'')]),
         (''uselist'', PBool True)])\<lparr>rel_direction := Some ONETOMANY\<rparr>"

text \<open>
  The column \<^verbatim>\<open>m1_pk\<close> of \<^verbatim>\<open>ModelTwo\<close>, and a state in which the table has it
  already.
\<close>

definition demo_fk :: column where
  "demo_fk = \<lparr>c_name = ''m1_pk'', c_type = ''Integer'', c_nullable = PBool False,
              c_primary_key = False, c_table = Some (0, ''modeltwo'')\<rparr>"

definition demo_state_fk :: state where
  "demo_state_fk =
     store_table (0, ''modeltwo'') (demo_table2\<lparr>t_columns := [demo_pk2, demo_fk]\<rparr>) demo_state"

text \<open>
  A many-to-many relation from \<^verbatim>\<open>ModelOne\<close> to \<^verbatim>\<open>ModelTwo\<close> with
  \<^verbatim>\<open>table_name='m1m2s'\<close>, and a state whose metadata has a table of that name.
\<close>

definition demo_m2m :: relationship where
  "demo_m2m =
     (sa_relationship ''ModelTwo''
        [(''info'', PDict [(''table_name'', PStr ''m1m2s'')]),
         (''uselist'', PBool True)])\<lparr>rel_direction := Some MANYTOMANY\<rparr>"

definition demo_state_m2m :: state where
  "demo_state_m2m =
     store_table (0, ''m1m2s'')
       \<lparr>t_name = ''m1m2s'', t_schema = None, t_columns = [], t_primary_key = [],
        t_constraints = [], t_kwargs = []\<rparr> demo_state"

text \<open>
  \<^verbatim>\<open>ModelOne\<close> after the evaluation of two attributes: a one-to-many and a
  many-to-many relation to \<^verbatim>\<open>ModelTwo\<close> are pending.
\<close>

definition demo_pending :: state where
  "demo_pending =
     (case OneToMany ''ModelTwo'' demo_kwargs ''ModelOne'' demo_state of
        Inl e \<Rightarrow> demo_state
      | Inr (r1, s1) \<Rightarrow>
          (case ManyToMany ''ModelTwo'' (Some ''m1m2s'') [] ''ModelOne'' s1 of
             Inl e \<Rightarrow> s1
           | Inr (r2, s2) \<Rightarrow> s2))"

text \<open>
  \<^verbatim>\<open>Parent\<close> has the composite primary key \<^verbatim>\<open>(a, b)\<close>; the table of \<^verbatim>\<open>Child\<close> has a
  column \<^verbatim>\<open>parent_a\<close> and none named \<^verbatim>\<open>parent_b\<close>.
\<close>

definition composite_pk_a :: column where
  "composite_pk_a = \<lparr>c_name = ''a'', c_type = ''Integer'', c_nullable = PBool False,
                     c_primary_key = True, c_table = Some (0, ''parent'')\<rparr>"

definition composite_pk_b :: column where
  "composite_pk_b = \<lparr>c_name = ''b'', c_type = ''Integer'', c_nullable = PBool False,
                     c_primary_key = True, c_table = Some (0, ''parent'')\<rparr>"

definition composite_child_id :: column where
  "composite_child_id = \<lparr>c_name = ''id'', c_type = ''Integer'', c_nullable = PBool False,
                         c_primary_key = True, c_table = Some (0, ''child'')\<rparr>"

definition composite_child_parent_a :: column where
  "composite_child_parent_a = \<lparr>c_name = ''parent_a'', c_type = ''Integer'', c_nullable = PBool True,
                               c_primary_key = False, c_table = Some (0, ''child'')\<rparr>"

definition composite_state :: state where
  "composite_state =
     \<lparr>classes = (\<lambda>n. None)
        (''Parent'' := Some \<lparr>cls_name = ''Parent'', cls_table = (0, ''parent''), cls_metadata = 0,
                            cls_attrs = [''a'', ''b''],
                            cls_columntoproperty = [(composite_pk_a, ''a''), (composite_pk_b, ''b'')],
                            cls_primary_key = [composite_pk_a, composite_pk_b],
                            cls_relationships = None\<rparr>,
         ''Child'' := Some \<lparr>cls_name = ''Child'', cls_table = (0, ''child''), cls_metadata = 0,
                           cls_attrs = [''id'', ''parent_a''],
                           cls_columntoproperty =
                             [(composite_child_id, ''id''), (composite_child_parent_a, ''parent_a'')],
                           cls_primary_key = [composite_child_id],
                           cls_relationships = None\<rparr>),
      metadata_tables = (\<lambda>m. (\<lambda>n. None))
        (0 := (\<lambda>n. None)
           (''parent'' := Some \<lparr>t_name = ''parent'', t_schema = None,
                               t_columns = [composite_pk_a, composite_pk_b],
                               t_primary_key = [composite_pk_a, composite_pk_b],
                               t_constraints = [], t_kwargs = []\<rparr>,
            ''child'' := Some \<lparr>t_name = ''child'', t_schema = None,
                              t_columns = [composite_child_id, composite_child_parent_a],
                              t_primary_key = [composite_child_id],
                              t_constraints = [], t_kwargs = []\<rparr>))\<rparr>"

text \<open>
  The two models of the docstrings, with \<^verbatim>\<open>__tablename__ = "ModelOne"\<close> on the
  first.
\<close>

definition upper_pk1 :: column where
  "upper_pk1 = \<lparr>c_name = ''pk'', c_type = ''Integer'', c_nullable = PBool False,
                c_primary_key = True, c_table = Some (0, ''ModelOne'')\<rparr>"

definition upper_state :: state where
  "upper_state =
     \<lparr>classes = (\<lambda>n. None)
        (''ModelOne'' := Some \<lparr>cls_name = ''ModelOne'', cls_table = (0, ''ModelOne''),
                              cls_metadata = 0, cls_attrs = [''pk''],
                              cls_columntoproperty = [(upper_pk1, ''pk'')],
                              cls_primary_key = [upper_pk1], cls_relationships = None\<rparr>,
         ''ModelTwo'' := Some demo_class2),
      metadata_tables = (\<lambda>m. (\<lambda>n. None))
        (0 := (\<lambda>n. None)
           (''ModelOne'' := Some \<lparr>t_name = ''ModelOne'', t_schema = None, t_columns = [upper_pk1],
                                 t_primary_key = [upper_pk1], t_constraints = [], t_kwargs = []\<rparr>,
            ''modeltwo'' := Some demo_table2))\<rparr>"

text \<open>
  The two models of the docstrings with \<^verbatim>\<open>__table_args__ = {"schema": "app"}\<close>: the
  metadata files each table under its schema-qualified key.
\<close>

definition schema_pk1 :: column where
  "schema_pk1 = \<lparr>c_name = ''pk'', c_type = ''Integer'', c_nullable = PBool False,
                 c_primary_key = True, c_table = Some (0, ''app.modelone'')\<rparr>"

definition schema_pk2 :: column where
  "schema_pk2 = \<lparr>c_name = ''pk'', c_type = ''Integer'', c_nullable = PBool False,
                 c_primary_key = True, c_table = Some (0, ''app.modeltwo'')\<rparr>"

definition schema_state :: state where
  "schema_state =
     \<lparr>classes = (\<lambda>n. None)
        (''ModelOne'' := Some \<lparr>cls_name = ''ModelOne'', cls_table = (0, ''app.modelone''),
                              cls_metadata = 0, cls_attrs = [''pk''],
                              cls_columntoproperty = [(schema_pk1, ''pk'')],
                              cls_primary_key = [schema_pk1], cls_relationships = None\<rparr>,
         ''ModelTwo'' := Some \<lparr>cls_name = ''ModelTwo'', cls_table = (0, ''app.modeltwo''),
                              cls_metadata = 0, cls_attrs = [''pk''],
                              cls_columntoproperty = [(schema_pk2, ''pk'')],
                              cls_primary_key = [schema_pk2], cls_relationships = None\<rparr>),
      metadata_tables = (\<lambda>m. (\<lambda>n. None))
        (0 := (\<lambda>n. None)
           (''app.modelone'' := Some \<lparr>t_name = ''modelone'', t_schema = Some ''app'',
                                     t_columns = [schema_pk1], t_primary_key = [schema_pk1],
                                     t_constraints = [], t_kwargs = []\<rparr>,
            ''app.modeltwo'' := Some \<lparr>t_name = ''modeltwo'', t_schema = Some ''app'',
                                     t_columns = [schema_pk2], t_primary_key = [schema_pk2],
                                     t_constraints = [], t_kwargs = []\<rparr>))\<rparr>"

text \<open>
  One model, \<^verbatim>\<open>Node\<close>, with the integer primary key \<^verbatim>\<open>id\<close>.
\<close>

definition node_id :: column where
  "node_id = \<lparr>c_name = ''id'', c_type = ''Integer'', c_nullable = PBool False,
              c_primary_key = True, c_table = Some (0, ''node'')\<rparr>"

definition node_state :: state where
  "node_state =
     \<lparr>classes = (\<lambda>n. None)
        (''Node'' := Some \<lparr>cls_name = ''Node'', cls_table = (0, ''node''), cls_metadata = 0,
                          cls_attrs = [''id''], cls_columntoproperty = [(node_id, ''id'')],
                          cls_primary_key = [node_id], cls_relationships = None\<rparr>),
      metadata_tables = (\<lambda>m. (\<lambda>n. None))
        (0 := (\<lambda>n. None)
           (''node'' := Some \<lparr>t_name = ''node'', t_schema = None, t_columns = [node_id],
                             t_primary_key = [node_id], t_constraints = [], t_kwargs = []\<rparr>))\<rparr>"

text \<open>
  The second example of the docstring of \<^verbatim>\<open>ManyToMany\<close>: both models declare the
  relation with \<^verbatim>\<open>back_populates\<close> and the same \<^verbatim>\<open>table_name\<close>, and both attributes are
  evaluated.
\<close>

definition declare_both :: "state \<Rightarrow> (error \<times> state) + state" where
  "declare_both st =
     (case ManyToMany ''ModelTwo'' (Some ''m1m2s'') [(''back_populates'', PStr ''m1s'')]
             ''ModelOne'' st of
        Inl e \<Rightarrow> Inl e
      | Inr (r1, s1) \<Rightarrow>
          (case ManyToMany ''ModelOne'' (Some ''m1m2s'') [(''back_populates'', PStr ''m2s'')]
                  ''ModelTwo'' s1 of
             Inl e \<Rightarrow> Inl e
           | Inr (r2, s2) \<Rightarrow> Inr s2))"

section \<open>Lemmas about dictionaries\<close>

lemma map_of_dict_set: "map_of (dict_set d k v) = (map_of d)(k \<mapsto> v)"
  by (induction d) auto

lemma keys_dict_set: "fst ` set (dict_set d k v) = insert k (fst ` set d)"
proof (induction d)
  case Nil
  then show ?case by simp
next
  case (Cons a d)
  then show ?case by (cases a) (auto simp: rev_image_eqI)
qed

lemma dict_set_fresh: "k \<notin> fst ` set d \<Longrightarrow> dict_set d k v = d @ [(k, v)]"
  by (induction d) auto

lemma distinct_dict_set: "distinct (map fst d) \<Longrightarrow> distinct (map fst (dict_set d k v))"
proof (induction d)
  case Nil
  then show ?case by simp
next
  case (Cons a d)
  then show ?case
    using keys_dict_set [of d k v] by (cases a) auto
qed

lemma map_of_dict_pop: "map_of (dict_pop d k) = (map_of d)(k := None)"
  by (induction d) (auto simp: dict_pop_def)

lemma dict_pop_absent: "k \<notin> fst ` set d \<Longrightarrow> dict_pop d k = d"
  by (induction d) (auto simp: dict_pop_def)

lemma distinct_dict_pop: "distinct (map fst d) \<Longrightarrow> distinct (map fst (dict_pop d k))"
  by (simp add: dict_pop_def distinct_map_filter)

lemma map_of_dict_setdefault:
  "map_of (dict_setdefault d k v) k' = (if k' = k \<and> map_of d k = None then Some v else map_of d k')"
  by (auto simp: dict_setdefault_def map_add_def split: option.splits)

lemma distinct_dict_setdefault:
  "distinct (map fst d) \<Longrightarrow> distinct (map fst (dict_setdefault d k v))"
  by (auto simp: dict_setdefault_def map_of_eq_None_iff split: option.splits)

lemma map_of_dict_update:
  "distinct (map fst e) \<Longrightarrow>
   map_of (dict_update d e) k = (case map_of e k of None \<Rightarrow> map_of d k | Some v \<Rightarrow> Some v)"
proof (induction e arbitrary: d)
  case Nil
  then show ?case by simp
next
  case (Cons a e)
  obtain k' v' where a: "a = (k', v')" by (cases a)
  from Cons.prems a have notin: "map_of e k' = None"
    by (simp add: map_of_eq_None_iff)
  from Cons a notin show ?case
    by (auto simp: map_of_dict_set split: option.splits)
qed

lemma get_kwargs_loop_filter:
  "distinct (map fst (kept @ rest)) \<Longrightarrow> fst ` set opts \<inter> fst ` set rest = {} \<Longrightarrow>
   get_kwargs_loop (map fst rest) prefix opts (kept @ rest) =
     Inr (opts @ filter (\<lambda>kv. startswith (fst kv) prefix) rest,
          kept @ filter (\<lambda>kv. \<not> startswith (fst kv) prefix) rest)"
proof (induction rest arbitrary: opts kept)
  case Nil
  then show ?case by simp
next
  case (Cons a rest)
  obtain k v where a: "a = (k, v)" by (cases a)
  from Cons.prems a have k_kept: "k \<notin> fst ` set kept" and k_rest: "k \<notin> fst ` set rest"
    and k_opts: "k \<notin> fst ` set opts" and d: "distinct (map fst (kept @ rest))"
    by auto
  show ?case
  proof (cases "startswith k prefix")
    case True
    from k_kept have look: "map_of (kept @ a # rest) k = Some v"
      by (simp add: a map_add_def map_of_eq_None_iff [THEN iffD2] split: option.splits)
    have pop: "dict_pop (kept @ a # rest) k = kept @ rest"
      using dict_pop_absent [OF k_kept] dict_pop_absent [OF k_rest] by (simp add: dict_pop_def a)
    have disj: "fst ` set (opts @ [(k, v)]) \<inter> fst ` set rest = {}"
      using Cons.prems(2) k_rest by auto
    from Cons.IH [OF d disj] True look pop k_opts show ?thesis
      by (simp add: a dict_set_fresh)
  next
    case False
    have d': "distinct (map fst ((kept @ [a]) @ rest))"
      using Cons.prems(1) by simp
    have disj: "fst ` set opts \<inter> fst ` set rest = {}"
      using Cons.prems(2) by auto
    from Cons.IH [OF d' disj] False show ?thesis
      by (simp add: a)
  qed
qed

lemma get_kwargs_for_relation_filter:
  assumes "distinct (map fst kwargs)"
  shows "get_kwargs_for_relation kwargs prefix =
           Inr (filter (\<lambda>kv. startswith (fst kv) prefix) kwargs,
                filter (\<lambda>kv. \<not> startswith (fst kv) prefix) kwargs)"
  using get_kwargs_loop_filter [of "[]" kwargs "[]" prefix] assms
  by (simp add: get_kwargs_for_relation_def)

section \<open>The builders\<close>

lemma map_of_filter_key:
  "map_of (filter (\<lambda>kv. P (fst kv)) d) k = (if P k then map_of d k else None)"
  by (induction d) auto

lemma map_of_filter_startswith:
  "map_of (filter (\<lambda>kv. startswith (fst kv) p) d) k = (if startswith k p then map_of d k else None)"
  by (induction d) auto

lemma map_of_filter_not_startswith:
  "map_of (filter (\<lambda>kv. \<not> startswith (fst kv) p) d) k = (if startswith k p then None else map_of d k)"
  by (induction d) auto

lemma startswith_fk_names:
  "startswith k ''fk_'' \<Longrightarrow> k \<noteq> ''info'' \<and> k \<noteq> ''uselist'' \<and> k \<noteq> ''backref'' \<and> k \<noteq> ''table_name''"
  by auto

lemma startswith_table_names:
  "startswith k ''table_'' \<Longrightarrow> k \<noteq> ''info'' \<and> k \<noteq> ''uselist'' \<and> k \<noteq> ''backref''"
  by auto

lemma startswith_fk_table: "startswith k ''fk_'' \<Longrightarrow> \<not> startswith k ''table_''"
  by (cases k) auto

lemma info_of_Inr: "info_of kw = Inr d \<Longrightarrow> map_of kw ''info'' = Some (PDict d)"
  by (auto simp: info_of_def dict_get_def split: option.splits pyval.splits)

lemma set_uselist_Inr: "set_uselist v b = Inr kw \<Longrightarrow> map_of kw ''uselist'' = Some (PBool b)"
  by (auto simp: set_uselist_def map_of_dict_set split: pyval.splits)

lemma backref_block_Inr:
  assumes "backref_block k4 u = Inr kw"
  shows "(\<forall>k. k \<noteq> ''backref'' \<longrightarrow> map_of kw k = map_of k4 k) \<and>
         (py_bool (dict_get k4 ''backref'' PNone) = Inr True \<longrightarrow>
            backref_uselist (dict_get kw ''backref'' PNone) u) \<and>
         (py_bool (dict_get k4 ''backref'' PNone) = Inr False \<longrightarrow> kw = k4)"
  using assms
  by (auto simp: backref_block_def Let_def map_of_dict_set backref_uselist_def dict_get_def
      sa_backref_def
      dest!: set_uselist_Inr split: sum.splits prod.splits if_splits)

lemma backref_block_error:
  "backref_block k4 u = Inl e \<Longrightarrow> e = TypeError"
  by (auto simp: backref_block_def Let_def or_empty_dict_def set_uselist_def
      split: sum.splits prod.splits if_splits pyval.splits elim!: py_bool.elims)

lemma phase1:
  assumes d: "distinct (map fst kwargs)"
    and i: "info_of (dict_setdefault kwargs ''info'' (PDict [])) = Inr info"
  defines "k1 \<equiv> dict_setdefault kwargs ''info'' (PDict [])"
  shows "get_kwargs_for_relation k1 ''fk_'' =
           Inr (filter (\<lambda>kv. startswith (fst kv) ''fk_'') k1, filter (\<lambda>kv. \<not> startswith (fst kv) ''fk_'') k1)"
    and "distinct (map fst (filter (\<lambda>kv. startswith (fst kv) ''fk_'') k1))"
    and "distinct (map fst (filter (\<lambda>kv. \<not> startswith (fst kv) ''fk_'') k1))"
    and "\<And>k. k \<noteq> ''info'' \<Longrightarrow> map_of k1 k = map_of kwargs k"
proof -
  have d1: "distinct (map fst k1)" unfolding k1_def using d by (rule distinct_dict_setdefault)
  show "get_kwargs_for_relation k1 ''fk_'' =
           Inr (filter (\<lambda>kv. startswith (fst kv) ''fk_'') k1, filter (\<lambda>kv. \<not> startswith (fst kv) ''fk_'') k1)"
    by (rule get_kwargs_for_relation_filter [OF d1])
  show "distinct (map fst (filter (\<lambda>kv. startswith (fst kv) ''fk_'') k1))"
    using d1 by (simp add: distinct_map_filter)
  show "distinct (map fst (filter (\<lambda>kv. \<not> startswith (fst kv) ''fk_'') k1))"
    using d1 by (simp add: distinct_map_filter)
  show "\<And>k. k \<noteq> ''info'' \<Longrightarrow> map_of k1 k = map_of kwargs k"
    by (simp add: k1_def map_of_dict_setdefault)
qed

lemma o2m_kwargs_result:
  assumes d: "distinct (map fst kwargs)" and r: "o2m_kwargs kwargs = Inr kw"
  shows "\<exists>info. kwargs_result [''fk_''] True False kwargs info kw"
proof -
  let ?k1 = "dict_setdefault kwargs ''info'' (PDict [])"
  let ?opts = "filter (\<lambda>kv. startswith (fst kv) ''fk_'') ?k1"
  let ?k2 = "filter (\<lambda>kv. \<not> startswith (fst kv) ''fk_'') ?k1"
  from r obtain info where i: "info_of ?k1 = Inr info"
    by (auto simp: o2m_kwargs_def Let_def split: sum.splits)
  note p = phase1 [OF d i]
  let ?k4 = "dict_set (dict_set ?k2 ''info'' (PDict (dict_update info ?opts))) ''uselist'' (PBool True)"
  from r i p(1) have b: "backref_block ?k4 False = Inr kw"
    by (simp add: o2m_kwargs_def Let_def)
  have k4: "\<And>k. map_of ?k4 k = (if k = ''uselist'' then Some (PBool True)
      else if k = ''info'' then Some (PDict (dict_update info ?opts))
      else if startswith k ''fk_'' then None else map_of kwargs k)"
    using p(4) by (simp add: map_of_dict_set map_of_filter_not_startswith)
  have bk: "dict_get ?k4 ''backref'' PNone = dict_get kwargs ''backref'' PNone"
    by (simp add: dict_get_def k4)
  have upd: "\<And>k v. startswith k ''fk_'' \<Longrightarrow> map_of kwargs k = Some v \<Longrightarrow>
      map_of (dict_update info ?opts) k = Some v"
    using p(4) startswith_fk_names by (simp add: map_of_dict_update [OF p(2)] map_of_filter_startswith)
  from backref_block_Inr [OF b] show ?thesis
    unfolding kwargs_result_def bk
    by (intro exI [of _ "dict_update info ?opts"]) (simp add: k4 upd)
qed

lemma m2o_kwargs_result:
  assumes d: "distinct (map fst kwargs)" and r: "m2o_kwargs kwargs = Inr kw"
  shows "\<exists>info. kwargs_result [''fk_''] False True kwargs info kw"
proof -
  let ?k1 = "dict_setdefault kwargs ''info'' (PDict [])"
  let ?opts = "filter (\<lambda>kv. startswith (fst kv) ''fk_'') ?k1"
  let ?k2 = "filter (\<lambda>kv. \<not> startswith (fst kv) ''fk_'') ?k1"
  from r obtain info where i: "info_of ?k1 = Inr info"
    by (auto simp: m2o_kwargs_def Let_def split: sum.splits)
  note p = phase1 [OF d i]
  let ?k4 = "dict_set (dict_set ?k2 ''info'' (PDict (dict_update info ?opts))) ''uselist'' (PBool False)"
  from r i p(1) have b: "backref_block ?k4 True = Inr kw"
    by (simp add: m2o_kwargs_def Let_def)
  have k4: "\<And>k. map_of ?k4 k = (if k = ''uselist'' then Some (PBool False)
      else if k = ''info'' then Some (PDict (dict_update info ?opts))
      else if startswith k ''fk_'' then None else map_of kwargs k)"
    using p(4) by (simp add: map_of_dict_set map_of_filter_not_startswith)
  have bk: "dict_get ?k4 ''backref'' PNone = dict_get kwargs ''backref'' PNone"
    by (simp add: dict_get_def k4)
  have upd: "\<And>k v. startswith k ''fk_'' \<Longrightarrow> map_of kwargs k = Some v \<Longrightarrow>
      map_of (dict_update info ?opts) k = Some v"
    using p(4) startswith_fk_names by (simp add: map_of_dict_update [OF p(2)] map_of_filter_startswith)
  from backref_block_Inr [OF b] show ?thesis
    unfolding kwargs_result_def bk
    by (intro exI [of _ "dict_update info ?opts"]) (simp add: k4 upd)
qed

lemma m2m_kwargs_result:
  assumes d: "distinct (map fst kwargs)" and r: "m2m_kwargs tn kwargs = Inr kw"
  shows "\<exists>info. kwargs_result [''fk_'', ''table_''] True True kwargs info kw \<and>
           (\<forall>n. tn = Some n \<longrightarrow> n \<noteq> [] \<longrightarrow> map_of info ''table_name'' = Some (PStr n))"
proof -
  let ?k1 = "dict_setdefault kwargs ''info'' (PDict [])"
  let ?opts = "filter (\<lambda>kv. startswith (fst kv) ''fk_'') ?k1"
  let ?k2 = "filter (\<lambda>kv. \<not> startswith (fst kv) ''fk_'') ?k1"
  let ?topts = "filter (\<lambda>kv. startswith (fst kv) ''table_'') ?k2"
  let ?k3 = "filter (\<lambda>kv. \<not> startswith (fst kv) ''table_'') ?k2"
  from r obtain info where i: "info_of ?k1 = Inr info"
    by (auto simp: m2m_kwargs_def Let_def split: sum.splits)
  note p = phase1 [OF d i]
  have t: "get_kwargs_for_relation ?k2 ''table_'' = Inr (?topts, ?k3)"
    by (rule get_kwargs_for_relation_filter [OF p(3)])
  have dt: "distinct (map fst ?topts)"
    using p(3) by (rule distinct_map_filter)
  let ?info2 = "dict_update (dict_update info ?opts) ?topts"
  let ?info3 = "case tn of None \<Rightarrow> ?info2
      | Some n \<Rightarrow> if n \<noteq> [] then dict_set ?info2 ''table_name'' (PStr n) else ?info2"
  let ?k5 = "dict_set (dict_set ?k3 ''info'' (PDict ?info3)) ''uselist'' (PBool True)"
  from r i p(1) t have b: "backref_block ?k5 True = Inr kw"
    by (simp add: m2m_kwargs_def Let_def del: filter_filter)
  have k5: "\<And>k. map_of ?k5 k = (if k = ''uselist'' then Some (PBool True)
      else if k = ''info'' then Some (PDict ?info3)
      else if startswith k ''fk_'' \<or> startswith k ''table_'' then None else map_of kwargs k)"
    using p(4) by (simp add: map_of_dict_set map_of_filter_not_startswith del: filter_filter)
  have bk: "dict_get ?k5 ''backref'' PNone = dict_get kwargs ''backref'' PNone"
    by (simp add: dict_get_def k5 del: filter_filter)
  have info2: "\<And>k v. startswith k ''fk_'' \<or> startswith k ''table_'' \<Longrightarrow> map_of kwargs k = Some v \<Longrightarrow>
      map_of ?info2 k = Some v"
    using p(4) startswith_fk_names startswith_table_names startswith_fk_table
    by (auto simp: map_of_dict_update [OF p(2)] map_of_dict_update [OF dt]
        map_of_filter_startswith map_of_filter_not_startswith simp del: filter_filter
        split: option.splits)
  have info3: "\<And>k v. startswith k ''fk_'' \<or> startswith k ''table_'' \<Longrightarrow> k \<noteq> ''table_name'' \<Longrightarrow>
      map_of kwargs k = Some v \<Longrightarrow> map_of ?info3 k = Some v"
    using info2 by (simp add: map_of_dict_set del: filter_filter split: option.splits)
  have tn: "\<And>n. tn = Some n \<Longrightarrow> n \<noteq> [] \<Longrightarrow> map_of ?info3 ''table_name'' = Some (PStr n)"
    by (simp add: map_of_dict_set del: filter_filter)
  from backref_block_Inr [OF b] tn show ?thesis
    unfolding kwargs_result_def bk
    by (intro exI [of _ ?info3]) (simp add: k5 info3 del: filter_filter)
qed

lemma store_class_twice: "store_class c cl (store_class c cl' st) = store_class c cl st"
  by (simp add: store_class_def)

lemma setdefaultattr_rels:
  assumes "setdefaultattr_relationships cl0 = (rels, cl)"
  shows "rels = getattr_relationships cl0"
    and "cl\<lparr>cls_relationships := Some x\<rparr> = cl0\<lparr>cls_relationships := Some x\<rparr>"
  using assms
  by (auto simp: setdefaultattr_relationships_def getattr_relationships_def split: option.splits)

lemma register_frame:
  assumes cl0: "classes st c = Some cl0"
    and sd: "setdefaultattr_relationships cl0 = (rels, cl)"
  shows "registered_only c rel st (rels_add c cl rels rel (store_class c cl st))"
  using cl0 setdefaultattr_rels [OF sd]
  by (simp add: registered_only_def rels_add_def store_class_def)

lemma OneToMany_Inr:
  assumes "OneToMany remote kwargs c st = Inr (rel, st')"
  shows "\<exists>kw. o2m_kwargs kwargs = Inr kw \<and>
           rel = (sa_relationship remote kw)\<lparr>rel_direction := Some ONETOMANY\<rparr> \<and>
           registered_only c rel st st'"
  using assms
  by (auto simp: OneToMany_def Let_def register_frame split: option.splits sum.splits prod.splits)

lemma ManyToOne_Inr:
  assumes "ManyToOne remote kwargs c st = Inr (rel, st')"
  shows "\<exists>kw. m2o_kwargs kwargs = Inr kw \<and>
           rel = (sa_relationship remote kw)\<lparr>rel_direction := Some MANYTOONE\<rparr> \<and>
           registered_only c rel st st'"
  using assms
  by (auto simp: ManyToOne_def Let_def register_frame split: option.splits sum.splits prod.splits)

lemma ManyToMany_Inr:
  assumes "ManyToMany remote tn kwargs c st = Inr (rel, st')"
  shows "\<exists>kw. m2m_kwargs tn kwargs = Inr kw \<and>
           rel = (sa_relationship remote kw)\<lparr>rel_direction := Some MANYTOMANY\<rparr> \<and>
           registered_only c rel st st' \<and> \<not> (map_of kwargs ''secondary'' = None \<and> tn = None)"
  using assms
  by (auto simp: ManyToMany_def Let_def register_frame
      split: option.splits sum.splits prod.splits if_splits)

lemma kwargs_result_moved:
  assumes kr: "kwargs_result prefixes u bu kwargs info kw"
    and pre: "\<And>k. \<exists>p \<in> set prefixes. startswith k p \<Longrightarrow> k \<notin> {''info'', ''uselist'', ''backref''}"
  shows "options_moved prefixes kwargs ((sa_relationship remote kw)\<lparr>rel_direction := d\<rparr>)"
    and "shape_forced u bu kwargs ((sa_relationship remote kw)\<lparr>rel_direction := d\<rparr>)"
proof -
  let ?rel = "(sa_relationship remote kw)\<lparr>rel_direction := d\<rparr>"
  note a = kr [unfolded kwargs_result_def]
  note i = a [THEN conjunct1]
  note u = a [THEN conjunct2, THEN conjunct1]
  note b = a [THEN conjunct2, THEN conjunct2, THEN conjunct1]
  note o = a [THEN conjunct2, THEN conjunct2, THEN conjunct2, THEN conjunct1, rule_format]
  note m = a [THEN conjunct2, THEN conjunct2, THEN conjunct2, THEN conjunct2, rule_format]
  have ri: "rel_info ?rel = info" and rk: "rel_kwargs ?rel = kw"
    and rb: "rel_backref ?rel = dict_get kw ''backref'' PNone"
    using i by (simp_all add: sa_relationship_def)
  show "options_moved prefixes kwargs ?rel"
    unfolding options_moved_def ri rk
  proof (intro allI)
    fix k
    show "if \<exists>p\<in>set prefixes. startswith k p
          then map_of kw k = None \<and>
               (\<forall>v. k \<noteq> ''table_name'' \<longrightarrow> map_of kwargs k = Some v \<longrightarrow> map_of info k = Some v)
          else k \<notin> {''info'', ''uselist'', ''backref''} \<longrightarrow> map_of kw k = map_of kwargs k"
    proof (cases "\<exists>p\<in>set prefixes. startswith k p")
      case True
      from o [OF pre [OF True]] True m [OF True] show ?thesis by simp
    next
      case False
      with o [of k] show ?thesis by simp
    qed
  qed
  show "shape_forced u bu kwargs ?rel"
    unfolding shape_forced_def rk rb using u b by simp
qed

lemma fk_prefix_names:
  "\<exists>p \<in> set [''fk_'']. startswith k p \<Longrightarrow> k \<notin> {''info'', ''uselist'', ''backref''}"
  using startswith_fk_names [of k] by simp

lemma fk_table_prefix_names:
  "\<exists>p \<in> set [''fk_'', ''table_'']. startswith k p \<Longrightarrow> k \<notin> {''info'', ''uselist'', ''backref''}"
  using startswith_fk_names [of k] startswith_table_names [of k] by auto

lemma get_kwargs_loop_error:
  "get_kwargs_loop ks prefix opts kwargs = Inl e \<Longrightarrow> \<exists>k. e = KeyError k"
  by (induction ks prefix opts kwargs rule: get_kwargs_loop.induct)
     (auto split: if_splits option.splits)

lemma info_of_error: "info_of kw = Inl e \<Longrightarrow> e = AttributeError \<or> e = NotModelled"
  by (auto simp: info_of_def split: pyval.splits)

lemma m2m_kwargs_error:
  assumes "m2m_kwargs tn kwargs = Inl e"
  shows "\<forall>msg. e \<noteq> ArgumentError msg"
  using assms
  by (auto simp: m2m_kwargs_def Let_def get_kwargs_for_relation_def
      split: sum.splits prod.splits
      dest!: get_kwargs_loop_error info_of_error backref_block_error)

lemma ManyToMany_guard:
  "map_of kwargs ''secondary'' = None \<and> tn = None \<Longrightarrow>
   ManyToMany remote tn kwargs c st = Inl (ArgumentError m2m_message, st)"
  by (simp add: ManyToMany_def)

lemma ManyToMany_no_other_ArgumentError:
  assumes "ManyToMany remote tn kwargs c st = Inl (ArgumentError msg, st')"
  shows "map_of kwargs ''secondary'' = None \<and> tn = None"
proof (rule ccontr)
  assume n: "\<not> (map_of kwargs ''secondary'' = None \<and> tn = None)"
  with assms show False
    by (auto simp: ManyToMany_def Let_def split: option.splits sum.splits prod.splits
        dest!: m2m_kwargs_error)
qed

lemma registered_untouched:
  assumes "registered_only c rel st st'"
  shows "schema_untouched st st'"
proof -
  from assms have m: "metadata_tables st' = metadata_tables st"
    and o: "\<And>c'. c' \<noteq> c \<Longrightarrow> classes st' c' = classes st c'"
    and s: "\<exists>cl. classes st c = Some cl \<and>
           classes st' c = Some (cl\<lparr>cls_relationships := Some (getattr_relationships cl @ [rel])\<rparr>)"
    by (auto simp: registered_only_def)
  have "map_option (\<lambda>cl. cl\<lparr>cls_relationships := None\<rparr>) (classes st' c') =
        map_option (\<lambda>cl. cl\<lparr>cls_relationships := None\<rparr>) (classes st c')" for c'
    using o [of c'] s by (cases "c' = c") auto
  with m show ?thesis by (simp add: schema_untouched_def)
qed

lemma store_untouched:
  assumes "classes st c = Some cl0" and "setdefaultattr_relationships cl0 = (rels, cl)"
  shows "schema_untouched st (store_class c cl st)"
  using assms
  by (auto simp: schema_untouched_def store_class_def setdefaultattr_relationships_def
      split: option.splits)

lemma untouched_refl: "schema_untouched st st"
  by (simp add: schema_untouched_def)

lemma OneToMany_Inl:
  assumes "OneToMany remote kwargs c st = Inl (e, st')"
  shows "schema_untouched st st'"
  using assms
  by (auto simp: OneToMany_def Let_def store_untouched untouched_refl
      split: option.splits sum.splits prod.splits)

lemma ManyToOne_Inl:
  assumes "ManyToOne remote kwargs c st = Inl (e, st')"
  shows "schema_untouched st st'"
  using assms
  by (auto simp: ManyToOne_def Let_def store_untouched untouched_refl
      split: option.splits sum.splits prod.splits)

lemma ManyToMany_Inl:
  assumes "ManyToMany remote tn kwargs c st = Inl (e, st')"
  shows "schema_untouched st st'"
  using assms
  by (auto simp: ManyToMany_def Let_def store_untouched untouched_refl
      split: option.splits sum.splits prod.splits if_splits)

section \<open>Theorems about the builders\<close>

text \<open>
  Claim C10. Before the relationship is constructed, every keyword argument whose name
  starts with \<^verbatim>\<open>fk_\<close> (and, for \<^verbatim>\<open>ManyToMany\<close>, with \<^verbatim>\<open>table_\<close>) is removed from the
  keyword arguments and stored in the \<^verbatim>\<open>info\<close> dictionary of the relation, so it never
  reaches the constructor of the host; all other keyword arguments are left in place.
  For keyword arguments with distinct keys (a Python dictionary),
  \<^verbatim>\<open>_get_kwargs_for_relation\<close> returns the entries whose key starts with the prefix and
  leaves the others, in their order, and each of the three builders hands the constructor
  keyword arguments for which \<open>options_moved\<close> holds.
\<close>

theorem builders_move_options:
  assumes "distinct (map fst kwargs)"
  shows "get_kwargs_for_relation kwargs prefix =
           Inr (filter (\<lambda>kv. startswith (fst kv) prefix) kwargs,
                filter (\<lambda>kv. \<not> startswith (fst kv) prefix) kwargs) \<and>
         (\<forall>remote c st rel st'. OneToMany remote kwargs c st = Inr (rel, st') \<longrightarrow>
            options_moved [''fk_''] kwargs rel) \<and>
         (\<forall>remote c st rel st'. ManyToOne remote kwargs c st = Inr (rel, st') \<longrightarrow>
            options_moved [''fk_''] kwargs rel) \<and>
         (\<forall>remote tn c st rel st'. ManyToMany remote tn kwargs c st = Inr (rel, st') \<longrightarrow>
            options_moved [''fk_'', ''table_''] kwargs rel)"
proof (intro conjI allI impI)
  show "get_kwargs_for_relation kwargs prefix =
           Inr (filter (\<lambda>kv. startswith (fst kv) prefix) kwargs,
                filter (\<lambda>kv. \<not> startswith (fst kv) prefix) kwargs)"
    using assms by (rule get_kwargs_for_relation_filter)
next
  fix remote c st rel st'
  assume "OneToMany remote kwargs c st = Inr (rel, st')"
  from OneToMany_Inr [OF this] obtain kw where kw: "o2m_kwargs kwargs = Inr kw"
    and rel: "rel = (sa_relationship remote kw)\<lparr>rel_direction := Some ONETOMANY\<rparr>"
    by auto
  from o2m_kwargs_result [OF assms kw] obtain info where "kwargs_result [''fk_''] True False kwargs info kw"
    by auto
  then show "options_moved [''fk_''] kwargs rel"
    unfolding rel using fk_prefix_names by (rule kwargs_result_moved(1))
next
  fix remote c st rel st'
  assume "ManyToOne remote kwargs c st = Inr (rel, st')"
  from ManyToOne_Inr [OF this] obtain kw where kw: "m2o_kwargs kwargs = Inr kw"
    and rel: "rel = (sa_relationship remote kw)\<lparr>rel_direction := Some MANYTOONE\<rparr>"
    by auto
  from m2o_kwargs_result [OF assms kw] obtain info where "kwargs_result [''fk_''] False True kwargs info kw"
    by auto
  then show "options_moved [''fk_''] kwargs rel"
    unfolding rel using fk_prefix_names by (rule kwargs_result_moved(1))
next
  fix remote tn c st rel st'
  assume "ManyToMany remote tn kwargs c st = Inr (rel, st')"
  from ManyToMany_Inr [OF this] obtain kw where kw: "m2m_kwargs tn kwargs = Inr kw"
    and rel: "rel = (sa_relationship remote kw)\<lparr>rel_direction := Some MANYTOMANY\<rparr>"
    by auto
  from m2m_kwargs_result [OF assms kw] obtain info where "kwargs_result [''fk_'', ''table_''] True True kwargs info kw"
    by auto
  then show "options_moved [''fk_'', ''table_''] kwargs rel"
    unfolding rel using fk_table_prefix_names by (rule kwargs_result_moved(1))
qed

theorem builders_move_options_witness:
  "distinct (map fst demo_kwargs) \<and>
   get_kwargs_for_relation demo_kwargs ''fk_'' =
     Inr ([(''fk_nullable'', PBool False)], [(''backref'', PStr ''m1''), (''lazy'', PStr ''joined'')]) \<and>
   (\<exists>rel st'. OneToMany ''ModelTwo'' demo_kwargs ''ModelOne'' demo_state = Inr (rel, st') \<and>
      map_of (rel_kwargs rel) ''fk_nullable'' = None \<and>
      map_of (rel_info rel) ''fk_nullable'' = Some (PBool False) \<and>
      map_of (rel_kwargs rel) ''lazy'' = Some (PStr ''joined''))"
proof -
  have d: "distinct (map fst demo_kwargs)"
    by (simp add: demo_kwargs_def)
  have "case OneToMany ''ModelTwo'' demo_kwargs ''ModelOne'' demo_state of
          Inl e \<Rightarrow> False | Inr r \<Rightarrow> True"
    by code_simp
  then obtain rel st' where
    run: "OneToMany ''ModelTwo'' demo_kwargs ''ModelOne'' demo_state = Inr (rel, st')"
    by (auto split: sum.splits)
  note t = builders_move_options [OF d, of "''fk_''"]
  from t have g: "get_kwargs_for_relation demo_kwargs ''fk_'' =
      Inr ([(''fk_nullable'', PBool False)], [(''backref'', PStr ''m1''), (''lazy'', PStr ''joined'')])"
    by (simp add: demo_kwargs_def)
  from t run have "options_moved [''fk_''] demo_kwargs rel"
    by blast
  then have m: "\<And>k. if (\<exists>p \<in> set [''fk_'']. startswith k p)
      then map_of (rel_kwargs rel) k = None \<and>
           (\<forall>v. k \<noteq> ''table_name'' \<longrightarrow> map_of demo_kwargs k = Some v \<longrightarrow> map_of (rel_info rel) k = Some v)
      else (k \<notin> {''info'', ''uselist'', ''backref''} \<longrightarrow>
            map_of (rel_kwargs rel) k = map_of demo_kwargs k)"
    by (simp add: options_moved_def)
  from m [of "''fk_nullable''"] m [of "''lazy''"]
  have "map_of (rel_kwargs rel) ''fk_nullable'' = None \<and>
      map_of (rel_info rel) ''fk_nullable'' = Some (PBool False) \<and>
      map_of (rel_kwargs rel) ''lazy'' = Some (PStr ''joined'')"
    by (simp add: demo_kwargs_def)
  with d g run show ?thesis by blast
qed

text \<open>
  Claim C8. The builders force the collection shape whatever the caller supplied:
  \<^verbatim>\<open>OneToMany\<close> passes \<^verbatim>\<open>uselist=True\<close> for the relation and \<^verbatim>\<open>uselist=False\<close> for a
  backref that is given, \<^verbatim>\<open>ManyToOne\<close> passes \<^verbatim>\<open>False\<close> and \<^verbatim>\<open>True\<close>, and
  \<^verbatim>\<open>ManyToMany\<close> passes \<^verbatim>\<open>True\<close> for both. This holds of every relationship that a
  builder returns, for all keyword arguments with distinct keys.
\<close>

theorem builders_force_uselist:
  assumes "distinct (map fst kwargs)"
  shows "(\<forall>remote c st rel st'. OneToMany remote kwargs c st = Inr (rel, st') \<longrightarrow>
            shape_forced True False kwargs rel) \<and>
         (\<forall>remote c st rel st'. ManyToOne remote kwargs c st = Inr (rel, st') \<longrightarrow>
            shape_forced False True kwargs rel) \<and>
         (\<forall>remote tn c st rel st'. ManyToMany remote tn kwargs c st = Inr (rel, st') \<longrightarrow>
            shape_forced True True kwargs rel)"
proof (intro conjI allI impI)
  fix remote c st rel st'
  assume "OneToMany remote kwargs c st = Inr (rel, st')"
  from OneToMany_Inr [OF this] obtain kw where kw: "o2m_kwargs kwargs = Inr kw"
    and rel: "rel = (sa_relationship remote kw)\<lparr>rel_direction := Some ONETOMANY\<rparr>"
    by auto
  from o2m_kwargs_result [OF assms kw] obtain info where "kwargs_result [''fk_''] True False kwargs info kw"
    by auto
  then show "shape_forced True False kwargs rel"
    unfolding rel using fk_prefix_names by (rule kwargs_result_moved(2))
next
  fix remote c st rel st'
  assume "ManyToOne remote kwargs c st = Inr (rel, st')"
  from ManyToOne_Inr [OF this] obtain kw where kw: "m2o_kwargs kwargs = Inr kw"
    and rel: "rel = (sa_relationship remote kw)\<lparr>rel_direction := Some MANYTOONE\<rparr>"
    by auto
  from m2o_kwargs_result [OF assms kw] obtain info where "kwargs_result [''fk_''] False True kwargs info kw"
    by auto
  then show "shape_forced False True kwargs rel"
    unfolding rel using fk_prefix_names by (rule kwargs_result_moved(2))
next
  fix remote tn c st rel st'
  assume "ManyToMany remote tn kwargs c st = Inr (rel, st')"
  from ManyToMany_Inr [OF this] obtain kw where kw: "m2m_kwargs tn kwargs = Inr kw"
    and rel: "rel = (sa_relationship remote kw)\<lparr>rel_direction := Some MANYTOMANY\<rparr>"
    by auto
  from m2m_kwargs_result [OF assms kw] obtain info where "kwargs_result [''fk_'', ''table_''] True True kwargs info kw"
    by auto
  then show "shape_forced True True kwargs rel"
    unfolding rel using fk_table_prefix_names by (rule kwargs_result_moved(2))
qed

theorem builders_force_uselist_witness:
  "distinct (map fst demo_kwargs_shape) \<and>
   (\<exists>rel st'. OneToMany ''ModelTwo'' demo_kwargs_shape ''ModelOne'' demo_state = Inr (rel, st') \<and>
      map_of (rel_kwargs rel) ''uselist'' = Some (PBool True) \<and>
      backref_uselist (rel_backref rel) False) \<and>
   (\<exists>rel st'. ManyToOne ''ModelTwo'' demo_kwargs_shape ''ModelOne'' demo_state = Inr (rel, st') \<and>
      map_of (rel_kwargs rel) ''uselist'' = Some (PBool False) \<and>
      backref_uselist (rel_backref rel) True) \<and>
   (\<exists>rel st'. ManyToMany ''ModelTwo'' (Some ''m1m2s'') demo_kwargs_shape ''ModelOne'' demo_state =
        Inr (rel, st') \<and>
      map_of (rel_kwargs rel) ''uselist'' = Some (PBool True) \<and>
      backref_uselist (rel_backref rel) True)"
proof -
  have d: "distinct (map fst demo_kwargs_shape)"
    by (simp add: demo_kwargs_shape_def)
  have b: "py_bool (dict_get demo_kwargs_shape ''backref'' PNone) = Inr True"
    by (simp add: demo_kwargs_shape_def dict_get_def)
  have "case OneToMany ''ModelTwo'' demo_kwargs_shape ''ModelOne'' demo_state of
          Inl e \<Rightarrow> False | Inr r \<Rightarrow> True"
    by code_simp
  then obtain rel1 st1 where
    run1: "OneToMany ''ModelTwo'' demo_kwargs_shape ''ModelOne'' demo_state = Inr (rel1, st1)"
    by (auto split: sum.splits)
  have "case ManyToOne ''ModelTwo'' demo_kwargs_shape ''ModelOne'' demo_state of
          Inl e \<Rightarrow> False | Inr r \<Rightarrow> True"
    by code_simp
  then obtain rel2 st2 where
    run2: "ManyToOne ''ModelTwo'' demo_kwargs_shape ''ModelOne'' demo_state = Inr (rel2, st2)"
    by (auto split: sum.splits)
  have "case ManyToMany ''ModelTwo'' (Some ''m1m2s'') demo_kwargs_shape ''ModelOne'' demo_state of
          Inl e \<Rightarrow> False | Inr r \<Rightarrow> True"
    by code_simp
  then obtain rel3 st3 where
    run3: "ManyToMany ''ModelTwo'' (Some ''m1m2s'') demo_kwargs_shape ''ModelOne'' demo_state =
             Inr (rel3, st3)"
    by (auto split: sum.splits)
  note t = builders_force_uselist [OF d]
  from t run1 have "shape_forced True False demo_kwargs_shape rel1" by blast
  with b have s1: "map_of (rel_kwargs rel1) ''uselist'' = Some (PBool True) \<and>
      backref_uselist (rel_backref rel1) False"
    by (simp add: shape_forced_def)
  from t run2 have "shape_forced False True demo_kwargs_shape rel2" by blast
  with b have s2: "map_of (rel_kwargs rel2) ''uselist'' = Some (PBool False) \<and>
      backref_uselist (rel_backref rel2) True"
    by (simp add: shape_forced_def)
  from t run3 have "shape_forced True True demo_kwargs_shape rel3" by blast
  with b have s3: "map_of (rel_kwargs rel3) ''uselist'' = Some (PBool True) \<and>
      backref_uselist (rel_backref rel3) True"
    by (simp add: shape_forced_def)
  from d run1 s1 run2 s2 run3 s3 show ?thesis by blast
qed

text \<open>
  Claim C4. Evaluating the attribute that \<^verbatim>\<open>ManyToMany\<close> returns raises the
  \<^verbatim>\<open>ArgumentError\<close> exactly when the caller gave neither a \<^verbatim>\<open>secondary\<close> keyword
  argument nor a \<^verbatim>\<open>table_name\<close>; the exception is raised at once, in the unchanged
  state, so no relationship is registered. The first equivalence is for the exception
  with the module's message in the state of the call, the second says that no other path
  of the attribute ends in an \<^verbatim>\<open>ArgumentError\<close> of any message or state.
\<close>

theorem m2m_argument_error:
  "(ManyToMany remote tn kwargs c st = Inl (ArgumentError m2m_message, st)) =
     (map_of kwargs ''secondary'' = None \<and> tn = None) \<and>
   (\<exists>msg st'. ManyToMany remote tn kwargs c st = Inl (ArgumentError msg, st')) =
     (map_of kwargs ''secondary'' = None \<and> tn = None)"
  using ManyToMany_guard [of kwargs tn remote c st]
    ManyToMany_no_other_ArgumentError [of remote tn kwargs c st]
  by blast

theorem m2m_argument_error_witness:
  "ManyToMany ''ModelTwo'' None [(''back_populates'', PStr ''m1s'')] ''ModelOne'' demo_state =
     Inl (ArgumentError m2m_message, demo_state) \<and>
   (\<nexists>msg st'. ManyToMany ''ModelTwo'' (Some ''m1m2s'') [(''back_populates'', PStr ''m1s'')]
      ''ModelOne'' demo_state = Inl (ArgumentError msg, st')) \<and>
   (\<nexists>msg st'. ManyToMany ''ModelTwo'' None [(''secondary'', PTable (0, ''modelone''))]
      ''ModelOne'' demo_state = Inl (ArgumentError msg, st'))"
  using m2m_argument_error [of "''ModelTwo''" None "[(''back_populates'', PStr ''m1s'')]"
      "''ModelOne''" demo_state]
    m2m_argument_error [of "''ModelTwo''" "Some ''m1m2s''" "[(''back_populates'', PStr ''m1s'')]"
      "''ModelOne''" demo_state]
    m2m_argument_error [of "''ModelTwo''" None "[(''secondary'', PTable (0, ''modelone''))]"
      "''ModelOne''" demo_state]
  by simp

text \<open>
  Claim C6. \<^verbatim>\<open>OneToMany\<close>, \<^verbatim>\<open>ManyToOne\<close> and \<^verbatim>\<open>ManyToMany\<close> each return a
  declarative attribute that is evaluated later (\<open>OneToMany remote kwargs\<close> is a function
  of the class and the state, so the call itself touches no state), and evaluating the
  attribute creates no column, constraint or table: it leaves every table as it is,
  leaves every other class as it is, and changes the class in its pending set only, to
  which it adds the relationship it returns. When the evaluation raises, the tables and
  the classes up to their pending sets are as before as well.
\<close>

theorem builders_only_register:
  "(OneToMany remote kwargs c st = Inr (rel, st') \<longrightarrow> registered_only c rel st st') \<and>
   (ManyToOne remote kwargs c st = Inr (rel, st') \<longrightarrow> registered_only c rel st st') \<and>
   (ManyToMany remote tn kwargs c st = Inr (rel, st') \<longrightarrow> registered_only c rel st st') \<and>
   (OneToMany remote kwargs c st = Inl (e, st') \<longrightarrow> schema_untouched st st') \<and>
   (ManyToOne remote kwargs c st = Inl (e, st') \<longrightarrow> schema_untouched st st') \<and>
   (ManyToMany remote tn kwargs c st = Inl (e, st') \<longrightarrow> schema_untouched st st')"
  using OneToMany_Inr [of remote kwargs c st rel st'] ManyToOne_Inr [of remote kwargs c st rel st']
    ManyToMany_Inr [of remote tn kwargs c st rel st'] OneToMany_Inl [of remote kwargs c st e st']
    ManyToOne_Inl [of remote kwargs c st e st'] ManyToMany_Inl [of remote tn kwargs c st e st']
  by blast

theorem builders_only_register_witness:
  "\<exists>rel st'. OneToMany ''ModelTwo'' demo_kwargs ''ModelOne'' demo_state = Inr (rel, st') \<and>
     metadata_tables st' = metadata_tables demo_state \<and>
     classes st' ''ModelTwo'' = Some demo_class2 \<and>
     classes st' ''ModelOne'' = Some (demo_class1\<lparr>cls_relationships := Some [rel]\<rparr>)"
proof -
  have "case OneToMany ''ModelTwo'' demo_kwargs ''ModelOne'' demo_state of
          Inl e \<Rightarrow> False | Inr r \<Rightarrow> True"
    by code_simp
  then obtain rel st' where
    run: "OneToMany ''ModelTwo'' demo_kwargs ''ModelOne'' demo_state = Inr (rel, st')"
    by (auto split: sum.splits)
  from builders_only_register [of "''ModelTwo''" demo_kwargs "''ModelOne''" demo_state rel st'] run
  have "registered_only ''ModelOne'' rel demo_state st'"
    by blast
  then have "metadata_tables st' = metadata_tables demo_state \<and>
     classes st' ''ModelTwo'' = Some demo_class2 \<and>
     classes st' ''ModelOne'' = Some (demo_class1\<lparr>cls_relationships := Some [rel]\<rparr>)"
    by (auto simp: registered_only_def demo_state_def demo_class1_def getattr_relationships_def)
  with run show ?thesis by blast
qed

section \<open>Foreign keys\<close>

lemma join_filter_PStr: "join_filter (PStr s) n = Inr (underscore_join s n)"
  by (simp add: join_filter_def underscore_join_def)

lemma lookup_store_table [simp]:
  "lookup_table (store_table r t st) r' = (if r' = r then Some t else lookup_table st r')"
  by (cases r, cases r') (auto simp: lookup_table_def store_table_def)

lemma classes_store_table [simp]: "classes (store_table r t st) = classes st"
  by (simp add: store_table_def)

lemma lookup_store_class [simp]: "lookup_table (store_class c cl st) r = lookup_table st r"
  by (simp add: lookup_table_def store_class_def)

lemma classes_store_class [simp]:
  "classes (store_class c cl st) c' = (if c' = c then Some cl else classes st c')"
  by (simp add: store_class_def)

lemma columns_getitem_Inr:
  "columns_getitem t nm = Inr col \<Longrightarrow> col \<in> set (t_columns t) \<and> c_name col = nm"
  by (auto simp: columns_getitem_def find_Some_iff split: option.splits)

lemma columns_contains_append [simp]:
  "columns_contains (t\<lparr>t_columns := t_columns t @ cs\<rparr>) nm \<longleftrightarrow>
     columns_contains t nm \<or> nm \<in> set (map c_name cs)"
  by (auto simp: columns_contains_def)

lemma setattr_column_Inr:
  assumes "setattr_column c attr col st = Inr (col', st')"
    and "classes st c = Some cl" and "lookup_table st (cls_table cl) = Some t"
  shows "col' = attach (cls_table cl) col"
    and "st' = store_class c
           (cl\<lparr>cls_attrs := attr # cls_attrs cl,
               cls_columntoproperty := dict_set (cls_columntoproperty cl) col' attr\<rparr>)
           (store_table (cls_table cl) (t\<lparr>t_columns := t_columns t @ [col']\<rparr>) st)"
  using assms by (auto simp: setattr_column_def Let_def)

lemma store_differs:
  "store_class c cl (store_table r t st) \<noteq> st" if "lookup_table st r = Some t0" "t \<noteq> t0"
proof
  assume "store_class c cl (store_table r t st) = st"
  then have "lookup_table (store_class c cl (store_table r t st)) r = lookup_table st r" by simp
  with that show False by simp
qed

lemma fk_loop_post:
  assumes "fk_loop c p fk_key fk_prefix fk_nullable pks cols created st = Inr (cols', created', st')"
    and "classes st c = Some cl" and "lookup_table st (cls_table cl) = Some t"
  shows "\<exists>cl' new fks.
      classes st' c = Some cl' \<and> cls_table cl' = cls_table cl \<and>
      cls_relationships cl' = cls_relationships cl \<and> cls_metadata cl' = cls_metadata cl \<and>
      cls_primary_key cl' = cls_primary_key cl \<and> cls_name cl' = cls_name cl \<and>
      lookup_table st' (cls_table cl) = Some (t\<lparr>t_columns := t_columns t @ new\<rparr>) \<and>
      (\<forall>r. r \<noteq> cls_table cl \<longrightarrow> lookup_table st' r = lookup_table st r) \<and>
      (\<forall>c'. c' \<noteq> c \<longrightarrow> classes st' c' = classes st c') \<and>
      (new = [] \<longrightarrow> st' = st) \<and>
      created' = (created \<or> new \<noteq> []) \<and>
      (\<forall>col \<in> set new. \<not> columns_contains t (c_name col)) \<and>
      (\<forall>col \<in> set new. \<exists>pk \<in> set pks. join_filter fk_key (c_name pk) = Inr (c_name col) \<and>
         col = attach (cls_table cl) (sa_Column (c_name col) (c_type pk) fk_nullable False)) \<and>
      cols' = dict_update cols (zip pks fks) \<and> length fks = length pks \<and>
      list_all2 (\<lambda>pk fk. join_filter fk_key (c_name pk) = Inr (c_name fk) \<and>
                   fk \<in> set (t_columns t @ new)) pks fks"
  using assms
proof (induction pks arbitrary: cols created st cl t)
  case Nil
  then show ?case
    by (auto intro!: exI [of _ cl] exI [of _ "[]"])
next
  case (Cons pk pks)
  from Cons.prems(1) Cons.prems(2) Cons.prems(3)
  obtain parent_cls pk_attr_key col_nm joined pre where
    par: "classes st p = Some parent_cls"
    and nm: "join_filter fk_key (c_name pk) = Inr col_nm"
    and rest: "(if \<not> columns_contains t col_nm \<and> \<not> hasattr cl (pre @ joined)
     then (case setattr_column c (pre @ joined) (sa_Column col_nm (c_type pk) fk_nullable False) st of
             Inl e \<Rightarrow> Inl e
           | Inr (fk_column, st1) \<Rightarrow>
               fk_loop c p fk_key fk_prefix fk_nullable pks (dict_set cols pk fk_column) True st1)
     else (case columns_getitem t col_nm of
             Inl e \<Rightarrow> Inl e
           | Inr fk_column \<Rightarrow>
               fk_loop c p fk_key fk_prefix fk_nullable pks (dict_set cols pk fk_column)
                 created st)) = Inr (cols', created', st')"
    by (auto split: option.splits sum.splits)
  show ?case
  proof (cases "\<not> columns_contains t col_nm \<and> \<not> hasattr cl (pre @ joined)")
    case True
    with rest obtain fk st1 where
      sa: "setattr_column c (pre @ joined) (sa_Column col_nm (c_type pk) fk_nullable False) st = Inr (fk, st1)"
      and loop: "fk_loop c p fk_key fk_prefix fk_nullable pks (dict_set cols pk fk) True st1 =
                   Inr (cols', created', st')"
      by (auto split: sum.splits)
    note s = setattr_column_Inr [OF sa Cons.prems(2) Cons.prems(3)]
    let ?cl1 = "cl\<lparr>cls_attrs := (pre @ joined) # cls_attrs cl,
               cls_columntoproperty := dict_set (cls_columntoproperty cl) fk (pre @ joined)\<rparr>"
    let ?t1 = "t\<lparr>t_columns := t_columns t @ [fk]\<rparr>"
    have c1: "classes st1 c = Some ?cl1" by (simp add: s(2))
    have t1: "lookup_table st1 (cls_table ?cl1) = Some ?t1" by (simp add: s(2))
    have fkn: "c_name fk = col_nm" by (simp add: s(1) attach_def sa_Column_def)
    from Cons.IH [OF loop c1 t1] obtain cl' new fks where
      ih: "classes st' c = Some cl'" "cls_table cl' = cls_table cl"
        "cls_relationships cl' = cls_relationships cl" "cls_metadata cl' = cls_metadata cl"
        "cls_primary_key cl' = cls_primary_key cl" "cls_name cl' = cls_name cl"
        "lookup_table st' (cls_table cl) = Some (?t1\<lparr>t_columns := t_columns ?t1 @ new\<rparr>)"
        "\<forall>r. r \<noteq> cls_table cl \<longrightarrow> lookup_table st' r = lookup_table st1 r"
        "\<forall>c'. c' \<noteq> c \<longrightarrow> classes st' c' = classes st1 c'"
        "created' = (True \<or> new \<noteq> [])"
        "\<forall>col \<in> set new. \<not> columns_contains ?t1 (c_name col)"
        "cols' = dict_update (dict_set cols pk fk) (zip pks fks)" "length fks = length pks"
        "\<forall>col \<in> set new. \<exists>pk \<in> set pks. join_filter fk_key (c_name pk) = Inr (c_name col) \<and>
           col = attach (cls_table cl) (sa_Column (c_name col) (c_type pk) fk_nullable False)"
        "list_all2 (\<lambda>pk fk. join_filter fk_key (c_name pk) = Inr (c_name fk) \<and>
                   fk \<in> set (t_columns ?t1 @ new)) pks fks"
      by auto
    show ?thesis
    proof (rule exI [of _ cl'], rule exI [of _ "fk # new"], rule exI [of _ "fk # fks"], intro conjI)
      show "lookup_table st' (cls_table cl) = Some (t\<lparr>t_columns := t_columns t @ fk # new\<rparr>)"
        using ih(7) by simp
      show "\<forall>r. r \<noteq> cls_table cl \<longrightarrow> lookup_table st' r = lookup_table st r"
        using ih(8) by (simp add: s(2))
      show "\<forall>c'. c' \<noteq> c \<longrightarrow> classes st' c' = classes st c'"
        using ih(9) by (simp add: s(2))
      show "\<forall>col \<in> set (fk # new). \<not> columns_contains t (c_name col)"
        using ih(11) True fkn by simp
      show "\<forall>col \<in> set (fk # new). \<exists>pk' \<in> set (pk # pks).
          join_filter fk_key (c_name pk') = Inr (c_name col) \<and>
          col = attach (cls_table cl) (sa_Column (c_name col) (c_type pk') fk_nullable False)"
        using ih(14) nm fkn s(1) by (auto simp: ih(2) [symmetric])
      show "list_all2 (\<lambda>pk' fk'. join_filter fk_key (c_name pk') = Inr (c_name fk') \<and>
                   fk' \<in> set (t_columns t @ fk # new)) (pk # pks) (fk # fks)"
      proof -
        have "list_all2 (\<lambda>pk fka. join_filter fk_key (c_name pk) = Inr (c_name fka) \<and>
                   fka \<in> set (t_columns t @ fk # new)) pks fks"
          by (rule list_all2_mono [OF ih(15)]) simp
        moreover have "join_filter fk_key (c_name pk) = Inr (c_name fk) \<and>
            fk \<in> set (t_columns t @ fk # new)"
          using nm fkn by simp
        ultimately show ?thesis by (rule list.rel_intros(2) [rotated])
      qed
    qed (use ih in simp_all)
  next
    case False
    with rest obtain fk where
      gi: "columns_getitem t col_nm = Inr fk"
      and loop: "fk_loop c p fk_key fk_prefix fk_nullable pks (dict_set cols pk fk) created st =
                   Inr (cols', created', st')"
      by (auto split: sum.splits)
    note g = columns_getitem_Inr [OF gi]
    from Cons.IH [OF loop Cons.prems(2) Cons.prems(3)] obtain cl' new fks where
      ih: "classes st' c = Some cl'" "cls_table cl' = cls_table cl"
        "cls_relationships cl' = cls_relationships cl" "cls_metadata cl' = cls_metadata cl"
        "cls_primary_key cl' = cls_primary_key cl" "cls_name cl' = cls_name cl"
        "lookup_table st' (cls_table cl) = Some (t\<lparr>t_columns := t_columns t @ new\<rparr>)"
        "\<forall>r. r \<noteq> cls_table cl \<longrightarrow> lookup_table st' r = lookup_table st r"
        "\<forall>c'. c' \<noteq> c \<longrightarrow> classes st' c' = classes st c'"
        "new = [] \<longrightarrow> st' = st"
        "created' = (created \<or> new \<noteq> [])"
        "\<forall>col \<in> set new. \<not> columns_contains t (c_name col)"
        "cols' = dict_update (dict_set cols pk fk) (zip pks fks)" "length fks = length pks"
        "\<forall>col \<in> set new. \<exists>pk \<in> set pks. join_filter fk_key (c_name pk) = Inr (c_name col) \<and>
           col = attach (cls_table cl) (sa_Column (c_name col) (c_type pk) fk_nullable False)"
        "list_all2 (\<lambda>pk fk. join_filter fk_key (c_name pk) = Inr (c_name fk) \<and>
                   fk \<in> set (t_columns t @ new)) pks fks"
      by auto
    show ?thesis
    proof (rule exI [of _ cl'], rule exI [of _ new], rule exI [of _ "fk # fks"], intro conjI)
      show "list_all2 (\<lambda>pk' fk'. join_filter fk_key (c_name pk') = Inr (c_name fk') \<and>
                   fk' \<in> set (t_columns t @ new)) (pk # pks) (fk # fks)"
      proof -
        have "join_filter fk_key (c_name pk) = Inr (c_name fk) \<and> fk \<in> set (t_columns t @ new)"
          using nm g by simp
        then show ?thesis using ih(16) by (rule list.rel_intros(2))
      qed
    qed (use ih in simp_all)
  qed
qed

lemma dict_update_zip_fresh:
  "distinct (map fst d @ ks) \<Longrightarrow> length vs = length ks \<Longrightarrow> dict_update d (zip ks vs) = d @ zip ks vs"
proof (induction ks arbitrary: d vs)
  case Nil
  then show ?case by simp
next
  case (Cons k ks)
  then obtain v vs' where vs: "vs = v # vs'" by (cases vs) auto
  from Cons.prems have "dict_set d k v = d @ [(k, v)]"
    by (intro dict_set_fresh) auto
  moreover have "dict_update (d @ [(k, v)]) (zip ks vs') = (d @ [(k, v)]) @ zip ks vs'"
    using Cons.prems vs by (intro Cons.IH) auto
  ultimately show ?case by (simp add: vs)
qed

lemma underscore_join_inj: "underscore_join k a = underscore_join k b \<Longrightarrow> a = b"
  by (auto simp: underscore_join_def split: if_splits)

lemma add_foreign_keys_post:
  assumes run: "add_foreign_keys c p r st = Inr (r', st')"
    and cl: "classes st c = Some cl" and t: "lookup_table st (cls_table cl) = Some t"
    and pcl: "classes st p = Some pcl" and pt: "lookup_table st (cls_table pcl) = Some pt"
    and d: "distinct (t_primary_key pt)"
  shows "\<exists>fk_key new fks cl'.
      default_fk_key r (cls_name pcl) (dict_get (fk_options (rel_info r)) ''key'' PNone) = Inr fk_key \<and>
      r' = r\<lparr>rel_foreign_keys := fks\<rparr> \<and>
      list_all2 (\<lambda>pk fk. join_filter fk_key (c_name pk) = Inr (c_name fk) \<and>
                   fk \<in> set (t_columns t @ new)) (t_primary_key pt) fks \<and>
      (\<forall>col \<in> set new. \<not> columns_contains t (c_name col)) \<and>
      (\<forall>col \<in> set new. \<exists>pk \<in> set (t_primary_key pt).
         join_filter fk_key (c_name pk) = Inr (c_name col) \<and>
         col = attach (cls_table cl)
                 (sa_Column (c_name col) (c_type pk)
                    (dict_get (fk_options (rel_info r)) ''nullable'' (PBool True)) False)) \<and>
      classes st' c = Some cl' \<and> cls_table cl' = cls_table cl \<and>
      cls_relationships cl' = cls_relationships cl \<and> cls_metadata cl' = cls_metadata cl \<and>
      cls_primary_key cl' = cls_primary_key cl \<and> cls_name cl' = cls_name cl \<and>
      lookup_table st' (cls_table cl) =
        Some (t\<lparr>t_columns := t_columns t @ new,
               t_constraints := t_constraints t @
                 (if new = [] then []
                  else [sa_ForeignKeyConstraint fks (t_primary_key pt) (fk_forwarded (rel_info r))])\<rparr>) \<and>
      (\<forall>r. r \<noteq> cls_table cl \<longrightarrow> lookup_table st' r = lookup_table st r) \<and>
      (\<forall>c'. c' \<noteq> c \<longrightarrow> classes st' c' = classes st c') \<and>
      (new = [] \<longrightarrow> st' = st)"
proof -
  let ?opts = "fk_options (rel_info r)"
  from run pcl pt have "\<exists>fk_key. default_fk_key r (cls_name pcl) (dict_get ?opts ''key'' PNone) = Inr fk_key"
    by (auto simp: add_foreign_keys_def Let_def split: sum.splits)
  then obtain fk_key where
    k: "default_fk_key r (cls_name pcl) (dict_get ?opts ''key'' PNone) = Inr fk_key" ..
  from run pcl pt k have "\<exists>cols created st1.
      fk_loop c p fk_key (dict_get ?opts ''prefix'' (PStr ''_''))
        (dict_get ?opts ''nullable'' (PBool True)) (t_primary_key pt) [] False st =
      Inr (cols, created, st1)"
    by (auto simp: add_foreign_keys_def Let_def split: sum.splits)
  then obtain cols created st1 where
    loop: "fk_loop c p fk_key (dict_get ?opts ''prefix'' (PStr ''_''))
                 (dict_get ?opts ''nullable'' (PBool True)) (t_primary_key pt) [] False st =
               Inr (cols, created, st1)"
    by blast
  from run pcl pt k loop have
    fin: "(if created
      then (case append_constraint c
                   (sa_ForeignKeyConstraint (map snd cols) (map fst cols) (fk_forwarded (rel_info r))) st1 of
              Inl e \<Rightarrow> Inl e
            | Inr st2 \<Rightarrow> Inr (r\<lparr>rel_foreign_keys := map snd cols\<rparr>, st2))
      else Inr (r\<lparr>rel_foreign_keys := map snd cols\<rparr>, st1)) = Inr (r', st')"
    by (simp add: add_foreign_keys_def Let_def fk_forwarded_def split: if_splits)
  from fk_loop_post [OF loop cl t] obtain cl' new fks where
    p: "classes st1 c = Some cl'" "cls_table cl' = cls_table cl"
      "cls_relationships cl' = cls_relationships cl" "cls_metadata cl' = cls_metadata cl"
      "cls_primary_key cl' = cls_primary_key cl" "cls_name cl' = cls_name cl"
      "lookup_table st1 (cls_table cl) = Some (t\<lparr>t_columns := t_columns t @ new\<rparr>)"
      "\<forall>r. r \<noteq> cls_table cl \<longrightarrow> lookup_table st1 r = lookup_table st r"
      "\<forall>c'. c' \<noteq> c \<longrightarrow> classes st1 c' = classes st c'"
      "new = [] \<longrightarrow> st1 = st"
      "created = (False \<or> new \<noteq> [])"
      "\<forall>col \<in> set new. \<not> columns_contains t (c_name col)"
      "cols = dict_update [] (zip (t_primary_key pt) fks)" "length fks = length (t_primary_key pt)"
      "\<forall>col \<in> set new. \<exists>pk \<in> set (t_primary_key pt).
         join_filter fk_key (c_name pk) = Inr (c_name col) \<and>
         col = attach (cls_table cl)
                 (sa_Column (c_name col) (c_type pk)
                    (dict_get (fk_options (rel_info r)) ''nullable'' (PBool True)) False)"
      "list_all2 (\<lambda>pk fk. join_filter fk_key (c_name pk) = Inr (c_name fk) \<and>
                   fk \<in> set (t_columns t @ new)) (t_primary_key pt) fks"
    by auto
  have cols: "cols = zip (t_primary_key pt) fks"
    using dict_update_zip_fresh [of "[]" "t_primary_key pt" fks] d p(13,14) by simp
  have snd: "map snd cols = fks" and fst: "map fst cols = t_primary_key pt"
    using p(14) by (simp_all add: cols)
  note fin' = fin [unfolded snd fst]
  note q = p(1-12) p(14-16)
  show ?thesis
  proof (cases "new = []")
    case True
    with fin' q have "r' = r\<lparr>rel_foreign_keys := fks\<rparr>" and "st' = st" and "st1 = st"
      by auto
    with True q show ?thesis
      apply (intro exI [of _ fk_key])
      apply (rule exI [of _ new], rule exI [of _ fks], rule exI [of _ cl'])
      by (simp add: k)
  next
    case False
    with fin' q(11) have "append_constraint c
        (sa_ForeignKeyConstraint fks (t_primary_key pt) (fk_forwarded (rel_info r))) st1 = Inr st'"
      and r': "r' = r\<lparr>rel_foreign_keys := fks\<rparr>"
      by (auto split: sum.splits)
    then have st': "st' = store_table (cls_table cl)
        (t\<lparr>t_columns := t_columns t @ new,
           t_constraints := t_constraints t @
             [sa_ForeignKeyConstraint fks (t_primary_key pt) (fk_forwarded (rel_info r))]\<rparr>) st1"
      using q(1,2,7) by (auto simp: append_constraint_def)
    show ?thesis
      apply (intro exI [of _ fk_key])
      apply (rule exI [of _ new], rule exI [of _ fks], rule exI [of _ cl'])
      using False q by (simp add: k r' st')
  qed
qed

lemma hasattr_add_attr:
  "hasattr (cl\<lparr>cls_attrs := a # cls_attrs cl, cls_columntoproperty := m\<rparr>) b \<longleftrightarrow> b = a \<or> hasattr cl b"
  by (auto simp: hasattr_def)

lemma fk_loop_fresh:
  fixes tr :: tref and key :: string and fk_nullable :: pyval
  defines "mk \<equiv> (\<lambda>pk. attach tr (sa_Column (underscore_join key (c_name pk)) (c_type pk) fk_nullable False))"
  assumes "classes st c = Some cl" and "cls_table cl = tr" and "lookup_table st tr = Some t"
    and "classes st p = Some pcl"
    and "\<forall>pk \<in> set pks. c_primary_key pk \<and> map_of (cls_columntoproperty pcl) pk = Some (prop pk)"
    and "distinct (map c_name pks)" and "distinct (map prop pks)"
    and "\<forall>pk \<in> set pks. \<not> columns_contains t (underscore_join key (c_name pk)) \<and>
           \<not> hasattr cl (pre @ underscore_join key (prop pk))"
    and "py_format fk_prefix = Some pre"
  shows "\<exists>st' cl'.
      fk_loop c p (PStr key) fk_prefix fk_nullable pks cols created st =
        Inr (dict_update cols (zip pks (map mk pks)), created \<or> pks \<noteq> [], st') \<and>
      classes st' c = Some cl' \<and> cls_table cl' = tr \<and>
      lookup_table st' tr = Some (t\<lparr>t_columns := t_columns t @ map mk pks\<rparr>)"
  using assms(2-)
proof (induction pks arbitrary: st cl t pcl cols created)
  case Nil
  then show ?case by simp
next
  case (Cons pk pks)
  let ?nm = "underscore_join key (c_name pk)"
  let ?attr = "pre @ underscore_join key (prop pk)"
  let ?fk = "mk pk"
  let ?cl1 = "cl\<lparr>cls_attrs := ?attr # cls_attrs cl,
               cls_columntoproperty := dict_set (cls_columntoproperty cl) ?fk ?attr\<rparr>"
  let ?t1 = "t\<lparr>t_columns := t_columns t @ [?fk]\<rparr>"
  let ?st1 = "store_class c ?cl1 (store_table tr ?t1 st)"
  have gp: "get_property_by_column pcl pk = Inr (prop pk)"
    using Cons.prems(5) by (simp add: get_property_by_column_def)
  have fresh: "\<not> columns_contains t ?nm \<and> \<not> hasattr cl ?attr"
    using Cons.prems(8) by simp
  have sa: "setattr_column c ?attr (sa_Column ?nm (c_type pk) fk_nullable False) st = Inr (?fk, ?st1)"
    using Cons.prems(1,2,3) by (simp add: setattr_column_def Let_def mk_def)
  have step: "fk_loop c p (PStr key) fk_prefix fk_nullable (pk # pks) cols created st =
      fk_loop c p (PStr key) fk_prefix fk_nullable pks (dict_set cols pk ?fk) True ?st1"
    using Cons.prems(1,2,3,4,9) gp fresh sa
    by (simp add: join_filter_PStr)
  have c1: "classes ?st1 c = Some ?cl1" by simp
  have ct1: "cls_table ?cl1 = tr" using Cons.prems(2) by simp
  have t1: "lookup_table ?st1 tr = Some ?t1" by simp
  have fkpk: "c_primary_key ?fk = False" by (simp add: mk_def attach_def sa_Column_def)
  have fkn: "c_name ?fk = ?nm" by (simp add: mk_def attach_def sa_Column_def)
  obtain pcl1 where p1: "classes ?st1 p = Some pcl1"
    and m1: "\<forall>pk' \<in> set pks. c_primary_key pk' \<and> map_of (cls_columntoproperty pcl1) pk' = Some (prop pk')"
  proof (cases "p = c")
    case True
    with Cons.prems(1,4) have "pcl = cl" by simp
    with True Cons.prems(5) fkpk have "classes ?st1 p = Some ?cl1"
      and "\<forall>pk' \<in> set pks. c_primary_key pk' \<and>
             map_of (cls_columntoproperty ?cl1) pk' = Some (prop pk')"
      by (auto simp: map_of_dict_set)
    then show ?thesis by (rule that)
  next
    case False
    with Cons.prems(4,5) have "classes ?st1 p = Some pcl"
      and "\<forall>pk' \<in> set pks. c_primary_key pk' \<and>
             map_of (cls_columntoproperty pcl) pk' = Some (prop pk')"
      by auto
    then show ?thesis by (rule that)
  qed
  have d1: "distinct (map c_name pks)" and d2: "distinct (map prop pks)"
    using Cons.prems(6,7) by auto
  have fresh1: "\<forall>pk' \<in> set pks. \<not> columns_contains ?t1 (underscore_join key (c_name pk')) \<and>
           \<not> hasattr ?cl1 (pre @ underscore_join key (prop pk'))"
  proof
    fix pk' assume pk': "pk' \<in> set pks"
    with Cons.prems(6,7) have "c_name pk' \<noteq> c_name pk" and "prop pk' \<noteq> prop pk"
      by (auto simp: image_iff)
    then have "underscore_join key (c_name pk') \<noteq> ?nm"
      and "underscore_join key (prop pk') \<noteq> underscore_join key (prop pk)"
      using underscore_join_inj by blast+
    with pk' Cons.prems(8) fkn
    show "\<not> columns_contains ?t1 (underscore_join key (c_name pk')) \<and>
           \<not> hasattr ?cl1 (pre @ underscore_join key (prop pk'))"
      by (simp add: hasattr_add_attr)
  qed
  from Cons.IH [OF c1 ct1 t1 p1 m1 d1 d2 fresh1 Cons.prems(9), of "dict_set cols pk ?fk" True]
  obtain st' cl' where
    "fk_loop c p (PStr key) fk_prefix fk_nullable pks (dict_set cols pk ?fk) True ?st1 =
        Inr (dict_update (dict_set cols pk ?fk) (zip pks (map mk pks)), True \<or> pks \<noteq> [], st')"
    and "classes st' c = Some cl'" and "cls_table cl' = tr"
    and "lookup_table st' tr = Some (?t1\<lparr>t_columns := t_columns ?t1 @ map mk pks\<rparr>)"
    by blast
  with step show ?case
    by (intro exI [of _ st'] exI [of _ cl']) simp
qed

lemma attach_sa_Column:
  "attach tr (sa_Column (underscore_join key (c_name pk)) (c_type pk) nullable False) =
     fk_col tr key nullable pk"
  by (simp add: attach_def sa_Column_def fk_col_def)

lemma add_foreign_keys_fresh:
  fixes r :: relationship
  defines "opts \<equiv> fk_options (rel_info r)"
  assumes cl: "classes st c = Some cl" and t: "lookup_table st (cls_table cl) = Some t"
    and pcl: "classes st p = Some pcl" and pt: "lookup_table st (cls_table pcl) = Some pt"
    and ne: "t_primary_key pt \<noteq> []"
    and mapped: "\<forall>pk \<in> set (t_primary_key pt).
           c_primary_key pk \<and> map_of (cls_columntoproperty pcl) pk = Some (prop pk)"
    and dn: "distinct (map c_name (t_primary_key pt))"
    and dp: "distinct (map prop (t_primary_key pt))"
    and key: "default_fk_key r (cls_name pcl) (dict_get opts ''key'' PNone) = Inr (PStr key)"
    and pre: "py_format (dict_get opts ''prefix'' (PStr ''_'')) = Some pre"
    and fresh: "\<forall>pk \<in> set (t_primary_key pt).
           \<not> columns_contains t (underscore_join key (c_name pk)) \<and>
           \<not> hasattr cl (pre @ underscore_join key (prop pk))"
  shows "\<exists>st'.
      add_foreign_keys c p r st =
        Inr (r\<lparr>rel_foreign_keys :=
                 map (fk_col (cls_table cl) key (dict_get opts ''nullable'' (PBool True)))
                   (t_primary_key pt)\<rparr>, st') \<and>
      lookup_table st' (cls_table cl) =
        Some (t\<lparr>t_columns := t_columns t @
                 map (fk_col (cls_table cl) key (dict_get opts ''nullable'' (PBool True)))
                   (t_primary_key pt),
               t_constraints := t_constraints t @
                 [sa_ForeignKeyConstraint
                    (map (fk_col (cls_table cl) key (dict_get opts ''nullable'' (PBool True)))
                       (t_primary_key pt))
                    (t_primary_key pt) (fk_forwarded (rel_info r))]\<rparr>)"
proof -
  let ?pks = "t_primary_key pt"
  let ?fks = "map (fk_col (cls_table cl) key (dict_get opts ''nullable'' (PBool True))) ?pks"
  from fk_loop_fresh [OF cl refl t pcl mapped dn dp fresh pre,
      where fk_nullable = "dict_get opts ''nullable'' (PBool True)" and cols = "[]" and created = False]
  obtain st1 cl1 where
    loop: "fk_loop c p (PStr key) (dict_get opts ''prefix'' (PStr ''_''))
             (dict_get opts ''nullable'' (PBool True)) ?pks [] False st =
           Inr (dict_update [] (zip ?pks ?fks), True, st1)"
    and c1: "classes st1 c = Some cl1" and ct1: "cls_table cl1 = cls_table cl"
    and t1: "lookup_table st1 (cls_table cl) = Some (t\<lparr>t_columns := t_columns t @ ?fks\<rparr>)"
    using ne by (auto simp: attach_sa_Column)
  have "distinct ?pks" using dn by (rule distinct_map [THEN iffD1, THEN conjunct1])
  then have cols: "dict_update [] (zip ?pks ?fks) = zip ?pks ?fks"
    using dict_update_zip_fresh [of "[]" ?pks ?fks] by simp
  have ac: "append_constraint c (sa_ForeignKeyConstraint ?fks ?pks (fk_forwarded (rel_info r))) st1 =
      Inr (store_table (cls_table cl)
        (t\<lparr>t_columns := t_columns t @ ?fks,
           t_constraints := t_constraints t @
             [sa_ForeignKeyConstraint ?fks ?pks (fk_forwarded (rel_info r))]\<rparr>) st1)"
    using c1 ct1 t1 by (simp add: append_constraint_def)
  show ?thesis
    using pcl pt key loop ac
    by (simp add: add_foreign_keys_def Let_def opts_def cols [unfolded opts_def] fk_forwarded_def
        del: map_map)
qed

lemma default_fk_key_cases:
  assumes "py_bool v = Inr False"
  shows "(rel_direction r = Some MANYTOONE \<longrightarrow>
            (\<forall>k. rel_key r = Some k \<longrightarrow> default_fk_key r nm v = Inr (PStr (lower k)))) \<and>
         (rel_direction r = Some ONETOMANY \<longrightarrow>
            (\<forall>b kw. rel_backref r = PTuple [PStr b, kw] \<longrightarrow>
               default_fk_key r nm v = Inr (PStr (lower b)))) \<and>
         (rel_direction r = Some ONETOMANY \<longrightarrow> py_bool (rel_backref r) = Inr False \<longrightarrow>
            default_fk_key r nm v = Inr (PStr (lower nm)))"
  using assms by (simp add: default_fk_key_def)

text \<open>
  Claim C2. When foreign keys are synthesized for a one-to-many or many-to-one
  relationship, exactly one foreign-key column is created per primary-key column of the
  referenced class, named \<^verbatim>\<open><fk_key>_<pk_column_name>\<close>, with the type of that
  primary-key column and nullable unless \<^verbatim>\<open>fk_nullable\<close> says otherwise; \<^verbatim>\<open>fk_key\<close>
  defaults to the relation key lowercased for many-to-one, to the backref name lowercased
  for one-to-many with a backref, and otherwise to the name of the referenced class
  lowercased; a constraint over those columns that references the primary key is appended
  to the table.
  Here the referenced class \<open>p\<close> has a non-empty primary key whose columns are mapped
  under distinct attribute names, and the table of \<open>c\<close> has none of the column names and
  \<open>c\<close> none of the attribute names that the code is about to use. Then
  \<^verbatim>\<open>_add_foreign_keys\<close> returns, the foreign keys of the relation are the columns
  \<open>fk_col\<close> of the primary-key columns in their order, and the table of \<open>c\<close> has gained
  those columns and one constraint over them that references the primary key of the table
  of \<open>p\<close>, with the \<^verbatim>\<open>fk_\<close> options that are left. The last two conjuncts are the
  format of the name and the default of the key (\<open>v\<close> is the \<^verbatim>\<open>fk_key\<close> that was given,
  false in Python's sense).
\<close>

theorem foreign_keys_synthesized:
  fixes r :: relationship
  defines "opts \<equiv> fk_options (rel_info r)"
  defines "nullable \<equiv> dict_get opts ''nullable'' (PBool True)"
  assumes "classes st c = Some cl" and "lookup_table st (cls_table cl) = Some t"
    and "classes st p = Some pcl" and "lookup_table st (cls_table pcl) = Some pt"
    and "t_primary_key pt \<noteq> []"
    and "\<forall>pk \<in> set (t_primary_key pt).
           c_primary_key pk \<and> map_of (cls_columntoproperty pcl) pk = Some (prop pk)"
    and "distinct (map c_name (t_primary_key pt))"
    and "distinct (map prop (t_primary_key pt))"
    and "default_fk_key r (cls_name pcl) (dict_get opts ''key'' PNone) = Inr (PStr key)"
    and "py_format (dict_get opts ''prefix'' (PStr ''_'')) = Some pre"
    and "\<forall>pk \<in> set (t_primary_key pt).
           \<not> columns_contains t (underscore_join key (c_name pk)) \<and>
           \<not> hasattr cl (pre @ underscore_join key (prop pk))"
  shows "(\<exists>st'.
      add_foreign_keys c p r st =
        Inr (r\<lparr>rel_foreign_keys := map (fk_col (cls_table cl) key nullable) (t_primary_key pt)\<rparr>,
             st') \<and>
      lookup_table st' (cls_table cl) =
        Some (t\<lparr>t_columns := t_columns t @
                 map (fk_col (cls_table cl) key nullable) (t_primary_key pt),
               t_constraints := t_constraints t @
                 [sa_ForeignKeyConstraint
                    (map (fk_col (cls_table cl) key nullable) (t_primary_key pt))
                    (t_primary_key pt) (fk_forwarded (rel_info r))]\<rparr>)) \<and>
    (\<forall>pk. key \<noteq> [] \<longrightarrow> c_name pk \<noteq> [] \<longrightarrow>
       c_name (fk_col (cls_table cl) key nullable pk) = key @ ''_'' @ c_name pk) \<and>
    (\<forall>v. py_bool v = Inr False \<longrightarrow>
       (rel_direction r = Some MANYTOONE \<longrightarrow>
          (\<forall>k. rel_key r = Some k \<longrightarrow>
             default_fk_key r (cls_name pcl) v = Inr (PStr (lower k)))) \<and>
       (rel_direction r = Some ONETOMANY \<longrightarrow>
          (\<forall>b kw. rel_backref r = PTuple [PStr b, kw] \<longrightarrow>
             default_fk_key r (cls_name pcl) v = Inr (PStr (lower b)))) \<and>
       (rel_direction r = Some ONETOMANY \<longrightarrow> py_bool (rel_backref r) = Inr False \<longrightarrow>
          default_fk_key r (cls_name pcl) v = Inr (PStr (lower (cls_name pcl)))))"
proof (intro conjI allI impI)
  show "\<exists>st'.
      add_foreign_keys c p r st =
        Inr (r\<lparr>rel_foreign_keys := map (fk_col (cls_table cl) key nullable) (t_primary_key pt)\<rparr>,
             st') \<and>
      lookup_table st' (cls_table cl) =
        Some (t\<lparr>t_columns := t_columns t @
                 map (fk_col (cls_table cl) key nullable) (t_primary_key pt),
               t_constraints := t_constraints t @
                 [sa_ForeignKeyConstraint
                    (map (fk_col (cls_table cl) key nullable) (t_primary_key pt))
                    (t_primary_key pt) (fk_forwarded (rel_info r))]\<rparr>)"
    unfolding nullable_def opts_def
    by (rule add_foreign_keys_fresh [OF assms(3-13) [unfolded opts_def]])
next
  fix pk :: column
  assume "key \<noteq> []" "c_name pk \<noteq> []"
  then show "c_name (fk_col (cls_table cl) key nullable pk) = key @ ''_'' @ c_name pk"
    by (simp add: fk_col_def underscore_join_def)
qed (use default_fk_key_cases in blast)+

theorem foreign_keys_synthesized_witness:
  "\<exists>st'.
     add_foreign_keys ''ModelTwo'' ''ModelOne'' demo_o2m demo_state =
       Inr (demo_o2m\<lparr>rel_foreign_keys :=
              [\<lparr>c_name = ''m1_pk'', c_type = ''Integer'', c_nullable = PBool False,
                c_primary_key = False, c_table = Some (0, ''modeltwo'')\<rparr>]\<rparr>, st') \<and>
     lookup_table st' (0, ''modeltwo'') =
       Some (demo_table2
         \<lparr>t_columns := [demo_pk2,
            \<lparr>c_name = ''m1_pk'', c_type = ''Integer'', c_nullable = PBool False,
             c_primary_key = False, c_table = Some (0, ''modeltwo'')\<rparr>],
          t_constraints :=
            [\<lparr>k_columns = [\<lparr>c_name = ''m1_pk'', c_type = ''Integer'', c_nullable = PBool False,
                             c_primary_key = False, c_table = Some (0, ''modeltwo'')\<rparr>],
              k_refcolumns = [demo_pk1],
              k_kwargs = [(''ondelete'', PStr ''CASCADE'')]\<rparr>]\<rparr>)"
proof -
  have k: "default_fk_key demo_o2m (cls_name demo_class1)
             (dict_get (fk_options (rel_info demo_o2m)) ''key'' PNone) = Inr (PStr ''m1'')"
    by code_simp
  have f: "py_format (dict_get (fk_options (rel_info demo_o2m)) ''prefix'' (PStr ''_'')) = Some ''_''"
    by code_simp
  have n: "dict_get (fk_options (rel_info demo_o2m)) ''nullable'' (PBool True) = PBool False"
    by code_simp
  have w: "fk_forwarded (rel_info demo_o2m) = [(''ondelete'', PStr ''CASCADE'')]"
    by code_simp
  have c2: "classes demo_state ''ModelTwo'' = Some demo_class2"
    and c1: "classes demo_state ''ModelOne'' = Some demo_class1"
    by (simp_all add: demo_state_def)
  have t2: "lookup_table demo_state (cls_table demo_class2) = Some demo_table2"
    and t1: "lookup_table demo_state (cls_table demo_class1) = Some demo_table1"
    by (simp_all add: demo_state_def lookup_table_def demo_class1_def demo_class2_def)
  from foreign_keys_synthesized [OF c2 t2 c1 t1 _ _ _ _ k f, of "\<lambda>pk. ''pk''"]
  show ?thesis
    by (simp add: n w demo_table1_def demo_table2_def demo_class1_def demo_class2_def demo_pk1_def
        demo_pk2_def columns_contains_def hasattr_def underscore_join_def fk_col_def
        sa_ForeignKeyConstraint_def)
qed

section \<open>Association tables\<close>

lemma dict_set_twice: "dict_set (dict_set d k a) k b = dict_set d k b"
  by (induction d) auto

lemma dict_set_append_last: "map_of d k = None \<Longrightarrow> dict_set (d @ [(k, a)]) k b = d @ [(k, b)]"
  by (induction d) (auto split: if_splits)

lemma dict_set_same: "map_of d k = Some v \<Longrightarrow> dict_set d k v = d"
  by (induction d) (auto split: if_splits)

lemma column_map_loop_append:
  "column_map_loop st (xs @ ys) cm =
     (case column_map_loop st xs cm of Inl e \<Rightarrow> Inl e | Inr cm' \<Rightarrow> column_map_loop st ys cm')"
  by (induction xs arbitrary: cm) (auto split: option.splits sum.splits)

lemma column_map_loop_same:
  assumes "\<forall>pk \<in> set pks. c_table pk = Some r" and "lookup_table st r = Some side"
    and "map_of cm r = Some vs"
  shows "column_map_loop st pks cm = Inr (dict_set cm r (vs @ map (assoc_column side) pks))"
  using assms
proof (induction pks arbitrary: cm vs)
  case Nil
  then show ?case
    by (simp add: dict_set_same)
next
  case (Cons pk pks)
  let ?col = "assoc_column side pk"
  have m: "map_of (dict_set cm r (vs @ [?col])) r = Some (vs @ [?col])"
    by (simp add: map_of_dict_set)
  from Cons.prems have "column_map_loop st (pk # pks) cm =
      column_map_loop st pks (dict_set cm r (vs @ [?col]))"
    by (simp add: join_filter_PStr setdefault_append_def assoc_column_def sa_Column_def)
  also have "\<dots> = Inr (dict_set (dict_set cm r (vs @ [?col])) r ((vs @ [?col]) @ map (assoc_column side) pks))"
    using Cons.prems by (intro Cons.IH [OF _ _ m]) auto
  finally show ?case by (simp add: dict_set_twice)
qed

lemma column_map_loop_new:
  assumes same: "\<forall>pk \<in> set pks. c_table pk = Some r" and side: "lookup_table st r = Some side"
    and new: "map_of cm r = None" and ne: "pks \<noteq> []"
  shows "column_map_loop st pks cm = Inr (cm @ [(r, map (assoc_column side) pks)])"
proof -
  from ne obtain pk rest where pks: "pks = pk # rest" by (cases pks) auto
  let ?col = "assoc_column side pk"
  have m: "map_of (cm @ [(r, [?col])]) r = Some [?col]"
    using new by (simp add: map_add_def)
  from same side new have "column_map_loop st pks cm = column_map_loop st rest (cm @ [(r, [?col])])"
    by (simp add: pks join_filter_PStr setdefault_append_def assoc_column_def sa_Column_def)
  also have "\<dots> = Inr (dict_set (cm @ [(r, [?col])]) r ([?col] @ map (assoc_column side) rest))"
    using same side by (intro column_map_loop_same [OF _ _ m]) (auto simp: pks)
  finally show ?thesis
    using new by (simp add: dict_set_append_last pks)
qed

lemma column_map_two_sides:
  assumes "\<forall>pk \<in> set xs. c_table pk = Some rc" and "lookup_table st rc = Some tc" and "xs \<noteq> []"
    and "\<forall>pk \<in> set ys. c_table pk = Some rch" and "lookup_table st rch = Some tch" and "ys \<noteq> []"
    and "rc \<noteq> rch"
  shows "column_map_loop st (xs @ ys) [] =
           Inr [(rc, map (assoc_column tc) xs), (rch, map (assoc_column tch) ys)]"
proof -
  have a: "column_map_loop st xs [] = Inr [(rc, map (assoc_column tc) xs)]"
    using column_map_loop_new [OF assms(1,2) _ assms(3), of "[]"] by simp
  have b: "column_map_loop st ys [(rc, map (assoc_column tc) xs)] =
      Inr ([(rc, map (assoc_column tc) xs)] @ [(rch, map (assoc_column tch) ys)])"
    using assms(7) by (intro column_map_loop_new [OF assms(4,5) _ assms(6)]) simp
  show ?thesis
    by (simp add: column_map_loop_append a b)
qed

lemma filter_pk_attach:
  "\<forall>col \<in> set cols. c_primary_key col \<Longrightarrow>
   filter c_primary_key (map (attach r) cols) = map (attach r) cols"
  by (induction cols) (auto simp: attach_def)

lemma filter_pk_attach_assoc:
  "filter c_primary_key
     (map (attach r) (map (assoc_column tc) xs @ map (assoc_column tch) ys)) =
   map (attach r) (map (assoc_column tc) xs @ map (assoc_column tch) ys)"
  by (rule filter_pk_attach) (auto simp: assoc_column_def)

lemma add_association_table_creates:
  assumes sec: "rel_secondary r = PNone"
    and tn: "dict_get (rel_info r) ''table_name'' PNone = PStr n"
    and cl: "classes st c = Some cl" and ct: "lookup_table st (cls_table cl) = Some tc"
    and ch: "classes st child = Some chcl" and cht: "lookup_table st (cls_table chcl) = Some tch"
    and absent: "metadata_tables st (cls_metadata cl) n = None"
    and free: "lookup_table st (cls_metadata cl, table_key n (t_schema tc)) = None"
    and nos: "map_of (table_options (rel_info r)) ''schema'' = None"
    and pc: "cls_primary_key cl \<noteq> []" "\<forall>pk \<in> set (cls_primary_key cl). c_table pk = Some (cls_table cl)"
    and pch: "t_primary_key tch \<noteq> []" "\<forall>pk \<in> set (t_primary_key tch). c_table pk = Some (cls_table chcl)"
    and diff: "cls_table cl \<noteq> cls_table chcl"
  shows "add_association_table c child r st =
           Inr (r\<lparr>rel_secondary := PTable (cls_metadata cl, table_key n (t_schema tc))\<rparr>,
                store_table (cls_metadata cl, table_key n (t_schema tc))
                  (association_table n (t_schema tc) (cls_metadata cl, table_key n (t_schema tc))
                     tc (cls_primary_key cl) tch (t_primary_key tch) (rel_info r)) st)"
proof -
  have cm: "column_map_loop st (cls_primary_key cl @ t_primary_key tch) [] =
      Inr [(cls_table cl, map (assoc_column tc) (cls_primary_key cl)),
           (cls_table chcl, map (assoc_column tch) (t_primary_key tch))]"
    by (rule column_map_two_sides [OF pc(2) ct pc(1) pch(2) cht pch(1) diff])
  have ks: "constraints_loop st
       [(cls_table cl, map (assoc_column tc) (cls_primary_key cl)),
        (cls_table chcl, map (assoc_column tch) (t_primary_key tch))] (fk_options (rel_info r)) =
      Inr [sa_ForeignKeyConstraint (map (assoc_column tc) (cls_primary_key cl)) (t_primary_key tc)
             (fk_options (rel_info r)),
           sa_ForeignKeyConstraint (map (assoc_column tch) (t_primary_key tch)) (t_primary_key tch)
             (fk_options (rel_info r))]"
    using ct cht by simp
  have nos': "map_of (dict_pop (table_options (rel_info r)) ''name'') ''schema'' = None"
    using nos by (simp add: map_of_dict_pop)
  show ?thesis
    using sec tn cl ct ch cht absent free cm ks nos'
    by (simp add: add_association_table_def Let_def tables_get_def sa_Table_def association_table_def
        sa_ForeignKeyConstraint_def filter_pk_attach_assoc del: map_map map_append)
qed

lemma setattr_column_classes:
  assumes "setattr_column c attr col st = Inr (col', st')" and "classes st x = Some y"
  shows "\<exists>y'. classes st' x = Some y' \<and> cls_relationships y' = cls_relationships y \<and>
           cls_table y' = cls_table y"
  using assms
  by (auto simp: setattr_column_def Let_def split: option.splits)

lemma fk_loop_classes:
  assumes "fk_loop c p fk_key fk_prefix fk_nullable pks cols created st = Inr (cols', created', st')"
    and "classes st x = Some y"
  shows "\<exists>y'. classes st' x = Some y' \<and> cls_relationships y' = cls_relationships y \<and>
           cls_table y' = cls_table y"
  using assms
proof (induction pks arbitrary: cols created st y)
  case Nil
  then show ?case by simp
next
  case (Cons pk pks)
  from Cons.prems(1) obtain cl t col_nm a where
    rest: "(if \<not> columns_contains t col_nm \<and> \<not> hasattr cl a
     then (case setattr_column c a (sa_Column col_nm (c_type pk) fk_nullable False) st of
             Inl e \<Rightarrow> Inl e
           | Inr (fk_column, st1) \<Rightarrow>
               fk_loop c p fk_key fk_prefix fk_nullable pks (dict_set cols pk fk_column) True st1)
     else (case columns_getitem t col_nm of
             Inl e \<Rightarrow> Inl e
           | Inr fk_column \<Rightarrow>
               fk_loop c p fk_key fk_prefix fk_nullable pks (dict_set cols pk fk_column)
                 created st)) = Inr (cols', created', st')"
    by (auto split: option.splits sum.splits)
  show ?case
  proof (cases "\<not> columns_contains t col_nm \<and> \<not> hasattr cl a")
    case True
    with rest obtain fk st1 where
      sa: "setattr_column c a (sa_Column col_nm (c_type pk) fk_nullable False) st = Inr (fk, st1)"
      and loop: "fk_loop c p fk_key fk_prefix fk_nullable pks (dict_set cols pk fk) True st1 =
                   Inr (cols', created', st')"
      by (auto split: sum.splits)
    from setattr_column_classes [OF sa Cons.prems(2)] obtain y1 where
      y1: "classes st1 x = Some y1" "cls_relationships y1 = cls_relationships y"
        "cls_table y1 = cls_table y"
      by blast
    from Cons.IH [OF loop y1(1)] y1(2,3) show ?thesis by auto
  next
    case False
    with rest obtain fk where
      loop: "fk_loop c p fk_key fk_prefix fk_nullable pks (dict_set cols pk fk) created st =
                   Inr (cols', created', st')"
      by (auto split: sum.splits)
    from Cons.IH [OF loop Cons.prems(2)] show ?thesis .
  qed
qed

lemma append_constraint_classes: "append_constraint c k st = Inr st' \<Longrightarrow> classes st' = classes st"
  by (auto simp: append_constraint_def split: option.splits)

lemma add_foreign_keys_classes:
  assumes "add_foreign_keys c p r st = Inr (r', st')" and "classes st x = Some y"
  shows "\<exists>y'. classes st' x = Some y' \<and> cls_relationships y' = cls_relationships y \<and>
           cls_table y' = cls_table y"
proof -
  from assms(1) have "\<exists>fk_key fk_prefix fk_nullable pks cols created st1.
      fk_loop c p fk_key fk_prefix fk_nullable pks [] False st = Inr (cols, created, st1) \<and>
      (st' = st1 \<or> (\<exists>k. append_constraint c k st1 = Inr st'))"
    by (auto simp: add_foreign_keys_def Let_def split: option.splits sum.splits prod.splits if_splits;
        blast)
  then obtain fk_key fk_prefix fk_nullable pks cols created st1 where
    loop: "fk_loop c p fk_key fk_prefix fk_nullable pks [] False st = Inr (cols, created, st1)"
    and fin: "st' = st1 \<or> (\<exists>k. append_constraint c k st1 = Inr st')"
    by blast
  from fk_loop_classes [OF loop assms(2)] fin append_constraint_classes show ?thesis
    by auto
qed

lemma sa_Table_Inr:
  assumes "sa_Table n m cols ks schema kw st = Inr (ref, st')"
  shows "classes st' = classes st" and "lookup_table st ref = None"
    and "lookup_table st' ref \<noteq> None"
    and "\<And>x. x \<noteq> ref \<Longrightarrow> lookup_table st' x = lookup_table st x"
  using assms by (auto simp: sa_Table_def Let_def split: if_splits)

lemma tables_get_found:
  "tables_get st m v = Inr found \<Longrightarrow> found \<noteq> PNone \<Longrightarrow>
   \<exists>ref. found = PTable ref \<and> lookup_table st ref \<noteq> None"
  by (auto simp: tables_get_def lookup_table_def split: pyval.splits option.splits)

lemma add_association_table_post:
  assumes "add_association_table c child r st = Inr (r', st')"
  shows "classes st' = classes st \<and>
         (\<forall>x. lookup_table st x \<noteq> None \<longrightarrow> lookup_table st' x = lookup_table st x) \<and>
         rel_secondary r' \<noteq> PNone \<and> r' = r\<lparr>rel_secondary := rel_secondary r'\<rparr> \<and>
         (rel_secondary r \<noteq> PNone \<longrightarrow> r' = r \<and> st' = st) \<and>
         (rel_secondary r = PNone \<longrightarrow>
            (\<exists>ref. rel_secondary r' = PTable ref \<and> lookup_table st' ref \<noteq> None \<and>
               (\<forall>x. x \<noteq> ref \<longrightarrow> lookup_table st' x = lookup_table st x)))"
proof (cases "rel_secondary r \<noteq> PNone")
  case True
  with assms show ?thesis by (simp add: add_association_table_def)
next
  case sec: False
  with assms obtain cl found where cl: "classes st c = Some cl"
    and tg: "tables_get st (cls_metadata cl) (dict_get (rel_info r) ''table_name'' PNone) = Inr found"
    by (auto simp: add_association_table_def Let_def split: option.splits sum.splits)
  show ?thesis
  proof (cases "found \<noteq> PNone")
    case True
    with assms sec cl tg have "r' = r\<lparr>rel_secondary := found\<rparr>" and "st' = st"
      by (auto simp: add_association_table_def Let_def)
    with True sec tables_get_found [OF tg True] show ?thesis by auto
  next
    case False
    with assms sec cl tg obtain n m cols ks schema kw ref where
      "sa_Table n m cols ks schema kw st = Inr (ref, st')" and "r' = r\<lparr>rel_secondary := PTable ref\<rparr>"
      by (auto simp: add_association_table_def Let_def
          split: option.splits sum.splits if_splits pyval.splits prod.splits)
    with sec sa_Table_Inr [OF this(1)] show ?thesis
      by (intro conjI allI impI exI [of _ ref]) (auto, metis option.distinct(1))
  qed
qed

lemma lower_nonempty: "s \<noteq> [] \<Longrightarrow> lower s \<noteq> []"
  by (cases s) (simp_all add: lower_def)

text \<open>
  Claim C3, amended. When a many-to-many relationship without a secondary and without a
  table of the given \<^verbatim>\<open>table_name\<close> in the metadata is resolved, and the two sides have
  different tables, the generated association table is named \<^verbatim>\<open>table_name\<close>, is created
  in the metadata of the declaring class with the schema of the declaring class's table,
  and holds one primary-key column for each column of the declaring class's mapper primary
  key and for each primary-key column of the child table, of the same type and named
  \<^verbatim>\<open><side table name, lowercased>_<pk_column_name>\<close>; it carries one constraint per side
  from that side's generated columns to the primary key of that side's table.
  The hypotheses say, besides, that the key of the new table (its name, qualified by the
  schema) is free in the metadata, that no \<^verbatim>\<open>table_schema\<close> option was given, and that
  the primary-key columns of each side belong to the table of that side.
\<close>

theorem association_table_generated:
  assumes "rel_secondary r = PNone"
    and "dict_get (rel_info r) ''table_name'' PNone = PStr n"
    and "classes st c = Some cl" and "lookup_table st (cls_table cl) = Some tc"
    and "classes st child = Some chcl" and "lookup_table st (cls_table chcl) = Some tch"
    and "metadata_tables st (cls_metadata cl) n = None"
    and "lookup_table st (cls_metadata cl, table_key n (t_schema tc)) = None"
    and "map_of (table_options (rel_info r)) ''schema'' = None"
    and "cls_primary_key cl \<noteq> []"
    and "\<forall>pk \<in> set (cls_primary_key cl). c_table pk = Some (cls_table cl)"
    and "t_primary_key tch \<noteq> []"
    and "\<forall>pk \<in> set (t_primary_key tch). c_table pk = Some (cls_table chcl)"
    and "cls_table cl \<noteq> cls_table chcl"
  shows "add_association_table c child r st =
           Inr (r\<lparr>rel_secondary := PTable (cls_metadata cl, table_key n (t_schema tc))\<rparr>,
                store_table (cls_metadata cl, table_key n (t_schema tc))
                  (association_table n (t_schema tc) (cls_metadata cl, table_key n (t_schema tc))
                     tc (cls_primary_key cl) tch (t_primary_key tch) (rel_info r)) st) \<and>
         (\<forall>side pk. t_name side \<noteq> [] \<longrightarrow> c_name pk \<noteq> [] \<longrightarrow>
            c_name (assoc_column side pk) = lower (t_name side) @ ''_'' @ c_name pk \<and>
            c_type (assoc_column side pk) = c_type pk \<and> c_primary_key (assoc_column side pk))"
  using add_association_table_creates [OF assms]
  by (simp add: assoc_column_def underscore_join_def lower_nonempty)

theorem association_table_generated_witness:
  "\<exists>st'.
     add_association_table ''ModelOne'' ''ModelTwo'' demo_m2m demo_state =
       Inr (demo_m2m\<lparr>rel_secondary := PTable (0, ''m1m2s'')\<rparr>, st') \<and>
     lookup_table st' (0, ''m1m2s'') =
       Some \<lparr>t_name = ''m1m2s'', t_schema = None,
             t_columns =
               [\<lparr>c_name = ''modelone_pk'', c_type = ''Integer'', c_nullable = PBool False,
                 c_primary_key = True, c_table = Some (0, ''m1m2s'')\<rparr>,
                \<lparr>c_name = ''modeltwo_pk'', c_type = ''Integer'', c_nullable = PBool False,
                 c_primary_key = True, c_table = Some (0, ''m1m2s'')\<rparr>],
             t_primary_key =
               [\<lparr>c_name = ''modelone_pk'', c_type = ''Integer'', c_nullable = PBool False,
                 c_primary_key = True, c_table = Some (0, ''m1m2s'')\<rparr>,
                \<lparr>c_name = ''modeltwo_pk'', c_type = ''Integer'', c_nullable = PBool False,
                 c_primary_key = True, c_table = Some (0, ''m1m2s'')\<rparr>],
             t_constraints =
               [\<lparr>k_columns =
                   [\<lparr>c_name = ''modelone_pk'', c_type = ''Integer'', c_nullable = PBool False,
                     c_primary_key = True, c_table = Some (0, ''m1m2s'')\<rparr>],
                 k_refcolumns = [demo_pk1], k_kwargs = []\<rparr>,
                \<lparr>k_columns =
                   [\<lparr>c_name = ''modeltwo_pk'', c_type = ''Integer'', c_nullable = PBool False,
                     c_primary_key = True, c_table = Some (0, ''m1m2s'')\<rparr>],
                 k_refcolumns = [demo_pk2], k_kwargs = []\<rparr>],
             t_kwargs = []\<rparr>"
proof -
  have sec: "rel_secondary demo_m2m = PNone"
    by code_simp
  have n: "dict_get (rel_info demo_m2m) ''table_name'' PNone = PStr ''m1m2s''"
    by code_simp
  have o: "fk_options (rel_info demo_m2m) = []"
    by code_simp
  have tk: "dict_pop (table_options (rel_info demo_m2m)) ''name'' = []"
    by code_simp
  have ts: "map_of (table_options (rel_info demo_m2m)) ''schema'' = None"
    by code_simp
  have c1: "classes demo_state ''ModelOne'' = Some demo_class1"
    and c2: "classes demo_state ''ModelTwo'' = Some demo_class2"
    by (simp_all add: demo_state_def)
  have t1: "lookup_table demo_state (cls_table demo_class1) = Some demo_table1"
    and t2: "lookup_table demo_state (cls_table demo_class2) = Some demo_table2"
    by (simp_all add: demo_state_def lookup_table_def demo_class1_def demo_class2_def)
  have lw: "lower ''modelone'' = ''modelone''" "lower ''modeltwo'' = ''modeltwo''"
    by code_simp+
  from association_table_generated [OF sec n c1 t1 c2 t2 _ _ ts]
  show ?thesis
    by (simp add: o tk lw demo_state_def demo_table1_def demo_table2_def demo_class1_def
        demo_class2_def demo_pk1_def demo_pk2_def lookup_table_def store_table_def table_key_def
        association_table_def assoc_column_def attach_def underscore_join_def)
qed

text \<open>
  The claim as the specification words it names the column
  \<^verbatim>\<open><side_table_name>_<pk_column_name>\<close>. For the table \<^verbatim>\<open>ModelOne\<close> with the primary key
  \<^verbatim>\<open>pk\<close> the generated column is \<^verbatim>\<open>modelone_pk\<close>, and the table has no column
  \<^verbatim>\<open>ModelOne_pk\<close>.
\<close>

theorem association_column_name_lowercased:
  "case add_association_table ''ModelOne'' ''ModelTwo'' demo_m2m upper_state of
     Inl e \<Rightarrow> False
   | Inr (r', st') \<Rightarrow>
       (case (lookup_table upper_state (0, ''ModelOne''), lookup_table st' (0, ''m1m2s'')) of
          (Some side, Some tab) \<Rightarrow>
            t_name side = ''ModelOne'' \<and> map c_name (t_primary_key side) = [''pk''] \<and>
            map c_name (t_columns tab) = [''modelone_pk'', ''modeltwo_pk''] \<and>
            ''ModelOne_pk'' \<notin> set (map c_name (t_columns tab))
        | _ \<Rightarrow> False)"
  by code_simp

section \<open>The handler\<close>

lemma add_foreign_keys_resolved:
  assumes "add_foreign_keys target referenced r s = Inr (r', s')"
  shows "foreign_keys_resolved target referenced r r' s s'"
  unfolding foreign_keys_resolved_def
proof (intro allI impI)
  fix tcl tt pcl pt
  assume a: "classes s target = Some tcl" "lookup_table s (cls_table tcl) = Some tt"
    "classes s referenced = Some pcl" "lookup_table s (cls_table pcl) = Some pt"
    "distinct (t_primary_key pt)"
  from add_foreign_keys_post [OF assms a] obtain fk_key new fks where
    p: "default_fk_key r (cls_name pcl) (dict_get (fk_options (rel_info r)) ''key'' PNone) = Inr fk_key"
      "r' = r\<lparr>rel_foreign_keys := fks\<rparr>"
      "list_all2 (\<lambda>pk fk. join_filter fk_key (c_name pk) = Inr (c_name fk) \<and>
                   fk \<in> set (t_columns tt @ new)) (t_primary_key pt) fks"
      "\<forall>col \<in> set new. \<not> columns_contains tt (c_name col)"
      "lookup_table s' (cls_table tcl) =
        Some (tt\<lparr>t_columns := t_columns tt @ new,
               t_constraints := t_constraints tt @
                 (if new = [] then []
                  else [sa_ForeignKeyConstraint fks (t_primary_key pt) (fk_forwarded (rel_info r))])\<rparr>)"
      "\<forall>x. x \<noteq> cls_table tcl \<longrightarrow> lookup_table s' x = lookup_table s x"
    by blast
  have fks: "rel_foreign_keys r' = fks" by (simp add: p(2))
  show "\<exists>fk_key new.
           default_fk_key r (cls_name pcl) (dict_get (fk_options (rel_info r)) ''key'' PNone) =
             Inr fk_key \<and>
           r' = r\<lparr>rel_foreign_keys := rel_foreign_keys r'\<rparr> \<and>
           list_all2 (\<lambda>pk fk. join_filter fk_key (c_name pk) = Inr (c_name fk) \<and>
                        fk \<in> set (t_columns tt @ new))
             (t_primary_key pt) (rel_foreign_keys r') \<and>
           (\<forall>col \<in> set new. \<not> columns_contains tt (c_name col)) \<and>
           lookup_table s' (cls_table tcl) =
             Some (tt\<lparr>t_columns := t_columns tt @ new,
                     t_constraints := t_constraints tt @
                       (if new = [] then []
                        else [sa_ForeignKeyConstraint (rel_foreign_keys r') (t_primary_key pt)
                                (fk_forwarded (rel_info r))])\<rparr>) \<and>
           (\<forall>x. x \<noteq> cls_table tcl \<longrightarrow> lookup_table s' x = lookup_table s x)"
    unfolding fks using p by (intro exI [of _ fk_key] exI [of _ new]) simp
qed

lemma add_association_table_resolved:
  assumes "add_association_table c child r s = Inr (r', s')"
  shows "association_resolved r r' s s'"
  using add_association_table_post [OF assms] unfolding association_resolved_def by blast

lemma mapper_class_Inr: "mapper_class s r = Inr remote \<Longrightarrow> remote = rel_argument r \<and> classes s remote \<noteq> None"
  by (auto simp: mapper_class_def split: option.splits)

lemma resolve_relations_spec:
  assumes "resolve_relations c rels st = Inr (rs', s)"
  shows "resolved_by_direction c rels st rs' s"
  using assms
proof (induction rels arbitrary: st rs')
  case Nil
  then show ?case by (auto intro: resolved_by_direction.intros)
next
  case (Cons r rels)
  from Cons.prems obtain r' s1 rs1 where
    one: "(if rel_direction r = Some ONETOMANY
            then (case mapper_class st r of
                    Inl e \<Rightarrow> Inl e
                  | Inr remote \<Rightarrow> add_foreign_keys remote c r st)
            else if rel_direction r = Some MANYTOONE
            then (case mapper_class st r of
                    Inl e \<Rightarrow> Inl e
                  | Inr remote \<Rightarrow> add_foreign_keys c remote r st)
            else if rel_direction r = Some MANYTOMANY
            then (case mapper_class st r of
                    Inl e \<Rightarrow> Inl e
                  | Inr remote \<Rightarrow> add_association_table c remote r st)
            else Inr (r, st)) = Inr (r', s1)"
    and more: "resolve_relations c rels s1 = Inr (rs1, s)" and rs': "rs' = r' # rs1"
    by (auto split: sum.splits prod.splits)
  note ih = Cons.IH [OF more]
  consider (o2m) "rel_direction r = Some ONETOMANY" | (m2o) "rel_direction r = Some MANYTOONE"
    | (m2m) "rel_direction r = Some MANYTOMANY" | (none) "rel_direction r = None"
    by (cases "rel_direction r") (auto intro: direction.exhaust)
  then show ?case
  proof cases
    case o2m
    with one obtain remote where mc: "mapper_class st r = Inr remote"
      and run: "add_foreign_keys remote c r st = Inr (r', s1)"
      by (auto split: sum.splits)
    from mapper_class_Inr [OF mc] add_foreign_keys_resolved [OF run] o2m ih show ?thesis
      unfolding rs' by (auto intro: resolved_by_direction.one_to_many)
  next
    case m2o
    with one obtain remote where mc: "mapper_class st r = Inr remote"
      and run: "add_foreign_keys c remote r st = Inr (r', s1)"
      by (auto split: sum.splits)
    from mapper_class_Inr [OF mc] add_foreign_keys_resolved [OF run] m2o ih show ?thesis
      unfolding rs' by (auto intro: resolved_by_direction.many_to_one)
  next
    case m2m
    with one obtain remote where mc: "mapper_class st r = Inr remote"
      and run: "add_association_table c remote r st = Inr (r', s1)"
      by (auto split: sum.splits)
    from mapper_class_Inr [OF mc] add_association_table_resolved [OF run] m2m ih show ?thesis
      unfolding rs' by (auto intro: resolved_by_direction.many_to_many)
  next
    case none
    with one have "r' = r" "s1 = st" by auto
    with none ih show ?thesis
      unfolding rs' by (auto intro: resolved_by_direction.no_direction)
  qed
qed

text \<open>
  Claim C1. The declare-first handler resolves each pending relationship of the class
  according to its direction: a one-to-many relation has foreign-key columns and a
  constraint added to the remote class that reference the declaring class, a many-to-one
  relation has them added to the declaring class and they reference the remote class, and
  a many-to-many relation has an association table as its secondary.
  Whenever the handler returns, the relations it returns are the pending ones resolved in
  the sense of \<open>resolved_by_direction\<close>, and the state it returns is the one that the
  resolution left, with the pending set of the class emptied.
\<close>

theorem handler_resolves_by_direction:
  assumes "declare_first_relationships_handler c st = Inr (rs', st')"
  shows "\<exists>cl s. classes st c = Some cl \<and>
           resolved_by_direction c (getattr_relationships cl) st rs' s \<and> st' = rels_clear c s"
proof -
  from assms obtain cl s where cl: "classes st c = Some cl"
    and run: "resolve_relations c (getattr_relationships cl) st = Inr (rs', s)"
    and st': "st' = rels_clear c s"
    by (auto simp: declare_first_relationships_handler_def split: option.splits sum.splits)
  from cl resolve_relations_spec [OF run] st' show ?thesis by blast
qed

theorem handler_resolves_by_direction_witness:
  "\<exists>rs' st' cl s.
     declare_first_relationships_handler ''ModelOne'' demo_pending = Inr (rs', st') \<and>
     classes demo_pending ''ModelOne'' = Some cl \<and>
     map rel_direction (getattr_relationships cl) = [Some ONETOMANY, Some MANYTOMANY] \<and>
     resolved_by_direction ''ModelOne'' (getattr_relationships cl) demo_pending rs' s \<and>
     st' = rels_clear ''ModelOne'' s \<and>
     map_option (map c_name \<circ> t_columns) (lookup_table st' (0, ''modeltwo'')) =
       Some [''pk'', ''m1_pk''] \<and>
     map_option (map c_name \<circ> t_columns) (lookup_table st' (0, ''m1m2s'')) =
       Some [''modelone_pk'', ''modeltwo_pk''] \<and>
     map rel_secondary rs' = [PNone, PTable (0, ''m1m2s'')]"
proof -
  have run: "case declare_first_relationships_handler ''ModelOne'' demo_pending of
               Inl e \<Rightarrow> False
             | Inr (rs', st') \<Rightarrow>
                 map_option (map c_name \<circ> t_columns) (lookup_table st' (0, ''modeltwo'')) =
                   Some [''pk'', ''m1_pk''] \<and>
                 map_option (map c_name \<circ> t_columns) (lookup_table st' (0, ''m1m2s'')) =
                   Some [''modelone_pk'', ''modeltwo_pk''] \<and>
                 map rel_secondary rs' = [PNone, PTable (0, ''m1m2s'')]"
    by code_simp
  then obtain rs' st' where
    h: "declare_first_relationships_handler ''ModelOne'' demo_pending = Inr (rs', st')"
      "map_option (map c_name \<circ> t_columns) (lookup_table st' (0, ''modeltwo'')) =
         Some [''pk'', ''m1_pk'']"
      "map_option (map c_name \<circ> t_columns) (lookup_table st' (0, ''m1m2s'')) =
         Some [''modelone_pk'', ''modeltwo_pk'']"
      "map rel_secondary rs' = [PNone, PTable (0, ''m1m2s'')]"
    by (auto split: sum.splits)
  have p: "case classes demo_pending ''ModelOne'' of
             None \<Rightarrow> False
           | Some cl \<Rightarrow>
               map rel_direction (getattr_relationships cl) = [Some ONETOMANY, Some MANYTOMANY]"
    by code_simp
  from handler_resolves_by_direction [OF h(1)] p h show ?thesis
    by (auto split: option.splits)
qed

section \<open>Reuse and idempotence\<close>

lemma store_class_same: "classes st c = Some cl \<Longrightarrow> store_class c cl st = st"
  by (simp add: store_class_def fun_upd_idem)

lemma rels_clear_twice: "rels_clear c (rels_clear c st) = rels_clear c st"
  by (auto simp: rels_clear_def store_class_def split: option.splits)

lemma rels_clear_pending:
  "classes st c = Some cl \<Longrightarrow>
   \<exists>cl'. classes (rels_clear c st) c = Some cl' \<and> getattr_relationships cl' = []"
  by (auto simp: rels_clear_def store_class_def getattr_relationships_def split: option.splits)

lemma resolve_relations_classes:
  assumes "resolve_relations c rels st = Inr (rs', s)" and "classes st x = Some y"
  shows "\<exists>y'. classes s x = Some y'"
  using assms
proof (induction rels arbitrary: st rs' y)
  case Nil
  then show ?case by auto
next
  case (Cons r rels)
  from Cons.prems(1) obtain r' s1 rs1 where
    one: "(if rel_direction r = Some ONETOMANY
            then (case mapper_class st r of
                    Inl e \<Rightarrow> Inl e
                  | Inr remote \<Rightarrow> add_foreign_keys remote c r st)
            else if rel_direction r = Some MANYTOONE
            then (case mapper_class st r of
                    Inl e \<Rightarrow> Inl e
                  | Inr remote \<Rightarrow> add_foreign_keys c remote r st)
            else if rel_direction r = Some MANYTOMANY
            then (case mapper_class st r of
                    Inl e \<Rightarrow> Inl e
                  | Inr remote \<Rightarrow> add_association_table c remote r st)
            else Inr (r, st)) = Inr (r', s1)"
    and more: "resolve_relations c rels s1 = Inr (rs1, s)"
    by (auto split: sum.splits prod.splits)
  have "\<exists>y1. classes s1 x = Some y1"
  proof (cases "rel_direction r = Some ONETOMANY \<or> rel_direction r = Some MANYTOONE")
    case True
    with one obtain a b where "add_foreign_keys a b r st = Inr (r', s1)"
      by (auto split: sum.splits if_splits)
    from add_foreign_keys_classes [OF this Cons.prems(2)] show ?thesis by blast
  next
    case False
    show ?thesis
    proof (cases "rel_direction r = Some MANYTOMANY")
      case True
      with one False obtain b where "add_association_table c b r st = Inr (r', s1)"
        by (auto split: sum.splits if_splits)
      from add_association_table_post [OF this] Cons.prems(2) show ?thesis by simp
    next
      case m: False
      with one False have "s1 = st" by (auto split: if_splits)
      with Cons.prems(2) show ?thesis by simp
    qed
  qed
  then obtain y1 where "classes s1 x = Some y1" ..
  from Cons.IH [OF more this] show ?case .
qed

lemma handler_idempotent:
  assumes "declare_first_relationships_handler c st = Inr (rs, st')"
  shows "(\<exists>cl'. classes st' c = Some cl' \<and> getattr_relationships cl' = []) \<and>
         declare_first_relationships_handler c st' = Inr ([], st')"
proof -
  from assms obtain cl s where cl: "classes st c = Some cl"
    and run: "resolve_relations c (getattr_relationships cl) st = Inr (rs, s)"
    and st': "st' = rels_clear c s"
    by (auto simp: declare_first_relationships_handler_def split: option.splits sum.splits)
  from resolve_relations_classes [OF run cl] obtain y where y: "classes s c = Some y" ..
  from rels_clear_pending [OF y] obtain cl' where
    p: "classes st' c = Some cl'" "getattr_relationships cl' = []"
    unfolding st' by blast
  have "declare_first_relationships_handler c st' = Inr ([], st')"
    using p by (simp add: declare_first_relationships_handler_def st' rels_clear_twice)
  with p show ?thesis by blast
qed

lemma add_foreign_keys_reuse:
  assumes run: "add_foreign_keys c p r st = Inr (r', st')"
    and cl: "classes st c = Some cl" and t: "lookup_table st (cls_table cl) = Some t"
    and pcl: "classes st p = Some pcl" and pt: "lookup_table st (cls_table pcl) = Some pt"
    and d: "distinct (t_primary_key pt)"
    and k: "default_fk_key r (cls_name pcl) (dict_get (fk_options (rel_info r)) ''key'' PNone) = Inr fk_key"
  shows "\<exists>new.
      lookup_table st' (cls_table cl) =
        Some (t\<lparr>t_columns := t_columns t @ new,
               t_constraints := t_constraints t @
                 (if new = [] then []
                  else [sa_ForeignKeyConstraint (rel_foreign_keys r') (t_primary_key pt)
                          (fk_forwarded (rel_info r))])\<rparr>) \<and>
      (\<forall>col \<in> set new. \<not> columns_contains t (c_name col)) \<and>
      set (rel_foreign_keys r') \<subseteq> set (t_columns t) \<union> set new \<and>
      (new = [] \<longrightarrow> st' = st) \<and>
      ((\<forall>pk \<in> set (t_primary_key pt). \<exists>col \<in> set (t_columns t).
          join_filter fk_key (c_name pk) = Inr (c_name col)) \<longrightarrow> new = [])"
proof -
  from add_foreign_keys_post [OF run cl t pcl pt d] k obtain new fks where
    p: "r' = r\<lparr>rel_foreign_keys := fks\<rparr>"
      "list_all2 (\<lambda>pk fk. join_filter fk_key (c_name pk) = Inr (c_name fk) \<and>
                   fk \<in> set (t_columns t @ new)) (t_primary_key pt) fks"
      "\<forall>col \<in> set new. \<not> columns_contains t (c_name col)"
      "\<forall>col \<in> set new. \<exists>pk \<in> set (t_primary_key pt).
         join_filter fk_key (c_name pk) = Inr (c_name col) \<and>
         col = attach (cls_table cl)
                 (sa_Column (c_name col) (c_type pk)
                    (dict_get (fk_options (rel_info r)) ''nullable'' (PBool True)) False)"
      "lookup_table st' (cls_table cl) =
        Some (t\<lparr>t_columns := t_columns t @ new,
               t_constraints := t_constraints t @
                 (if new = [] then []
                  else [sa_ForeignKeyConstraint fks (t_primary_key pt) (fk_forwarded (rel_info r))])\<rparr>)"
      "new = [] \<longrightarrow> st' = st"
    by auto
  have fks: "rel_foreign_keys r' = fks" by (simp add: p(1))
  have sub: "set fks \<subseteq> set (t_columns t) \<union> set new"
  proof
    fix fk assume "fk \<in> set fks"
    then obtain i where "i < length fks" "fks ! i = fk" by (auto simp: in_set_conv_nth)
    with list_all2_nthD2 [OF p(2), of i] show "fk \<in> set (t_columns t) \<union> set new" by auto
  qed
  have none: "new = []"
    if h: "\<forall>pk \<in> set (t_primary_key pt). \<exists>col \<in> set (t_columns t).
             join_filter fk_key (c_name pk) = Inr (c_name col)"
  proof (rule ccontr)
    assume "new \<noteq> []"
    then obtain col where col: "col \<in> set new" by (cases new) auto
    with p(4) obtain pk where pk: "pk \<in> set (t_primary_key pt)"
      "join_filter fk_key (c_name pk) = Inr (c_name col)" by blast
    with h obtain col2 where "col2 \<in> set (t_columns t)"
      "join_filter fk_key (c_name pk) = Inr (c_name col2)" by blast
    with pk(2) have "columns_contains t (c_name col)"
      by (auto simp: columns_contains_def intro: rev_image_eqI)
    with p(3) col show False by blast
  qed
  show ?thesis
    unfolding fks using p(3,5,6) sub none by (intro exI [of _ new]) blast
qed

lemma add_association_table_given:
  "rel_secondary m \<noteq> PNone \<Longrightarrow> add_association_table d child m s = Inr (m, s)"
  by (simp add: add_association_table_def)

lemma add_association_table_found:
  assumes "rel_secondary m = PNone" and "classes s d = Some dcl"
    and "dict_get (rel_info m) ''table_name'' PNone = PStr n"
    and "metadata_tables s (cls_metadata dcl) n \<noteq> None"
  shows "add_association_table d child m s =
           Inr (m\<lparr>rel_secondary := PTable (cls_metadata dcl, n)\<rparr>, s)"
  using assms by (auto simp: add_association_table_def tables_get_def)

text \<open>
  Claim C5, amended. Resolution synthesizes only missing artifacts and is idempotent.
  Every column that \<^verbatim>\<open>_add_foreign_keys\<close> appends has a name that the table lacked; the
  foreign keys of the relation are columns of the table, old or new; a constraint is
  appended exactly when a column is; and when the table has a column of the name of every
  foreign key, nothing is appended and the state is unchanged. A relation with a secondary
  keeps it, and a relation without one takes the table that the metadata holds under
  \<^verbatim>\<open>table_name\<close>; the state is unchanged in both cases. The handler leaves the pending
  set of the class empty, and a second run on the class returns the same state.
\<close>

theorem resolution_reuses:
  "(add_foreign_keys c p r st = Inr (r', st') \<longrightarrow>
    classes st c = Some cl \<longrightarrow> lookup_table st (cls_table cl) = Some t \<longrightarrow>
    classes st p = Some pcl \<longrightarrow> lookup_table st (cls_table pcl) = Some pt \<longrightarrow>
    distinct (t_primary_key pt) \<longrightarrow>
    default_fk_key r (cls_name pcl) (dict_get (fk_options (rel_info r)) ''key'' PNone) = Inr fk_key \<longrightarrow>
    (\<exists>new.
      lookup_table st' (cls_table cl) =
        Some (t\<lparr>t_columns := t_columns t @ new,
               t_constraints := t_constraints t @
                 (if new = [] then []
                  else [sa_ForeignKeyConstraint (rel_foreign_keys r') (t_primary_key pt)
                          (fk_forwarded (rel_info r))])\<rparr>) \<and>
      (\<forall>col \<in> set new. \<not> columns_contains t (c_name col)) \<and>
      set (rel_foreign_keys r') \<subseteq> set (t_columns t) \<union> set new \<and>
      (new = [] \<longrightarrow> st' = st) \<and>
      ((\<forall>pk \<in> set (t_primary_key pt). \<exists>col \<in> set (t_columns t).
          join_filter fk_key (c_name pk) = Inr (c_name col)) \<longrightarrow> new = []))) \<and>
   (rel_secondary m \<noteq> PNone \<longrightarrow> add_association_table d child m s = Inr (m, s)) \<and>
   (rel_secondary m' = PNone \<longrightarrow> classes s' d' = Some dcl \<longrightarrow>
    dict_get (rel_info m') ''table_name'' PNone = PStr n \<longrightarrow>
    metadata_tables s' (cls_metadata dcl) n \<noteq> None \<longrightarrow>
    add_association_table d' child' m' s' =
      Inr (m'\<lparr>rel_secondary := PTable (cls_metadata dcl, n)\<rparr>, s')) \<and>
   (declare_first_relationships_handler h hs = Inr (rs, hs') \<longrightarrow>
    (\<exists>hcl. classes hs' h = Some hcl \<and> getattr_relationships hcl = []) \<and>
    declare_first_relationships_handler h hs' = Inr ([], hs'))"
  using add_foreign_keys_reuse [of c p r st r' st' cl t pcl pt fk_key]
    add_association_table_given [of m d child s]
    add_association_table_found [of m' s' d' dcl n child']
    handler_idempotent [of h hs rs hs']
  by (intro conjI impI) blast+

theorem resolution_reuses_witness:
  "(\<exists>r' st'. add_foreign_keys ''ModelTwo'' ''ModelOne'' demo_o2m demo_state_fk = Inr (r', st') \<and>
      st' = demo_state_fk \<and> rel_foreign_keys r' = [demo_fk]) \<and>
   add_association_table ''ModelOne'' ''ModelTwo'' (demo_m2m\<lparr>rel_secondary := PStr ''m1m2s''\<rparr>)
       demo_state =
     Inr (demo_m2m\<lparr>rel_secondary := PStr ''m1m2s''\<rparr>, demo_state) \<and>
   add_association_table ''ModelOne'' ''ModelTwo'' demo_m2m demo_state_m2m =
     Inr (demo_m2m\<lparr>rel_secondary := PTable (0, ''m1m2s'')\<rparr>, demo_state_m2m) \<and>
   (\<exists>rs st'. declare_first_relationships_handler ''ModelOne'' demo_pending = Inr (rs, st') \<and>
      length rs = 2 \<and>
      declare_first_relationships_handler ''ModelOne'' st' = Inr ([], st'))"
proof -
  have run: "case add_foreign_keys ''ModelTwo'' ''ModelOne'' demo_o2m demo_state_fk of
               Inl e \<Rightarrow> False | Inr (r', st') \<Rightarrow> rel_foreign_keys r' = [demo_fk]"
    by code_simp
  then obtain r' st' where
    r: "add_foreign_keys ''ModelTwo'' ''ModelOne'' demo_o2m demo_state_fk = Inr (r', st')"
       "rel_foreign_keys r' = [demo_fk]"
    by (auto split: sum.splits)
  have hrun: "case declare_first_relationships_handler ''ModelOne'' demo_pending of
                Inl e \<Rightarrow> False | Inr (rs, st') \<Rightarrow> length rs = 2"
    by code_simp
  then obtain rs hs' where
    h: "declare_first_relationships_handler ''ModelOne'' demo_pending = Inr (rs, hs')" "length rs = 2"
    by (auto split: sum.splits)
  have c2: "classes demo_state_fk ''ModelTwo'' = Some demo_class2"
    and c1: "classes demo_state_fk ''ModelOne'' = Some demo_class1"
    by (simp_all add: demo_state_fk_def demo_state_def store_table_def)
  have t2: "lookup_table demo_state_fk (cls_table demo_class2) =
              Some (demo_table2\<lparr>t_columns := [demo_pk2, demo_fk]\<rparr>)"
    and t1: "lookup_table demo_state_fk (cls_table demo_class1) = Some demo_table1"
    by (simp_all add: demo_state_fk_def demo_state_def store_table_def lookup_table_def
        demo_class1_def demo_class2_def)
  have k: "default_fk_key demo_o2m (cls_name demo_class1)
             (dict_get (fk_options (rel_info demo_o2m)) ''key'' PNone) = Inr (PStr ''m1'')"
    by code_simp
  have j: "join_filter (PStr ''m1'') ''pk'' = Inr ''m1_pk''"
    by code_simp
  have d: "classes demo_state_m2m ''ModelOne'' = Some demo_class1"
    by (simp add: demo_state_m2m_def demo_state_def store_table_def)
  have n: "dict_get (rel_info demo_m2m) ''table_name'' PNone = PStr ''m1m2s''"
    by code_simp
  have sec: "rel_secondary demo_m2m = PNone"
    by code_simp
  have ex: "metadata_tables demo_state_m2m (cls_metadata demo_class1) ''m1m2s'' \<noteq> None"
    by (simp add: demo_state_m2m_def demo_state_def store_table_def demo_class1_def)
  from resolution_reuses [of "''ModelTwo''" "''ModelOne''" demo_o2m demo_state_fk r' st'
      demo_class2 "demo_table2\<lparr>t_columns := [demo_pk2, demo_fk]\<rparr>" demo_class1 demo_table1
      "PStr ''m1''" "demo_m2m\<lparr>rel_secondary := PStr ''m1m2s''\<rparr>" "''ModelOne''" "''ModelTwo''"
      demo_state demo_m2m demo_state_m2m "''ModelOne''" demo_class1 "''m1m2s''" "''ModelTwo''"
      "''ModelOne''" demo_pending rs hs']
  show ?thesis
    using r h c2 c1 t2 t1 k j d n sec ex
    by (simp add: demo_table1_def demo_pk1_def demo_fk_def demo_class1_def)
qed

text \<open>
  The claim as the specification words it says that no column or constraint is appended
  if a foreign-key column name exists in the target table. \<^verbatim>\<open>Parent\<close> has the primary key
  \<^verbatim>\<open>(a, b)\<close> and the table of \<^verbatim>\<open>Child\<close> has \<^verbatim>\<open>parent_a\<close>: the handler appends the
  column \<^verbatim>\<open>parent_b\<close> and a constraint over both columns.
\<close>

theorem partial_reuse_appends_constraint:
  "case OneToMany ''Child'' [] ''Parent'' composite_state of
     Inl e \<Rightarrow> False
   | Inr (r, s1) \<Rightarrow>
       (case declare_first_relationships_handler ''Parent'' s1 of
          Inl e \<Rightarrow> False
        | Inr (rs, s2) \<Rightarrow>
            (case (lookup_table composite_state (0, ''child''), lookup_table s2 (0, ''child'')) of
               (Some t, Some t') \<Rightarrow>
                 columns_contains t ''parent_a'' \<and>
                 map c_name (t_columns t) = [''id'', ''parent_a''] \<and>
                 map c_name (t_columns t') = [''id'', ''parent_a'', ''parent_b''] \<and>
                 t_constraints t = [] \<and>
                 map (\<lambda>k. (map c_name (k_columns k), map c_name (k_refcolumns k))) (t_constraints t') =
                   [([''parent_a'', ''parent_b''], [''a'', ''b''])]
             | _ \<Rightarrow> False))"
  by code_simp

text \<open>
  Where the class has the attribute and its table lacks the column, the lookup of the
  column in the table is a \<^verbatim>\<open>KeyError\<close>.
\<close>

lemma attribute_without_column:
  "case add_foreign_keys ''ModelTwo'' ''ModelOne'' demo_o2m
          (store_class ''ModelTwo'' (demo_class2\<lparr>cls_attrs := [''pk'', ''_m1_pk'']\<rparr>) demo_state) of
     Inl e \<Rightarrow> e = KeyError ''m1_pk''
   | Inr x \<Rightarrow> False"
  by code_simp

section \<open>Pairing of the constraints\<close>

text \<open>
  The constraint that \<^verbatim>\<open>_add_foreign_keys\<close> appends pairs each foreign-key column with
  the primary-key column it was made from.
\<close>

lemma foreign_key_constraint_paired:
  assumes "add_foreign_keys c p r st = Inr (r', st')"
    and "classes st c = Some cl" and "lookup_table st (cls_table cl) = Some t"
    and "classes st p = Some pcl" and "lookup_table st (cls_table pcl) = Some pt"
    and "distinct (t_primary_key pt)"
  shows "\<exists>fk_key t'.
           default_fk_key r (cls_name pcl) (dict_get (fk_options (rel_info r)) ''key'' PNone) =
             Inr fk_key \<and>
           lookup_table st' (cls_table cl) = Some t' \<and>
           (\<forall>k \<in> set (t_constraints t') - set (t_constraints t).
              k_refcolumns k = t_primary_key pt \<and>
              list_all2 (\<lambda>pk fk. join_filter fk_key (c_name pk) = Inr (c_name fk) \<and>
                           fk \<in> set (t_columns t'))
                (k_refcolumns k) (k_columns k))"
proof -
  from add_foreign_keys_post [OF assms] obtain fk_key new fks where
    p: "default_fk_key r (cls_name pcl) (dict_get (fk_options (rel_info r)) ''key'' PNone) = Inr fk_key"
      "list_all2 (\<lambda>pk fk. join_filter fk_key (c_name pk) = Inr (c_name fk) \<and>
                   fk \<in> set (t_columns t @ new)) (t_primary_key pt) fks"
      "lookup_table st' (cls_table cl) =
        Some (t\<lparr>t_columns := t_columns t @ new,
               t_constraints := t_constraints t @
                 (if new = [] then []
                  else [sa_ForeignKeyConstraint fks (t_primary_key pt) (fk_forwarded (rel_info r))])\<rparr>)"
    by blast
  show ?thesis
  proof (rule exI [of _ fk_key], rule exI, intro conjI)
    show "default_fk_key r (cls_name pcl) (dict_get (fk_options (rel_info r)) ''key'' PNone) =
            Inr fk_key" by (rule p(1))
    show "lookup_table st' (cls_table cl) =
        Some (t\<lparr>t_columns := t_columns t @ new,
               t_constraints := t_constraints t @
                 (if new = [] then []
                  else [sa_ForeignKeyConstraint fks (t_primary_key pt) (fk_forwarded (rel_info r))])\<rparr>)"
      by (rule p(3))
    show "\<forall>k \<in> set (t_constraints (t\<lparr>t_columns := t_columns t @ new,
               t_constraints := t_constraints t @
                 (if new = [] then []
                  else [sa_ForeignKeyConstraint fks (t_primary_key pt) (fk_forwarded (rel_info r))])\<rparr>))
              - set (t_constraints t).
              k_refcolumns k = t_primary_key pt \<and>
              list_all2 (\<lambda>pk fk. join_filter fk_key (c_name pk) = Inr (c_name fk) \<and>
                           fk \<in> set (t_columns (t\<lparr>t_columns := t_columns t @ new,
               t_constraints := t_constraints t @
                 (if new = [] then []
                  else [sa_ForeignKeyConstraint fks (t_primary_key pt) (fk_forwarded (rel_info r))])\<rparr>)))
                (k_refcolumns k) (k_columns k)"
      using p(2) by (auto simp: sa_ForeignKeyConstraint_def)
  qed
qed

text \<open>
  Claim C9. Every generated constraint pairs its columns positionally with the referenced
  primary key. This fails for a many-to-many relation of a class to itself: both generated
  columns are filed under the one table, and the single constraint has two columns for one
  referenced primary-key column. \<^verbatim>\<open>Node\<close> declares
  \<^verbatim>\<open>ManyToMany("Node", table_name="links")\<close>.
\<close>

theorem self_referential_constraint_unpaired:
  "case ManyToMany ''Node'' (Some ''links'') [] ''Node'' node_state of
     Inl e \<Rightarrow> False
   | Inr (r, s1) \<Rightarrow>
       (case declare_first_relationships_handler ''Node'' s1 of
          Inl e \<Rightarrow> False
        | Inr (rs, s2) \<Rightarrow>
            (case lookup_table s2 (0, ''links'') of
               None \<Rightarrow> False
             | Some tab \<Rightarrow>
                 map (\<lambda>k. (map c_name (k_columns k), map c_name (k_refcolumns k)))
                   (t_constraints tab) = [([''node_id'', ''node_id''], [''id''])]))"
  by code_simp

section \<open>Two declarations of one association table\<close>

text \<open>
  For tables without a schema, a second relation with the same \<^verbatim>\<open>table_name\<close> in the
  same metadata finds the table that the first one's resolution left.
\<close>

lemma association_table_shared:
  assumes run: "add_association_table c child r st = Inr (r', st')"
    and sec: "rel_secondary r = PNone"
    and tn: "dict_get (rel_info r) ''table_name'' PNone = PStr n"
    and cl: "classes st c = Some cl" and ct: "lookup_table st (cls_table cl) = Some tc"
    and ns: "t_schema tc = None"
    and sec': "rel_secondary m = PNone"
    and tn': "dict_get (rel_info m) ''table_name'' PNone = PStr n"
    and dcl: "classes st d = Some dcl" and md: "cls_metadata dcl = cls_metadata cl"
  shows "rel_secondary r' = PTable (cls_metadata cl, n) \<and>
         add_association_table d other m st' =
           Inr (m\<lparr>rel_secondary := PTable (cls_metadata cl, n)\<rparr>, st')"
proof -
  have a: "rel_secondary r' = PTable (cls_metadata cl, n) \<and>
           metadata_tables st' (cls_metadata cl) n \<noteq> None"
  proof (cases "metadata_tables st (cls_metadata cl) n")
    case None
    with run sec tn cl ct ns obtain cols cons kw where
      "sa_Table n (cls_metadata cl) cols cons None kw st =
         Inr ((cls_metadata cl, n), st')" "r' = r\<lparr>rel_secondary := PTable (cls_metadata cl, n)\<rparr>"
      by (auto simp: add_association_table_def tables_get_def Let_def sa_Table_def table_key_def
          split: sum.splits option.splits if_splits)
    then show ?thesis
      by (auto simp: sa_Table_def Let_def store_table_def table_key_def split: if_splits)
  next
    case (Some tab)
    with run sec tn cl show ?thesis
      by (auto simp: add_association_table_def tables_get_def)
  qed
  from add_association_table_post [OF run] dcl have "classes st' d = Some dcl" by simp
  from add_association_table_found [OF sec' this tn', of other] a md show ?thesis by simp
qed

lemma shared_table_without_schema:
  "case declare_both demo_state of
     Inl e \<Rightarrow> False
   | Inr s2 \<Rightarrow>
       (case declare_first_relationships_handler ''ModelOne'' s2 of
          Inl e \<Rightarrow> False
        | Inr (rs1, s3) \<Rightarrow>
            map rel_secondary rs1 = [PTable (0, ''m1m2s'')] \<and>
            (case declare_first_relationships_handler ''ModelTwo'' s3 of
               Inl e \<Rightarrow> False
             | Inr (rs2, s4) \<Rightarrow>
                 map rel_secondary rs2 = [PTable (0, ''m1m2s'')] \<and>
                 lookup_table s4 (0, ''m1m2s'') = lookup_table s3 (0, ''m1m2s'')))"
  by code_simp

text \<open>
  Claim C7. For two \<^verbatim>\<open>ManyToMany\<close> declarations linked by \<^verbatim>\<open>back_populates\<close> that supply
  the same \<^verbatim>\<open>table_name\<close>, the side resolved first creates the table and the other side
  finds it by name. This fails where the tables of the models have a schema: the first
  side files the table under \<^verbatim>\<open>app.m1m2s\<close>, the second side looks up \<^verbatim>\<open>m1m2s\<close>, finds
  nothing, and its attempt to create the table again is an \<^verbatim>\<open>InvalidRequestError\<close>.
\<close>

theorem shared_table_with_schema_fails:
  "case declare_both schema_state of
     Inl e \<Rightarrow> False
   | Inr s2 \<Rightarrow>
       (case declare_first_relationships_handler ''ModelOne'' s2 of
          Inl e \<Rightarrow> False
        | Inr (rs1, s3) \<Rightarrow>
            map rel_secondary rs1 = [PTable (0, ''app.m1m2s'')] \<and>
            (case lookup_table s3 (0, ''app.m1m2s'') of
               None \<Rightarrow> False
             | Some tab \<Rightarrow> t_name tab = ''m1m2s'' \<and> t_schema tab = Some ''app'') \<and>
            lookup_table s3 (0, ''m1m2s'') = None \<and>
            (case declare_first_relationships_handler ''ModelTwo'' s3 of
               Inl e \<Rightarrow> e = InvalidRequestError
             | Inr x \<Rightarrow> False))"
  by code_simp

end
